(* ===== verification/Prelude.thy ===== *)
theory Prelude
  imports Complex_Main "HOL-Library.Sublist"
begin

text \<open>
  Shared vocabulary of the development: the collections of evaluation rules used by the
  witnesses, the clock reading every browser event carries, the bounded-suffix operation the
  log buffer refines to, and generic lemmas on lists, options and rational numerals that the
  component theories use through \<open>simp add:\<close>.
\<close>

named_theorems js_eval \<open>definitions unfolded to evaluate a model on a concrete input\<close>
named_theorems emit_simps \<open>algebra of handler effects and completions\<close>

text \<open>
  \<open>new Date().toLocaleTimeString()\<close> is read by the code when a log entry or a signal
  item is created. The model takes that reading as an input of each event.
\<close>

type_synonym clock = string

subsection \<open>The last \<open>n\<close> elements of a list\<close>

definition keep_last :: "nat \<Rightarrow> 'a list \<Rightarrow> 'a list" where
  "keep_last n xs = drop (length xs - n) xs"

lemma length_keep_last [simp]: "length (keep_last n xs) = min n (length xs)"
  by (simp add: keep_last_def)

lemma keep_last_id [simp]: "length xs \<le> n \<Longrightarrow> keep_last n xs = xs"
  by (simp add: keep_last_def)

lemma keep_last_suffix: "suffix (keep_last n xs) xs"
  by (simp add: keep_last_def suffix_drop)

lemma keep_last_snoc:
  "keep_last n (keep_last n xs @ [x]) = keep_last n (xs @ [x])"
proof (cases "length xs \<le> n")
  case True
  then show ?thesis by simp
next
  case False
  then have "Suc (length xs) - n = Suc (length xs - n)"
    by simp
  with False show ?thesis
    by (simp add: keep_last_def min_def)
qed

lemma keep_last_append_keep_last:
  "keep_last n (keep_last n xs @ ys) = keep_last n (xs @ ys)"
proof (cases "length xs \<le> n")
  case True
  then show ?thesis by simp
next
  case False
  then have "keep_last n (keep_last n xs @ ys) = drop (length ys) (drop (length xs - n) xs @ ys)"
    by (simp add: keep_last_def)
  also have "\<dots> = drop (length ys + (length xs - n)) (xs @ ys)"
    using False by (simp add: drop_drop [symmetric] drop_append)
  also have "length ys + (length xs - n) = length (xs @ ys) - n"
    using False by simp
  finally show ?thesis by (simp add: keep_last_def)
qed

lemma keep_last_last [simp]: "0 < n \<Longrightarrow> last (keep_last n (xs @ [x])) = x"
  by (simp add: keep_last_def)

text \<open>\<open>Array.prototype.join(sep)\<close> on strings.\<close>

fun join_with :: "string \<Rightarrow> string list \<Rightarrow> string" where
  "join_with sep [] = []"
| "join_with sep [x] = x"
| "join_with sep (x # xs) = x @ sep @ join_with sep xs"

subsection \<open>Rational numerals\<close>

text \<open>The simplifier evaluates \<open>floor\<close> of a literal fraction through integer division.\<close>

lemma floor_numeral_div_rat [simp]:
  "floor (numeral a / numeral b :: rat) = numeral a div numeral b"
  using floor_divide_of_int_eq [where 'a = rat, of "numeral a" "numeral b"] by simp

lemma floor_neg_numeral_div_rat [simp]:
  "floor (- numeral a / numeral b :: rat) = - numeral a div numeral b"
  using floor_divide_of_int_eq [where 'a = rat, of "- numeral a" "numeral b"] by simp

lemma floor_one_div_rat [simp]:
  "floor (1 / numeral b :: rat) = 1 div numeral b"
  using floor_divide_of_int_eq [where 'a = rat, of 1 "numeral b"] by simp

lemma floor_neg_one_div_rat [simp]:
  "floor (- 1 / numeral b :: rat) = - 1 div numeral b"
  using floor_divide_of_int_eq [where 'a = rat, of "- 1" "numeral b"] by simp

subsection \<open>Evaluation of list functions on numerals\<close>

lemma replicate_eval [js_eval]:
  "replicate n c = (if n = 0 then [] else c # replicate (n - 1) c)"
  by (cases n) simp_all

subsection \<open>Options\<close>

lemma map_option_eq_None_iff: "(map_option f x = None) = (x = None)"
  by simp

lemma case_option_same [simp]: "(case x of None \<Rightarrow> y | Some _ \<Rightarrow> y) = y"
  by (cases x) simp_all

end
