(* ===== verification/JsNumber.thy ===== *)
theory JsNumber
  imports Prelude
begin

text \<open>
  JavaScript number formatting and parsing, as the two clients use it:
  \<open>Number.prototype.toFixed\<close>, \<open>toLocaleString\<close> in the \<open>en-US\<close> locale (with and
  without \<open>minimumFractionDigits\<close>/\<open>maximumFractionDigits\<close>), \<open>String(n)\<close>,
  \<open>parseFloat\<close> and \<open>parseInt\<close>. A JavaScript number is modelled by the rational value
  it denotes: every finite double is a rational, and JSON carries no \<open>NaN\<close> or
  \<open>Infinity\<close>. Values are read as the decimal literal the server sent (the binary
  rounding of the double is not modelled), so \<open>toFixed\<close> rounds exact decimals.
\<close>

subsection \<open>Decimal digits\<close>

definition digit_char :: "nat \<Rightarrow> char" where
  "digit_char d =
     (if d = 0 then CHR ''0'' else if d = 1 then CHR ''1'' else if d = 2 then CHR ''2''
      else if d = 3 then CHR ''3'' else if d = 4 then CHR ''4'' else if d = 5 then CHR ''5''
      else if d = 6 then CHR ''6'' else if d = 7 then CHR ''7'' else if d = 8 then CHR ''8''
      else CHR ''9'')"

definition char_digit :: "char \<Rightarrow> nat option" where
  "char_digit c =
     (if c = CHR ''9'' then Some 9 else if c = CHR ''8'' then Some 8
      else if c = CHR ''7'' then Some 7 else if c = CHR ''6'' then Some 6
      else if c = CHR ''5'' then Some 5 else if c = CHR ''4'' then Some 4
      else if c = CHR ''3'' then Some 3 else if c = CHR ''2'' then Some 2
      else if c = CHR ''1'' then Some 1 else if c = CHR ''0'' then Some 0 else None)"

definition is_digit :: "char \<Rightarrow> bool" where
  "is_digit c = (char_digit c \<noteq> None)"

text \<open>The decimal notation of a natural number, most significant digit first.\<close>

fun nat_to_dec :: "nat \<Rightarrow> string" where
  "nat_to_dec n =
     (if n < 10 then [digit_char n] else nat_to_dec (n div 10) @ [digit_char (n mod 10)])"

declare nat_to_dec.simps [simp del]
declare nat_to_dec.simps [js_eval] digit_char_def [js_eval] char_digit_def [js_eval]
  is_digit_def [js_eval]

text \<open>Reading a digit string back, as the accumulating loop of a decimal parser does.\<close>

fun dec_acc :: "nat \<Rightarrow> string \<Rightarrow> nat option" where
  "dec_acc acc [] = Some acc"
| "dec_acc acc (c # cs) =
     (case char_digit c of None \<Rightarrow> None | Some d \<Rightarrow> dec_acc (10 * acc + d) cs)"

definition dec_value :: "string \<Rightarrow> nat option" where
  "dec_value s = (if s = [] then None else dec_acc 0 s)"

subsection \<open>Digits: basic facts\<close>

lemma digit_char_digit [simp]: "d < 10 \<Longrightarrow> char_digit (digit_char d) = Some d"
proof -
  assume "d < 10"
  then have "d \<in> {0, 1, 2, 3, 4, 5, 6, 7, 8, 9}" by auto
  then show ?thesis by (auto simp: digit_char_def char_digit_def)
qed

lemma is_digit_digit_char [simp]: "d < 10 \<Longrightarrow> is_digit (digit_char d)"
  by (simp add: is_digit_def)

lemma char_digit_Some_less: "char_digit c = Some d \<Longrightarrow> d < 10"
  by (simp add: char_digit_def split: if_splits)

lemma nat_to_dec_ne [simp]: "nat_to_dec n \<noteq> []"
  by (subst nat_to_dec.simps) simp

lemma nat_to_dec_digits: "c \<in> set (nat_to_dec n) \<Longrightarrow> is_digit c"
proof (induction n rule: nat_to_dec.induct)
  case (1 n)
  show ?case
  proof (cases "n < 10")
    case True
    with "1.prems" show ?thesis by (simp add: nat_to_dec.simps [of n])
  next
    case False
    with "1.prems" have "c \<in> set (nat_to_dec (n div 10)) \<or> c = digit_char (n mod 10)"
      by (auto simp: nat_to_dec.simps [of n])
    with False "1.IH" show ?thesis by auto
  qed
qed

lemma dec_acc_append:
  "dec_acc acc (xs @ ys) = (case dec_acc acc xs of None \<Rightarrow> None | Some a \<Rightarrow> dec_acc a ys)"
  by (induction acc xs rule: dec_acc.induct) (simp_all split: option.splits)

lemma dec_acc_nat_to_dec:
  "dec_acc acc (nat_to_dec n) = Some (acc * 10 ^ length (nat_to_dec n) + n)"
proof (induction n arbitrary: acc rule: nat_to_dec.induct)
  case (1 n)
  show ?case
  proof (cases "n < 10")
    case True
    then show ?thesis by (simp add: nat_to_dec.simps [of n])
  next
    case False
    let ?L = "length (nat_to_dec (n div 10))"
    have "dec_acc acc (nat_to_dec n)
        = dec_acc (acc * 10 ^ ?L + n div 10) [digit_char (n mod 10)]"
      using False "1.IH" by (simp add: nat_to_dec.simps [of n] dec_acc_append)
    also have "\<dots> = Some (10 * (acc * 10 ^ ?L + n div 10) + n mod 10)"
      by simp
    also have "10 * (acc * 10 ^ ?L + n div 10) + n mod 10 = acc * 10 ^ Suc ?L + n"
      by (simp add: algebra_simps)
    finally show ?thesis
      using False by (simp add: nat_to_dec.simps [of n])
  qed
qed

text \<open>Decimal notation and reading are inverse: printing a count and parsing it back.\<close>

theorem dec_value_nat_to_dec: "dec_value (nat_to_dec n) = Some n"
  by (simp add: dec_value_def dec_acc_nat_to_dec)

corollary nat_to_dec_inj: "nat_to_dec m = nat_to_dec n \<Longrightarrow> m = n"
  by (metis dec_value_nat_to_dec option.inject)

subsection \<open>\<open>String(n)\<close>: ECMAScript Number::toString\<close>

text \<open>
  Number::toString writes \<open>x = s \<times> 10^(n-k)\<close>, \<open>s\<close> a \<open>k\<close>-digit integer not divisible
  by ten, in plain notation when \<open>-6 < n \<le> 21\<close> and in exponent notation otherwise.
  The significant digits of a finite decimal are found by scaling it by the least power of
  ten that makes it integral (\<open>dec_places\<close>, searching at most 40 places, enough for
  every JSON literal the server produces).
\<close>

definition is_int_rat :: "rat \<Rightarrow> bool" where
  "is_int_rat x = (x = of_int (floor x))"

fun dec_places :: "nat \<Rightarrow> nat \<Rightarrow> rat \<Rightarrow> nat option" where
  "dec_places 0 e x = None"
| "dec_places (Suc fuel) e x = (if is_int_rat (x * 10 ^ e) then Some e else dec_places fuel (Suc e) x)"

fun strip_zeros :: "nat \<Rightarrow> nat \<times> nat" where
  "strip_zeros n =
     (if n \<noteq> 0 \<and> n mod 10 = 0 then (case strip_zeros (n div 10) of (m, z) \<Rightarrow> (m, Suc z))
      else (n, 0))"

declare strip_zeros.simps [simp del]

definition ecma_digits :: "nat \<Rightarrow> nat \<Rightarrow> string \<times> int" where
  "ecma_digits M e =
     (case strip_zeros M of (s, z) \<Rightarrow>
        (nat_to_dec s, int (length (nat_to_dec s)) + int z - int e))"

definition ecma_format :: "string \<times> int \<Rightarrow> string" where
  "ecma_format p =
     (case p of (ds, n) \<Rightarrow>
        if int (length ds) \<le> n \<and> n \<le> 21 then ds @ replicate (nat (n - int (length ds))) (CHR ''0'')
        else if 0 < n \<and> n \<le> 21 then take (nat n) ds @ ''.'' @ drop (nat n) ds
        else if - 6 < n \<and> n \<le> 0 then ''0.'' @ replicate (nat (- n)) (CHR ''0'') @ ds
        else (if length ds = 1 then ds else take 1 ds @ ''.'' @ drop 1 ds) @ ''e''
             @ (if 0 \<le> n - 1 then ''+'' else ''-'') @ nat_to_dec (nat \<bar>n - 1\<bar>))"

text \<open>
  The value \<open>\<lfloor>|x| \<cdot> 10^f + 1/2\<rfloor>\<close> is the integer \<open>n\<close> for which \<open>n / 10^f - |x|\<close>
  is closest to zero, the larger one on a tie: the rounding of \<open>toFixed\<close> (ECMA-262
  Number.prototype.toFixed, step 10) and the \<open>halfExpand\<close> rounding of \<open>Intl\<close>.
\<close>

definition round_half_up :: "nat \<Rightarrow> rat \<Rightarrow> nat" where
  "round_half_up f x = nat (floor (\<bar>x\<bar> * 10 ^ f + 1 / 2))"

definition js_num_to_string :: "rat \<Rightarrow> string" where
  "js_num_to_string x =
     (if x = 0 then ''0''
      else (if x < 0 then ''-'' else []) @
        ecma_format (case dec_places 40 0 \<bar>x\<bar> of
                       Some e \<Rightarrow> ecma_digits (nat (floor (\<bar>x\<bar> * 10 ^ e))) e
                     | None \<Rightarrow> ecma_digits (round_half_up 20 x) 20))"

subsection \<open>\<open>Number.prototype.toFixed\<close>\<close>

definition insert_point :: "nat \<Rightarrow> string \<Rightarrow> string" where
  "insert_point f m =
     (if f = 0 then m
      else let m' = replicate (f + 1 - length m) (CHR ''0'') @ m in
           take (length m' - f) m' @ ''.'' @ drop (length m' - f) m')"

definition to_fixed :: "nat \<Rightarrow> rat \<Rightarrow> string" where
  "to_fixed f x =
     (if 10 ^ 21 \<le> \<bar>x\<bar> then js_num_to_string x
      else (if x < 0 then ''-'' else []) @ insert_point f (nat_to_dec (round_half_up f x)))"

subsection \<open>\<open>toLocaleString\<close> in the en-US locale\<close>

text \<open>Digit grouping: a comma before every group of three integer digits.\<close>

fun group3 :: "string \<Rightarrow> string" where
  "group3 (a # b # c # d # rest) = a # b # c # CHR '','' # group3 (d # rest)"
| "group3 xs = xs"

definition group_thousands :: "string \<Rightarrow> string" where
  "group_thousands s = rev (group3 (rev s))"

fun drop_zeros_upto :: "nat \<Rightarrow> string \<Rightarrow> string" where
  "drop_zeros_upto (Suc k) (c # cs) = (if c = CHR ''0'' then drop_zeros_upto k cs else c # cs)"
| "drop_zeros_upto _ cs = cs"

definition frac_digits :: "nat \<Rightarrow> nat \<Rightarrow> nat \<Rightarrow> string" where
  "frac_digits mn mx r =
     rev (drop_zeros_upto (mx - mn) (rev (replicate (mx - length (nat_to_dec r)) (CHR ''0'') @ nat_to_dec r)))"

definition intl_body :: "nat \<Rightarrow> nat \<Rightarrow> nat \<Rightarrow> string" where
  "intl_body mn mx n =
     group_thousands (nat_to_dec (n div 10 ^ mx))
     @ (if mx = 0 \<or> frac_digits mn mx (n mod 10 ^ mx) = [] then []
        else ''.'' @ frac_digits mn mx (n mod 10 ^ mx))"

text \<open>
  \<open>Intl.NumberFormat('en-US', {minimumFractionDigits: mn, maximumFractionDigits: mx})\<close>:
  \<open>halfExpand\<close> rounding to \<open>mx\<close> places, trailing zeros dropped down to \<open>mn\<close> places,
  grouping on, and the minus sign on every negative value. \<open>toLocaleString()\<close> with no
  options is \<open>intl_format 0 3\<close>.
\<close>

definition intl_format :: "nat \<Rightarrow> nat \<Rightarrow> rat \<Rightarrow> string" where
  "intl_format mn mx x = (if x < 0 then ''-'' else []) @ intl_body mn mx (round_half_up mx x)"

subsection \<open>\<open>parseFloat\<close> and \<open>parseInt\<close>\<close>

text \<open>
  ECMA-262 \<open>parseFloat\<close>: leading white space is skipped and the longest prefix that is a
  decimal literal (\<open>[+-] digits [. digits] [e [+-] digits]\<close> or \<open>[+-] . digits \<dots>\<close>) is
  read. The result is \<open>None\<close> for \<open>NaN\<close>, and also for \<open>Infinity\<close>: the settings form
  only sends the parsed value through \<open>JSON.stringify\<close>, which writes \<open>null\<close> for both.
  White space is the ASCII white space of the standard (tab, line feed, vertical tab, form
  feed, carriage return, space).
\<close>

definition js_space :: "char \<Rightarrow> bool" where
  "js_space c = (c \<in> {CHR 0x09, CHR 0x0A, CHR 0x0B, CHR 0x0C, CHR 0x0D, CHR '' ''})"

definition digits_value :: "string \<Rightarrow> nat" where
  "digits_value s = (case dec_acc 0 s of Some n \<Rightarrow> n | None \<Rightarrow> 0)"

definition scale10 :: "int \<Rightarrow> rat" where
  "scale10 e = (if 0 \<le> e then 10 ^ nat e else 1 / 10 ^ nat (- e))"

text \<open>An exponent part \<open>e[+-]digits\<close>, if the rest of the input starts with one.\<close>

definition exponent_part :: "string \<Rightarrow> int" where
  "exponent_part r =
     (case r of c # r' \<Rightarrow>
        if c = CHR ''e'' \<or> c = CHR ''E'' then
          (case r' of
             s # r'' \<Rightarrow>
               if s = CHR ''-'' \<and> takeWhile is_digit r'' \<noteq> [] then - int (digits_value (takeWhile is_digit r''))
               else if s = CHR ''+'' \<and> takeWhile is_digit r'' \<noteq> [] then int (digits_value (takeWhile is_digit r''))
               else int (digits_value (takeWhile is_digit r'))
           | [] \<Rightarrow> 0)
        else 0
      | [] \<Rightarrow> 0)"

definition unsigned_decimal :: "string \<Rightarrow> string \<Rightarrow> string \<Rightarrow> rat option" where
  "unsigned_decimal ip fp r =
     (if ip = [] \<and> fp = [] then None
      else Some (of_nat (digits_value (ip @ fp)) / 10 ^ length fp * scale10 (exponent_part r)))"

definition parse_unsigned :: "string \<Rightarrow> rat option" where
  "parse_unsigned t =
     (case dropWhile is_digit t of
        c # r \<Rightarrow>
          if c = CHR ''.'' then unsigned_decimal (takeWhile is_digit t) (takeWhile is_digit r) (dropWhile is_digit r)
          else unsigned_decimal (takeWhile is_digit t) [] (c # r)
      | [] \<Rightarrow> unsigned_decimal t [] [])"

definition parse_float :: "string \<Rightarrow> rat option" where
  "parse_float s =
     (case dropWhile js_space s of
        c # t \<Rightarrow>
          if c = CHR ''-'' then map_option uminus (parse_unsigned t)
          else if c = CHR ''+'' then parse_unsigned t
          else parse_unsigned (c # t)
      | [] \<Rightarrow> None)"

text \<open>
  ECMA-262 \<open>parseInt(s)\<close> with no radix: white space, a sign, then radix 16 after a
  \<open>0x\<close>/\<open>0X\<close> prefix and radix 10 otherwise; the longest run of digits of the radix is
  read, \<open>NaN\<close> (here \<open>None\<close>) when there is none.
\<close>

definition hex_digit :: "char \<Rightarrow> nat option" where
  "hex_digit c =
     (case char_digit c of Some d \<Rightarrow> Some d | None \<Rightarrow>
        if c = CHR ''a'' \<or> c = CHR ''A'' then Some 10 else if c = CHR ''b'' \<or> c = CHR ''B'' then Some 11
        else if c = CHR ''c'' \<or> c = CHR ''C'' then Some 12 else if c = CHR ''d'' \<or> c = CHR ''D'' then Some 13
        else if c = CHR ''e'' \<or> c = CHR ''E'' then Some 14 else if c = CHR ''f'' \<or> c = CHR ''F'' then Some 15
        else None)"

fun hex_acc :: "nat \<Rightarrow> string \<Rightarrow> nat" where
  "hex_acc acc [] = acc"
| "hex_acc acc (c # cs) = (case hex_digit c of Some d \<Rightarrow> hex_acc (16 * acc + d) cs | None \<Rightarrow> acc)"

definition parse_int_unsigned :: "string \<Rightarrow> int option" where
  "parse_int_unsigned t =
     (case t of
        z # x # r \<Rightarrow>
          if z = CHR ''0'' \<and> (x = CHR ''x'' \<or> x = CHR ''X'') then
            (if takeWhile (\<lambda>c. hex_digit c \<noteq> None) r = [] then None else Some (int (hex_acc 0 r)))
          else if takeWhile is_digit t = [] then None else Some (int (digits_value (takeWhile is_digit t)))
      | _ \<Rightarrow> if takeWhile is_digit t = [] then None else Some (int (digits_value (takeWhile is_digit t))))"

definition parse_int :: "string \<Rightarrow> int option" where
  "parse_int s =
     (case dropWhile js_space s of
        c # t \<Rightarrow>
          if c = CHR ''-'' then map_option uminus (parse_int_unsigned t)
          else if c = CHR ''+'' then parse_int_unsigned t
          else parse_int_unsigned (c # t)
      | [] \<Rightarrow> None)"

text \<open>The value that \<open>toFixed f x\<close> denotes: \<open>x\<close> rounded half away from zero to \<open>f\<close> places.\<close>

definition fixed_value :: "nat \<Rightarrow> rat \<Rightarrow> rat" where
  "fixed_value f x = (if x < 0 then - 1 else 1) * of_nat (round_half_up f x) / 10 ^ f"

text \<open>Unfolding rules for closed arguments written as numerals.\<close>

lemma dec_places_eval [js_eval]:
  "dec_places n e x =
     (if n = 0 then None else if is_int_rat (x * 10 ^ e) then Some e else dec_places (n - 1) (Suc e) x)"
  by (cases n) simp_all

lemma drop_zeros_upto_eval [js_eval]:
  "drop_zeros_upto k cs =
     (case cs of [] \<Rightarrow> [] | c # cs' \<Rightarrow>
        if k = 0 then cs else if c = CHR ''0'' then drop_zeros_upto (k - 1) cs' else cs)"
  by (cases k; cases cs) simp_all

declare fixed_value_def [js_eval] is_int_rat_def [js_eval] js_space_def [js_eval] digits_value_def [js_eval] scale10_def [js_eval]
  exponent_part_def [js_eval] unsigned_decimal_def [js_eval] parse_unsigned_def [js_eval]
  parse_float_def [js_eval] hex_digit_def [js_eval] parse_int_unsigned_def [js_eval] parse_int_def [js_eval]
  strip_zeros.simps [js_eval] ecma_digits_def [js_eval]
  ecma_format_def [js_eval] round_half_up_def [js_eval] js_num_to_string_def [js_eval]
  insert_point_def [js_eval] to_fixed_def [js_eval] group_thousands_def [js_eval]
  frac_digits_def [js_eval] intl_body_def [js_eval] intl_format_def [js_eval]


subsection \<open>Round trips between printing and parsing\<close>

lemma is_digit_not_space: "is_digit c \<Longrightarrow> \<not> js_space c"
  by (auto simp: is_digit_def char_digit_def js_space_def split: if_splits)

lemma is_digit_not_point [simp]: "\<not> is_digit CHR ''.''"
  by (simp add: is_digit_def char_digit_def)

lemma not_space_minus [simp]: "\<not> js_space CHR ''-''"
  by (simp add: js_space_def)

lemma dec_acc_zeros: "dec_acc 0 (replicate k (CHR ''0'') @ m) = dec_acc 0 m"
  by (induction k) (simp_all add: char_digit_def)

lemma digits_value_zeros: "digits_value (replicate k (CHR ''0'') @ m) = digits_value m"
  by (simp add: digits_value_def dec_acc_zeros)

lemma digits_value_nat_to_dec [simp]: "digits_value (nat_to_dec n) = n"
  using dec_acc_nat_to_dec [of 0 n] by (simp add: digits_value_def)

lemma is_digit_zero [simp]: "is_digit CHR ''0''"
  by (simp add: is_digit_def char_digit_def)

lemma takeWhile_all: "\<forall>c \<in> set b. P c \<Longrightarrow> takeWhile P b = b"
  by simp

lemma dropWhile_all: "\<forall>c \<in> set b. P c \<Longrightarrow> dropWhile P b = []"
  by simp

lemma parse_unsigned_point:
  assumes "\<forall>c \<in> set a. is_digit c" "\<forall>c \<in> set b. is_digit c" "a \<noteq> []"
  shows "parse_unsigned (a @ ''.'' @ b) = Some (of_nat (digits_value (a @ b)) / 10 ^ length b)"
proof -
  have tw: "takeWhile is_digit (a @ ''.'' @ b) = a"
    using assms(1) by (simp add: takeWhile_append2)
  have dw: "dropWhile is_digit (a @ ''.'' @ b) = ''.'' @ b"
    using assms(1) by (simp add: dropWhile_append2)
  from tw dw assms(2,3) show ?thesis
    by (simp add: parse_unsigned_def unsigned_decimal_def exponent_part_def scale10_def
        takeWhile_all [of b] dropWhile_all [of b])
qed

lemma parse_unsigned_digits:
  assumes "\<forall>c \<in> set a. is_digit c" "a \<noteq> []"
  shows "parse_unsigned a = Some (of_nat (digits_value a))"
proof -
  from assms show ?thesis
    by (simp add: parse_unsigned_def unsigned_decimal_def exponent_part_def scale10_def
        dropWhile_all [of a])
qed

lemma insert_point_split:
  assumes "0 < f"
  obtains a b where "insert_point f m = a @ ''.'' @ b" "a @ b = replicate (f + 1 - length m) (CHR ''0'') @ m"
    "length b = f" "a \<noteq> []"
proof -
  let ?m' = "replicate (f + 1 - length m) (CHR ''0'') @ m"
  have len: "f + 1 \<le> length ?m'" by simp
  show ?thesis
  proof
    show "insert_point f m = take (length ?m' - f) ?m' @ ''.'' @ drop (length ?m' - f) ?m'"
      using assms by (simp add: insert_point_def Let_def)
    show "take (length ?m' - f) ?m' @ drop (length ?m' - f) ?m' = ?m'"
      by (rule append_take_drop_id)
    show "length (drop (length ?m' - f) ?m') = f" using len by simp
    show "take (length ?m' - f) ?m' \<noteq> []" using len by (cases m) auto
  qed
qed

lemma parse_float_signed:
  assumes "parse_unsigned s = Some v" "s \<noteq> []" "\<not> js_space (hd s)" "hd s \<noteq> CHR ''-''" "hd s \<noteq> CHR ''+''"
  shows "parse_float ((if neg then ''-'' else []) @ s) = Some ((if neg then - 1 else 1) * v)"
  using assms by (cases s) (auto simp: parse_float_def)

lemma is_digit_hd_digits:
  "\<forall>c \<in> set s. is_digit c \<Longrightarrow> s \<noteq> [] \<Longrightarrow> \<not> js_space (hd s) \<and> hd s \<noteq> CHR ''-'' \<and> hd s \<noteq> CHR ''+''"
  by (cases s) (auto simp: is_digit_def char_digit_def js_space_def split: if_splits)

lemma nat_to_dec_all_digits: "\<forall>c \<in> set (nat_to_dec n). is_digit c"
  using nat_to_dec_digits by blast

lemma parse_unsigned_insert_point:
  "parse_unsigned (insert_point f (nat_to_dec n)) = Some (of_nat n / 10 ^ f)
   \<and> \<not> js_space (hd (insert_point f (nat_to_dec n)))
   \<and> hd (insert_point f (nat_to_dec n)) \<noteq> CHR ''-'' \<and> hd (insert_point f (nat_to_dec n)) \<noteq> CHR ''+''
   \<and> insert_point f (nat_to_dec n) \<noteq> []"
proof (cases "f = 0")
  case True
  then show ?thesis
    using parse_unsigned_digits [OF nat_to_dec_all_digits] is_digit_hd_digits [OF nat_to_dec_all_digits]
    by (simp add: insert_point_def)
next
  case False
  then have "0 < f" by simp
  then obtain a b where ip: "insert_point f (nat_to_dec n) = a @ ''.'' @ b"
    and ab: "a @ b = replicate (f + 1 - length (nat_to_dec n)) (CHR ''0'') @ nat_to_dec n"
    and lb: "length b = f" and a: "a \<noteq> []"
    by (rule insert_point_split [where m = "nat_to_dec n"])
  have digits: "\<forall>c \<in> set (a @ b). is_digit c"
    unfolding ab using nat_to_dec_all_digits by auto
  then have da: "\<forall>c \<in> set a. is_digit c" and db: "\<forall>c \<in> set b. is_digit c" by auto
  have "digits_value (a @ b) = n"
    unfolding ab by (simp add: digits_value_zeros)
  with parse_unsigned_point [OF da db a] lb have "parse_unsigned (a @ ''.'' @ b) = Some (of_nat n / 10 ^ f)"
    by simp
  moreover have "\<not> js_space (hd (a @ ''.'' @ b)) \<and> hd (a @ ''.'' @ b) \<noteq> CHR ''-'' \<and> hd (a @ ''.'' @ b) \<noteq> CHR ''+''"
    using is_digit_hd_digits [OF da a] a by simp
  ultimately show ?thesis using ip by simp
qed

text \<open>
  Round trip: the string \<open>toFixed\<close> prints reads back, through \<open>parseFloat\<close>, as the
  rounded value, and that value is within half a unit of the last place of the input.
\<close>

lemma to_fixed_roundtrip:
  assumes "\<bar>x\<bar> < 10 ^ 21"
  shows "parse_float (to_fixed f x) = Some (fixed_value f x)"
proof -
  have "to_fixed f x = (if x < 0 then ''-'' else []) @ insert_point f (nat_to_dec (round_half_up f x))"
    using assms by (simp add: to_fixed_def)
  then show ?thesis
    using parse_float_signed [where neg = "x < 0"] parse_unsigned_insert_point [of f "round_half_up f x"]
    by (simp add: fixed_value_def)
qed

lemma round_half_up_bound: "\<bar>of_nat (round_half_up f x) - \<bar>x\<bar> * 10 ^ f\<bar> \<le> (1 / 2 :: rat)"
proof -
  let ?y = "\<bar>x\<bar> * 10 ^ f + 1 / 2 :: rat"
  have "0 \<le> ?y" by simp
  then have pos: "0 \<le> floor ?y" by simp
  have lo: "of_int (floor ?y) \<le> ?y" and hi: "?y < of_int (floor ?y) + 1"
    using floor_correct [of ?y] by simp_all
  have eq: "of_nat (round_half_up f x) = (of_int (floor ?y) :: rat)"
    using pos by (simp add: round_half_up_def)
  show ?thesis
    unfolding abs_le_iff eq using lo hi by linarith
qed

lemma to_fixed_error:
  "\<bar>fixed_value f x - x\<bar> \<le> 1 / (2 * 10 ^ f)"
proof -
  have p: "(0 :: rat) < 10 ^ f" by simp
  have "\<bar>of_nat (round_half_up f x) / 10 ^ f - \<bar>x\<bar>\<bar> = \<bar>of_nat (round_half_up f x) - \<bar>x\<bar> * 10 ^ f\<bar> / 10 ^ f"
    using p by (simp add: abs_div_pos diff_divide_distrib)
  also have "\<dots> \<le> (1 / 2) / 10 ^ f"
    by (intro divide_right_mono round_half_up_bound) simp
  finally have b: "\<bar>of_nat (round_half_up f x) / 10 ^ f - \<bar>x\<bar>\<bar> \<le> 1 / (2 * 10 ^ f)" by simp
  show ?thesis
  proof (cases "x < 0")
    case True
    then have "fixed_value f x - x = - (of_nat (round_half_up f x) / 10 ^ f - \<bar>x\<bar>)"
      by (simp add: fixed_value_def)
    with b show ?thesis by (simp only: abs_minus_cancel)
  next
    case False
    then show ?thesis using b by (simp add: fixed_value_def)
  qed
qed

lemma filter_group3: "filter (\<lambda>c. c \<noteq> CHR '','') (group3 xs) = filter (\<lambda>c. c \<noteq> CHR '','') xs"
  by (induction xs rule: group3.induct) auto

lemma group_thousands_ungroup:
  "CHR '','' \<notin> set s \<Longrightarrow> filter (\<lambda>c. c \<noteq> CHR '','') (group_thousands s) = s"
  by (simp add: group_thousands_def rev_filter [symmetric] filter_group3 filter_id_conv) blast

subsection \<open>The digit search terminates on decimals\<close>

lemma dec_places_found:
  "is_int_rat (x * 10 ^ (e0 + j)) \<Longrightarrow> j < fuel \<Longrightarrow>
   \<exists>k. dec_places fuel e0 x = Some k \<and> e0 \<le> k \<and> k \<le> e0 + j"
proof (induction fuel arbitrary: e0 j)
  case 0
  then show ?case by simp
next
  case (Suc fuel)
  show ?case
  proof (cases "is_int_rat (x * 10 ^ e0)")
    case True
    then show ?thesis by simp
  next
    case False
    with Suc.prems obtain j' where j: "j = Suc j'" by (cases j) auto
    with Suc.prems have "is_int_rat (x * 10 ^ (Suc e0 + j'))" "j' < fuel" by simp_all
    from Suc.IH [OF this] False j show ?thesis by auto
  qed
qed

text \<open>The digit search of \<open>Number::toString\<close> ends within its fuel on every decimal
  with fewer than 40 places, at no more places than the decimal has.\<close>

lemma dec_places_decimal:
  assumes "e < 40"
  shows "\<exists>k \<le> e. dec_places 40 0 \<bar>of_int m / 10 ^ e\<bar> = Some k"
proof -
  have "\<bar>of_int m / 10 ^ e\<bar> * 10 ^ (0 + e) = (of_int \<bar>m\<bar> :: rat)"
    by (simp add: abs_divide)
  then have "is_int_rat (\<bar>of_int m / 10 ^ e\<bar> * 10 ^ (0 + e))"
    by (simp add: is_int_rat_def)
  from dec_places_found [OF this assms] show ?thesis by auto
qed

end
