(* ===== verification/JsValue.thy ===== *)
theory JsValue
  imports JsNumber
begin

text \<open>
  The JavaScript values the two clients receive (JSON payloads of the socket events and of
  the REST responses) and the operations of the language they apply to them: property
  access, optional chaining, truthiness, \<open>String(v)\<close>, \<open>Number(v)\<close>, \<open>toFixed\<close>,
  \<open>toLocaleString\<close>, indexing, and the \<open>TypeError\<close> each throws on \<open>undefined\<close> or
  \<open>null\<close>. A value that may be \<open>undefined\<close> is a \<open>json option\<close>.
\<close>

datatype json =
    JNull
  | JBool bool
  | JNum rat
  | JStr string
  | JArr "json list"
  | JObj "(string \<times> json) list"

type_synonym jsval = "json option"

text \<open>The exceptions the modelled code can meet: \<open>TypeError\<close> (a property of
  \<open>undefined\<close>/\<open>null\<close>, a missing method, a failed \<open>fetch\<close>), the \<open>SyntaxError\<close> of
  \<open>response.json()\<close> on a body that is not JSON, and the \<open>Error\<close> that
  \<open>api-client.js\<close> throws for an HTTP status outside 200--299.\<close>

datatype js_error = TypeError | SyntaxError | HttpError nat

subsection \<open>Property access\<close>

text \<open>\<open>JSON.parse\<close> keeps the last of duplicate keys.\<close>

definition jget :: "json \<Rightarrow> string \<Rightarrow> jsval" where
  "jget v k = (case v of JObj kvs \<Rightarrow> map_of (rev kvs) k | _ \<Rightarrow> None)"

text \<open>\<open>v.k\<close> on a value known not to be \<open>undefined\<close>/\<open>null\<close> (the code tests it
  first), and \<open>v?.k\<close>: \<open>undefined\<close> on a nullish receiver.\<close>

definition jmem :: "jsval \<Rightarrow> string \<Rightarrow> jsval" where
  "jmem v k = (case v of Some j \<Rightarrow> jget j k | None \<Rightarrow> None)"

text \<open>\<open>v.k\<close> in general: a \<open>TypeError\<close> when \<open>v\<close> is \<open>undefined\<close> or \<open>null\<close>.\<close>

definition jprop :: "jsval \<Rightarrow> string \<Rightarrow> js_error + jsval" where
  "jprop v k = (case v of None \<Rightarrow> Inl TypeError | Some JNull \<Rightarrow> Inl TypeError | Some j \<Rightarrow> Inr (jget j k))"

definition nullish :: "jsval \<Rightarrow> bool" where
  "nullish v = (v = None \<or> v = Some JNull)"

text \<open>ToBoolean.\<close>

fun truthy_json :: "json \<Rightarrow> bool" where
  "truthy_json JNull = False"
| "truthy_json (JBool b) = b"
| "truthy_json (JNum r) = (r \<noteq> 0)"
| "truthy_json (JStr s) = (s \<noteq> [])"
| "truthy_json (JArr _) = True"
| "truthy_json (JObj _) = True"

definition truthy :: "jsval \<Rightarrow> bool" where
  "truthy v = (case v of None \<Rightarrow> False | Some j \<Rightarrow> truthy_json j)"

text \<open>\<open>a || b\<close>.\<close>

definition js_or :: "jsval \<Rightarrow> jsval \<Rightarrow> jsval" where
  "js_or a b = (if truthy a then a else b)"

text \<open>\<open>v[i]\<close> on a value that is not nullish: array element, one character of a string,
  the property named by the index's digits on an object, \<open>undefined\<close> otherwise.\<close>

definition jindex :: "json \<Rightarrow> nat \<Rightarrow> jsval" where
  "jindex v i =
     (case v of
        JArr xs \<Rightarrow> if i < length xs then Some (xs ! i) else None
      | JStr s \<Rightarrow> if i < length s then Some (JStr [s ! i]) else None
      | JObj kvs \<Rightarrow> jget (JObj kvs) (nat_to_dec i)
      | _ \<Rightarrow> None)"

subsection \<open>Conversions to strings\<close>

text \<open>ToString; arrays join their elements with commas, writing \<open>null\<close> as nothing.\<close>

fun js_to_string :: "json \<Rightarrow> string" where
  "js_to_string JNull = ''null''"
| "js_to_string (JBool b) = (if b then ''true'' else ''false'')"
| "js_to_string (JNum r) = js_num_to_string r"
| "js_to_string (JStr s) = s"
| "js_to_string (JArr xs) =
     join_with '','' ((map (\<lambda>x. if x = JNull then [] else js_to_string x) xs))"
| "js_to_string (JObj _) = ''[object Object]''"

text \<open>String concatenation \<open>s + v\<close> and template literals: \<open>undefined\<close> prints as such.\<close>

definition jsval_to_string :: "jsval \<Rightarrow> string" where
  "jsval_to_string v = (case v of None \<Rightarrow> ''undefined'' | Some j \<Rightarrow> js_to_string j)"

text \<open>
  \<open>v.toLocaleString(...)\<close> for each kind of value, the number format given as a
  parameter (\<open>intl_format 0 3\<close> with no options); arrays pass it to their elements.
\<close>

fun locale_json :: "(rat \<Rightarrow> string) \<Rightarrow> json \<Rightarrow> string" where
  "locale_json fmt JNull = []"
| "locale_json fmt (JBool b) = (if b then ''true'' else ''false'')"
| "locale_json fmt (JNum r) = fmt r"
| "locale_json fmt (JStr s) = s"
| "locale_json fmt (JArr xs) = join_with '','' ((map (locale_json fmt) xs))"
| "locale_json fmt (JObj _) = ''[object Object]''"

definition js_toLocaleString :: "(rat \<Rightarrow> string) \<Rightarrow> jsval \<Rightarrow> js_error + string" where
  "js_toLocaleString fmt v = (if nullish v then Inl TypeError else Inr (locale_json fmt (the v)))"

text \<open>\<open>v.toFixed(d)\<close>: only numbers have the method.\<close>

definition js_toFixed :: "jsval \<Rightarrow> nat \<Rightarrow> js_error + string" where
  "js_toFixed v d = (case v of Some (JNum r) \<Rightarrow> Inr (to_fixed d r) | _ \<Rightarrow> Inl TypeError)"

subsection \<open>Conversion to numbers\<close>

text \<open>
  ToNumber, with \<open>None\<close> for \<open>NaN\<close>. A string is a number when, white space trimmed, it is
  empty (zero) or a decimal literal as a whole; hexadecimal, binary, octal and
  \<open>Infinity\<close> strings are not modelled and read as \<open>NaN\<close>.
\<close>

definition exponent_rest :: "string \<Rightarrow> string" where
  "exponent_rest r =
     (case r of c # r' \<Rightarrow>
        if c = CHR ''e'' \<or> c = CHR ''E'' then
          (case r' of s # r'' \<Rightarrow>
             if (s = CHR ''-'' \<or> s = CHR ''+'') \<and> takeWhile is_digit r'' \<noteq> [] then dropWhile is_digit r''
             else if takeWhile is_digit r' \<noteq> [] then dropWhile is_digit r' else r
           | [] \<Rightarrow> r)
        else r
      | [] \<Rightarrow> r)"

definition literal_rest :: "string \<Rightarrow> string option" where
  "literal_rest t =
     (let u = (case t of c # r \<Rightarrow> if c = CHR ''-'' \<or> c = CHR ''+'' then r else t | [] \<Rightarrow> []) in
      case dropWhile is_digit u of
        c # r \<Rightarrow>
          if c = CHR ''.'' then
            (if takeWhile is_digit u = [] \<and> takeWhile is_digit r = [] then None
             else Some (exponent_rest (dropWhile is_digit r)))
          else if takeWhile is_digit u = [] then None else Some (exponent_rest (c # r))
      | [] \<Rightarrow> if u = [] then None else Some [])"

definition js_trim :: "string \<Rightarrow> string" where
  "js_trim s = rev (dropWhile js_space (rev (dropWhile js_space s)))"

definition string_to_number :: "string \<Rightarrow> rat option" where
  "string_to_number s =
     (if js_trim s = [] then Some 0
      else if literal_rest (js_trim s) = Some [] then parse_float (js_trim s) else None)"

fun to_number_json :: "json \<Rightarrow> rat option" where
  "to_number_json JNull = Some 0"
| "to_number_json (JBool b) = Some (if b then 1 else 0)"
| "to_number_json (JNum r) = Some r"
| "to_number_json (JStr s) = string_to_number s"
| "to_number_json (JArr xs) = string_to_number (js_to_string (JArr xs))"
| "to_number_json (JObj kvs) = None"

definition js_to_number :: "jsval \<Rightarrow> rat option" where
  "js_to_number v = (case v of None \<Rightarrow> None | Some j \<Rightarrow> to_number_json j)"

text \<open>A relational comparison \<open>v < c\<close>, \<open>v >= c\<close>, \<dots> of a value with a number
  literal: \<open>v\<close> is converted by ToNumber, and every comparison with \<open>NaN\<close> is false.\<close>

definition num_cmp :: "(rat \<Rightarrow> bool) \<Rightarrow> jsval \<Rightarrow> bool" where
  "num_cmp P v = (case js_to_number v of Some r \<Rightarrow> P r | None \<Rightarrow> False)"

text \<open>\<open>n.toFixed(d)\<close> on the result of arithmetic: \<open>NaN\<close> prints as \<open>NaN\<close>.\<close>

definition num_toFixed :: "rat option \<Rightarrow> nat \<Rightarrow> string" where
  "num_toFixed n d = (case n of None \<Rightarrow> ''NaN'' | Some r \<Rightarrow> to_fixed d r)"

declare jget_def [js_eval] jmem_def [js_eval] jprop_def [js_eval] nullish_def [js_eval]
  truthy_def [js_eval] js_or_def [js_eval] jindex_def [js_eval] jsval_to_string_def [js_eval]
  js_toLocaleString_def [js_eval] js_toFixed_def [js_eval] exponent_rest_def [js_eval]
  literal_rest_def [js_eval] js_trim_def [js_eval] string_to_number_def [js_eval]
  js_to_number_def [js_eval] num_cmp_def [js_eval] num_toFixed_def [js_eval]

subsection \<open>Facts about access and conversion\<close>

lemma jprop_truthy [simp]: "truthy v \<Longrightarrow> jprop v k = Inr (jmem v k)"
  by (auto simp: jprop_def jmem_def truthy_def split: option.splits json.splits)

lemma jprop_nullish: "nullish v \<Longrightarrow> jprop v k = Inl TypeError"
  by (auto simp: jprop_def nullish_def)

lemma jprop_not_nullish: "\<not> nullish v \<Longrightarrow> jprop v k = Inr (jmem v k)"
  by (auto simp: jprop_def jmem_def nullish_def split: option.splits json.splits)

lemma truthy_not_nullish: "truthy v \<Longrightarrow> \<not> nullish v"
  by (auto simp: truthy_def nullish_def split: option.splits)

lemma jmem_None [simp]: "jmem None k = None"
  by (simp add: jmem_def)

lemma jmem_JNull [simp]: "jmem (Some JNull) k = None"
  by (simp add: jmem_def jget_def)

lemma jmem_Some_truthy: "jmem (Some j) k = Some v \<Longrightarrow> truthy (Some j)"
  by (cases j) (simp_all add: jmem_def jget_def truthy_def)

lemma js_toFixed_Inr: "js_toFixed v d = Inr s \<longleftrightarrow> (\<exists>r. v = Some (JNum r) \<and> s = to_fixed d r)"
  by (auto simp: js_toFixed_def split: option.splits json.splits)

lemma js_toLocaleString_Inr:
  "\<not> nullish v \<Longrightarrow> js_toLocaleString fmt v = Inr (locale_json fmt (the v))"
  by (simp add: js_toLocaleString_def)

end
