(* ===== verification/Dom.thy ===== *)
theory Dom
  imports JsValue
begin

text \<open>
  The view sink: the page elements both clients write (\<open>document.getElementById\<close> with
  the ids below), the text and class list of each, and the calls the code makes on them:
  \<open>textContent =\<close>/\<open>innerHTML =\<close> (\<open>SetText\<close>), \<open>className =\<close> (\<open>SetClass\<close>) and
  \<open>setKDJColor\<close> of \<open>app.js\<close> (\<open>KdjColor\<close>). Every element the code names is present
  in the page (the markup is not part of the sources). Fixed user-interface texts in Chinese
  are the constructors of \<open>label\<close>.
\<close>

datatype inst = BTC | DOGE

datatype tf = TF4h | TF1h | TF15m | TF1m

datatype band = Upper | Middle | Lower

datatype kline = LineK | LineD | LineJ

datatype elem =
    Price inst | Change inst | Volatility inst | Growth inst | ConditionStatus inst
  | BollEl inst tf band | KdjEl inst tf kline
  | LastUpdate | SignalCount | SignalList | ConnectionStatus | MonitoringStatus

subsection \<open>Element ids of the page\<close>

definition inst_id :: "inst \<Rightarrow> string" where
  "inst_id i = (case i of BTC \<Rightarrow> ''btc'' | DOGE \<Rightarrow> ''doge'')"

definition tf_id :: "tf \<Rightarrow> string" where
  "tf_id t = (case t of TF4h \<Rightarrow> ''4h'' | TF1h \<Rightarrow> ''1h'' | TF15m \<Rightarrow> ''15m'' | TF1m \<Rightarrow> ''1m'')"

definition band_id :: "band \<Rightarrow> string" where
  "band_id b = (case b of Upper \<Rightarrow> ''upper'' | Middle \<Rightarrow> ''middle'' | Lower \<Rightarrow> ''lower'')"

definition kline_id :: "kline \<Rightarrow> string" where
  "kline_id l = (case l of LineK \<Rightarrow> ''k'' | LineD \<Rightarrow> ''d'' | LineJ \<Rightarrow> ''j'')"

fun elem_id :: "elem \<Rightarrow> string" where
  "elem_id (Price i) = inst_id i @ ''-price''"
| "elem_id (Change i) = inst_id i @ ''-change''"
| "elem_id (Volatility i) = inst_id i @ ''-volatility''"
| "elem_id (Growth i) = inst_id i @ ''-growth''"
| "elem_id (ConditionStatus i) = inst_id i @ ''-condition-status''"
| "elem_id (BollEl i t b) = inst_id i @ ''-boll-'' @ tf_id t @ ''-'' @ band_id b"
| "elem_id (KdjEl i t l) = inst_id i @ ''-kdj-'' @ tf_id t @ ''-'' @ kline_id l"
| "elem_id LastUpdate = ''last-update''"
| "elem_id SignalCount = ''signal-count''"
| "elem_id SignalList = ''signal-list''"
| "elem_id ConnectionStatus = ''connection-status''"
| "elem_id MonitoringStatus = ''monitoring-status''"

text \<open>The instrument an element belongs to, if any: the view is partitioned by it.\<close>

fun elem_inst :: "elem \<Rightarrow> inst option" where
  "elem_inst (Price i) = Some i"
| "elem_inst (Change i) = Some i"
| "elem_inst (Volatility i) = Some i"
| "elem_inst (Growth i) = Some i"
| "elem_inst (ConditionStatus i) = Some i"
| "elem_inst (BollEl i _ _) = Some i"
| "elem_inst (KdjEl i _ _) = Some i"
| "elem_inst _ = None"

subsection \<open>Contents and sink calls\<close>

text \<open>
  Fixed texts, written in Chinese in the source: "connected", "not connected",
  "monitoring", "stopped" (\<open>updateConnectionStatus\<close>, \<open>updateMonitoringStatus\<close>),
  "satisfied", "not satisfied" (the condition status) and the "no signals" paragraph of
  the signal list.
\<close>

datatype label =
    LConnected | LDisconnected | LMonitoring | LStopped
  | LSatisfied | LNotSatisfied | LNoSignals

text \<open>One rendered item of the signal list (\<open>app.js\<close> \<open>updateSignals\<close>): its type
  (also its CSS class), whether the buy header is shown, its id and the time it was drawn.\<close>

record signal_item =
  si_type :: string
  si_buy :: bool
  si_id :: string
  si_time :: clock

datatype content = Plain string | Label label | SignalItems "signal_item list"

datatype sink_call =
    SetText elem content
  | SetClass elem "string list"
  | KdjColor elem "rat option"

record dom =
  dom_text :: "elem \<Rightarrow> content"
  dom_class :: "elem \<Rightarrow> string list"

subsection \<open>\<open>classList\<close> and \<open>setKDJColor\<close>\<close>

definition cl_add :: "string \<Rightarrow> string list \<Rightarrow> string list" where
  "cl_add c xs = (if c \<in> set xs then xs else xs @ [c])"

definition cl_remove :: "string list \<Rightarrow> string list \<Rightarrow> string list" where
  "cl_remove cs xs = filter (\<lambda>x. x \<notin> set cs) xs"

text \<open>The oscillator band of \<open>setKDJColor\<close>: oversold at or below 20, overbought at or
  above 80, neutral in between.\<close>

definition kdj_band :: "rat \<Rightarrow> string" where
  "kdj_band v = (if v \<le> 20 then ''oversold'' else if 80 \<le> v then ''overbought'' else ''neutral'')"

text \<open>\<open>value <= 20\<close> and \<open>value >= 80\<close> compare \<open>Number(value)\<close>; both are false
  for \<open>NaN\<close> (\<open>None\<close>), which is drawn neutral.\<close>

definition kdj_class :: "rat option \<Rightarrow> string" where
  "kdj_class v = (case v of Some r \<Rightarrow> kdj_band r | None \<Rightarrow> ''neutral'')"

definition kdj_classes :: "rat option \<Rightarrow> string list \<Rightarrow> string list" where
  "kdj_classes v xs =
     cl_add (kdj_class v)
       (cl_add ''indicator-value''
         (cl_remove [''indicator-value'', ''oversold'', ''overbought'', ''neutral''] xs))"

fun apply_call :: "sink_call \<Rightarrow> dom \<Rightarrow> dom" where
  "apply_call (SetText e c) d = d\<lparr>dom_text := (dom_text d)(e := c)\<rparr>"
| "apply_call (SetClass e cs) d = d\<lparr>dom_class := (dom_class d)(e := cs)\<rparr>"
| "apply_call (KdjColor e v) d = d\<lparr>dom_class := (dom_class d)(e := kdj_classes v (dom_class d e))\<rparr>"

definition dom_apply :: "sink_call list \<Rightarrow> dom \<Rightarrow> dom" where
  "dom_apply cs d = fold apply_call cs d"

fun call_elem :: "sink_call \<Rightarrow> elem" where
  "call_elem (SetText e _) = e"
| "call_elem (SetClass e _) = e"
| "call_elem (KdjColor e _) = e"

text \<open>The texts written to one element, in order, and the class-list operations on it.\<close>

fun text_writes :: "elem \<Rightarrow> sink_call list \<Rightarrow> content list" where
  "text_writes e [] = []"
| "text_writes e (SetText e' c # cs) = (if e' = e then c # text_writes e cs else text_writes e cs)"
| "text_writes e (_ # cs) = text_writes e cs"

datatype class_op = CSet "string list" | CKdj "rat option"

fun class_op_apply :: "class_op \<Rightarrow> string list \<Rightarrow> string list" where
  "class_op_apply (CSet cs) xs = cs"
| "class_op_apply (CKdj v) xs = kdj_classes v xs"

fun class_ops :: "elem \<Rightarrow> sink_call list \<Rightarrow> class_op list" where
  "class_ops e [] = []"
| "class_ops e (SetClass e' cs # rest) = (if e' = e then CSet cs # class_ops e rest else class_ops e rest)"
| "class_ops e (KdjColor e' v # rest) = (if e' = e then CKdj v # class_ops e rest else class_ops e rest)"
| "class_ops e (SetText _ _ # rest) = class_ops e rest"

text \<open>Every element, for the distinctness of the ids.\<close>

definition all_elems :: "elem list" where
  "all_elems =
     concat (map (\<lambda>i. [Price i, Change i, Volatility i, Growth i, ConditionStatus i]
        @ concat (map (\<lambda>t. map (BollEl i t) [Upper, Middle, Lower] @ map (KdjEl i t) [LineK, LineD, LineJ])
                   [TF4h, TF1h, TF15m, TF1m])) [BTC, DOGE])
     @ [LastUpdate, SignalCount, SignalList, ConnectionStatus, MonitoringStatus]"

declare inst_id_def [js_eval] tf_id_def [js_eval] band_id_def [js_eval] kline_id_def [js_eval]
  cl_add_def [js_eval] cl_remove_def [js_eval] kdj_band_def [js_eval] kdj_class_def [js_eval] kdj_classes_def [js_eval]
  dom_apply_def [js_eval]

subsection \<open>The sink as a store: last write wins\<close>


lemma dom_apply_Nil [simp]: "dom_apply [] d = d"
  by (simp add: dom_apply_def)

lemma dom_apply_Cons [simp]: "dom_apply (c # cs) d = dom_apply cs (apply_call c d)"
  by (simp add: dom_apply_def)

lemma dom_apply_append: "dom_apply (cs1 @ cs2) d = dom_apply cs2 (dom_apply cs1 d)"
  by (simp add: dom_apply_def)

lemma dom_text_apply:
  "dom_text (dom_apply cs d) e = (if text_writes e cs = [] then dom_text d e else last (text_writes e cs))"
proof (induction cs arbitrary: d)
  case Nil
  then show ?case by simp
next
  case (Cons c cs)
  then show ?case by (cases c) auto
qed

lemma dom_class_apply:
  "dom_class (dom_apply cs d) e = fold class_op_apply (class_ops e cs) (dom_class d e)"
proof (induction cs arbitrary: d)
  case Nil
  then show ?case by simp
next
  case (Cons c cs)
  then show ?case by (cases c) auto
qed

lemma cl_remove_kdj_classes:
  "cl_remove [''indicator-value'', ''oversold'', ''overbought'', ''neutral''] (kdj_classes v xs)
   = cl_remove [''indicator-value'', ''oversold'', ''overbought'', ''neutral''] xs"
  by (auto simp: kdj_classes_def cl_add_def cl_remove_def kdj_class_def kdj_band_def split: option.splits)

lemma kdj_classes_absorb: "kdj_classes v (kdj_classes w xs) = kdj_classes v xs"
proof -
  have "kdj_classes v (kdj_classes w xs)
      = cl_add (kdj_class v) (cl_add ''indicator-value''
          (cl_remove [''indicator-value'', ''oversold'', ''overbought'', ''neutral''] (kdj_classes w xs)))"
    by (simp add: kdj_classes_def)
  also have "\<dots> = kdj_classes v xs"
    by (simp only: cl_remove_kdj_classes) (simp add: kdj_classes_def)
  finally show ?thesis .
qed

lemma fold_class_ops_kdj:
  "\<forall>q \<in> set os. \<exists>w. q = CKdj w \<Longrightarrow> fold class_op_apply (os @ [CKdj v]) x = kdj_classes v x"
proof (induction os arbitrary: x)
  case Nil
  then show ?case by simp
next
  case (Cons q os)
  then obtain w where "q = CKdj w" by auto
  with Cons show ?case by (simp add: kdj_classes_absorb)
qed

lemma fold_class_ops_idem:
  "fold class_op_apply os (fold class_op_apply os x) = fold class_op_apply os x"
proof (cases "\<exists>q \<in> set os. \<exists>cs. q = CSet cs")
  case True
  then obtain pre q post where os: "os = pre @ q # post" and q: "\<exists>cs. q = CSet cs"
    and post: "\<forall>z \<in> set post. \<not> (\<exists>cs. z = CSet cs)"
    using split_list_last_prop [of os "\<lambda>q. \<exists>cs. q = CSet cs"] by blast
  from q obtain cs where "q = CSet cs" by blast
  then have "\<And>y. fold class_op_apply os y = fold class_op_apply post cs"
    using os by simp
  then show ?thesis by simp
next
  case False
  show ?thesis
  proof (cases os rule: rev_cases)
    case Nil
    then show ?thesis by simp
  next
    case (snoc pre q)
    with False obtain v where q: "q = CKdj v" by (cases q) auto
    from False snoc have pre: "\<forall>z \<in> set pre. \<exists>w. z = CKdj w"
      by (metis Un_iff class_op.exhaust set_append)
    show ?thesis
      using snoc q fold_class_ops_kdj [OF pre] kdj_classes_absorb by simp
  qed
qed

text \<open>
  Re-rendering is idempotent: a sequence of sink calls applied twice leaves the view as
  applying it once, whatever the calls. Text writes are last-write-wins per element; a
  run of class-list operations on one element either ends in a reset by \<open>className\<close>
  or is a run of \<open>setKDJColor\<close>, which absorbs its predecessors.
\<close>

theorem dom_apply_idem: "dom_apply cs (dom_apply cs d) = dom_apply cs d"
proof -
  have t: "dom_text (dom_apply cs (dom_apply cs d)) = dom_text (dom_apply cs d)"
    by (rule ext) (simp add: dom_text_apply)
  have c: "dom_class (dom_apply cs (dom_apply cs d)) = dom_class (dom_apply cs d)"
    by (rule ext) (simp add: dom_class_apply fold_class_ops_idem)
  show ?thesis
    using t c by (cases "dom_apply cs (dom_apply cs d)", cases "dom_apply cs d") simp
qed

lemma dom_apply_frame:
  assumes "\<forall>c \<in> set cs. call_elem c \<noteq> e"
  shows "dom_text (dom_apply cs d) e = dom_text d e \<and> dom_class (dom_apply cs d) e = dom_class d e"
proof -
  have "text_writes e cs = [] \<and> class_ops e cs = []"
    using assms by (induction e cs rule: class_ops.induct) auto
  then show ?thesis by (simp add: dom_text_apply dom_class_apply)
qed

text \<open>Last write wins: the text of an element after a sequence of view calls is the last text written to it.\<close>

lemma dom_text_last_write:
  "text_writes e cs2 \<noteq> [] \<Longrightarrow> dom_text (dom_apply (cs1 @ cs2) d) e = last (text_writes e cs2)"
  by (simp add: dom_apply_append dom_text_apply)

text \<open>C30: The oscillator band of \<open>setKDJColor\<close>: oversold at or below 20, overbought at or above 80, neutral strictly between.\<close>

lemma kdj_band_cases:
  "(kdj_band v = ''oversold'') = (v \<le> 20) \<and> (kdj_band v = ''overbought'') = (80 \<le> v)
   \<and> (kdj_band v = ''neutral'') = (20 < v \<and> v < 80)"
  by (auto simp: kdj_band_def)

lemma elem_in_all_elems: "e \<in> set all_elems"
proof (cases e)
  case (BollEl i t b)
  then show ?thesis by (cases i; cases t; cases b) (simp_all add: all_elems_def)
next
  case (KdjEl i t l)
  then show ?thesis by (cases i; cases t; cases l) (simp_all add: all_elems_def)
qed (auto simp: all_elems_def intro: inst.exhaust)

lemma distinct_elem_ids: "distinct (map elem_id all_elems)"
  by (simp add: all_elems_def inst_id_def tf_id_def band_id_def kline_id_def)

text \<open>Distinct elements have distinct ids: the ids the code writes, including those built
  from timeframe templates, never alias, so the page can be modelled as a function of
  elements.\<close>

lemma elem_id_inj: "inj elem_id"
proof (rule injI)
  fix a b
  assume "elem_id a = elem_id b"
  moreover have "inj_on elem_id (set all_elems)"
    using distinct_elem_ids by (simp add: distinct_map)
  ultimately show "a = b"
    using elem_in_all_elems by (auto dest: inj_onD)
qed

end
