(* ===== verification/LogBuffer.thy ===== *)
theory LogBuffer
  imports Dom
begin

text \<open>
  The activity log, \<open>#log-content\<close>: paragraphs of class \<open>log-entry\<close>, oldest first.
  \<open>addLog\<close> (\<open>app.js\<close> lines 487--505, \<open>api-client.js\<close> lines 323--346, the same
  code) appends an entry stamped with the time of day and then, if more than 100 entries
  are present, removes the first. The messages are the constructors of \<open>logmsg\<close>,
  one per message the two clients write, with the value they interpolate.
\<close>

datatype log_kind = Info | Success | Warning | Error

datatype logmsg =
  \<comment> \<open>app.js: socket, monitoring commands, refresh\<close>
    MsgConnected | MsgDisconnected | MsgStartRequested | MsgNotConnected | MsgStopRequested
  | MsgRefreshed | MsgRefreshFailed js_error | MsgStatus string
  | MsgMarketSummary string string | MsgProcessFailed js_error | MsgNewSignals string
  | MsgSystemInit | MsgConnecting | MsgLogCleared
  \<comment> \<open>app.js: strategy settings\<close>
  | MsgSettingsOpened | MsgSettingsLoadFailed js_error | MsgFormFillFailed js_error
  | MsgSettingsSaved | MsgIntervalChanged | MsgSaveFailed string | MsgSaveRejected js_error
  | MsgDefaultsRestored
  \<comment> \<open>api-client.js\<close>
  | MsgAutoRefreshStarted | MsgAutoRefreshStopped | MsgBtcUpdated | MsgBtcFailed
  | MsgDogeUpdated | MsgDogeFailed | MsgMonitorStarted | MsgMonitorStopped | MsgLogClearedBare

text \<open>An entry of \<open>addLog\<close>: \<open>[time] message\<close> with class \<open>log-entry kind\<close>; and the bare
  paragraph that \<open>clearLog\<close> of \<open>api-client.js\<close> writes into the emptied log.\<close>

datatype log_entry = LogEntry clock log_kind logmsg | LogBare logmsg

type_synonym log = "log_entry list"

definition log_cap :: nat where
  "log_cap = 100"

text \<open>\<open>logContent.appendChild(logEntry)\<close>, then \<open>if (entries.length > 100)\<close> remove
  \<open>entries[0]\<close>.\<close>

definition log_append :: "log_entry \<Rightarrow> log \<Rightarrow> log" where
  "log_append e l = (if log_cap < length (l @ [e]) then tl (l @ [e]) else l @ [e])"

definition addLog :: "clock \<Rightarrow> log_kind \<Rightarrow> logmsg \<Rightarrow> log \<Rightarrow> log" where
  "addLog now k m l = log_append (LogEntry now k m) l"

text \<open>\<open>clearLog\<close> of \<open>app.js\<close> (lines 507--511): empty the log, then \<open>addLog\<close> the
  cleared message; of \<open>api-client.js\<close> (lines 348--353): one bare paragraph.\<close>

definition clearLog :: "clock \<Rightarrow> log \<Rightarrow> log" where
  "clearLog now l = addLog now Info MsgLogCleared []"

definition api_clearLog :: "log \<Rightarrow> log" where
  "api_clearLog l = [LogBare MsgLogClearedBare]"

text \<open>Appending a sequence of entries, one \<open>addLog\<close> after the other.\<close>

definition log_append_all :: "log_entry list \<Rightarrow> log \<Rightarrow> log" where
  "log_append_all es l = fold log_append es l"

declare log_cap_def [js_eval] log_append_def [js_eval] addLog_def [js_eval] clearLog_def [js_eval]
  api_clearLog_def [js_eval]

subsection \<open>The log is a bounded FIFO\<close>

lemma log_append_keep_last:
  assumes "length l \<le> log_cap"
  shows "log_append e l = keep_last log_cap (l @ [e])"
proof (cases "length l = log_cap")
  case True
  then have "l \<noteq> []" by (auto simp: log_cap_def)
  with True show ?thesis by (simp add: log_append_def keep_last_def drop_Suc tl_append2 log_cap_def)
next
  case False
  with assms show ?thesis by (simp add: log_append_def keep_last_def)
qed

lemma length_log_append: "length l \<le> log_cap \<Longrightarrow> length (log_append e l) \<le> log_cap"
  by (simp add: log_append_keep_last)

lemma log_append_last: "last (log_append e l) = e"
  by (cases l) (simp_all add: log_append_def log_cap_def)

lemma length_api_clearLog_le: "length (api_clearLog l) \<le> log_cap"
  by (simp add: api_clearLog_def log_cap_def)

lemma length_log_append_all: "length l \<le> log_cap \<Longrightarrow> length (log_append_all es l) \<le> log_cap"
  by (induction es arbitrary: l) (simp_all add: log_append_all_def length_log_append)

text \<open>C2: FIFO law: from any log of at most 100 entries, a sequence of \<open>addLog\<close> calls leaves exactly the last 100 entries of the old log followed by the new ones, oldest first.\<close>

theorem log_append_all_fifo:
  "length l \<le> log_cap \<Longrightarrow> log_append_all es l = keep_last log_cap (l @ es)"
proof (induction es arbitrary: l)
  case Nil
  then show ?case by (simp add: log_append_all_def)
next
  case (Cons e es)
  have "log_append_all (e # es) l = log_append_all es (log_append e l)"
    by (simp add: log_append_all_def)
  also have "\<dots> = keep_last log_cap (log_append e l @ es)"
    using Cons.IH length_log_append [OF Cons.prems] by blast
  also have "\<dots> = keep_last log_cap (l @ e # es)"
    using Cons.prems by (simp add: log_append_keep_last keep_last_append_keep_last)
  finally show ?case .
qed

theorem log_append_all_fifo_witness:
  "length [LogBare MsgConnected] \<le> log_cap
   \<and> log_append_all [LogBare MsgDisconnected] [LogBare MsgConnected]
       = keep_last log_cap ([LogBare MsgConnected] @ [LogBare MsgDisconnected])"
proof
  show l: "length [LogBare MsgConnected] \<le> log_cap" by (simp add: log_cap_def)
  show "log_append_all [LogBare MsgDisconnected] [LogBare MsgConnected]
       = keep_last log_cap ([LogBare MsgConnected] @ [LogBare MsgDisconnected])"
    by (rule log_append_all_fifo [OF l])
qed

end
