(* ===== verification/Effects.thy ===== *)
theory Effects
  imports LogBuffer
begin

text \<open>
  The effects of an event handler, in the order the code performs them, and how the
  handler completes. A handler of either client is modelled as a function that computes
  the list of effects it performs (writes to the page, log entries, socket messages,
  requests, field updates) together with its completion: \<open>Normal\<close>, or \<open>Throw e\<close> when
  an exception leaves it. The effects performed before an exception stay performed, as in
  the browser. \<open>try { .. } catch\<close> and the sequencing of statements are the combinators
  below; the state of each client applies the effects in order.
\<close>

datatype socket_cmd = CmdStartMonitoring | CmdStopMonitoring

text \<open>The requests the clients issue with \<open>fetch\<close>: \<open>GET /api/data\<close>,
  \<open>GET /api/settings\<close>, \<open>POST /api/settings\<close> with its body, \<open>GET /api/btc-data\<close>
  and \<open>GET /api/doge-data\<close>.\<close>

datatype request = ReqData | ReqSettings | ReqSaveSettings json "int option" | ReqBtcData | ReqDogeData

text \<open>How a \<open>fetch\<close> ends: rejected (a network \<open>TypeError\<close>), or a response with its
  HTTP status and the outcome of \<open>response.json()\<close> (a \<open>SyntaxError\<close> on a body that
  is not JSON).\<close>

datatype fetch_result = FetchFailed js_error | FetchResponse nat "js_error + json"

text \<open>The inputs of the strategy settings form, by element id: \<open>volatility-threshold\<close>,
  \<open>growth-threshold\<close>, \<open>kdj-threshold\<close>, \<open>oversold-1..4\<close>, \<open>overbought\<close>,
  \<open>update-interval\<close>.\<close>

datatype form_field =
    VolatilityThreshold | GrowthThreshold | KdjThreshold
  | Oversold1 | Oversold2 | Oversold3 | Oversold4 | Overbought | UpdateInterval

text \<open>One effect: a call of the view sink, \<open>addLog\<close>, \<open>playNotificationSound\<close>, the
  assignment of \<open>this.lastSignals\<close>, \<open>socket.emit\<close>, \<open>fetch\<close>, showing or hiding the
  settings dialog, writing an input of the form, the assignment of
  \<open>this.lastUpdateInterval\<close>, of \<open>this.isConnected\<close> and of \<open>this.isMonitoring\<close>, the
  \<open>clearLog\<close> of the client, and \<open>setInterval\<close>/\<open>clearInterval\<close> of the poll timer.\<close>

datatype out =
    OSink sink_call
  | OLog log_kind logmsg
  | ONotify
  | OStoreSignals "json list"
  | OEmit socket_cmd
  | OFetch request
  | OModal bool
  | OField form_field string
  | OLastInterval "int option"
  | OConnected bool
  | OMonitoring jsval
  | OClearLog
  | OInterval bool

datatype completion = Normal | Throw js_error

type_synonym emit = "out list \<times> completion"

subsection \<open>Statements\<close>

definition skip :: emit where
  "skip = ([], Normal)"

definition emit1 :: "out \<Rightarrow> emit" where
  "emit1 x = ([x], Normal)"

definition js_throw :: "js_error \<Rightarrow> emit" where
  "js_throw e = ([], Throw e)"

text \<open>\<open>a; b\<close>: \<open>b\<close> runs only if \<open>a\<close> completes normally.\<close>

definition seq :: "emit \<Rightarrow> emit \<Rightarrow> emit" where
  "seq a b = (case snd a of Normal \<Rightarrow> (fst a @ fst b, snd b) | Throw e \<Rightarrow> a)"

fun seqs :: "emit list \<Rightarrow> emit" where
  "seqs [] = skip"
| "seqs (a # as) = seq a (seqs as)"

definition when_do :: "bool \<Rightarrow> emit \<Rightarrow> emit" where
  "when_do b a = (if b then a else skip)"

text \<open>Evaluating an expression that may throw, then continuing with its value.\<close>

definition with_val :: "js_error + 'a \<Rightarrow> ('a \<Rightarrow> emit) \<Rightarrow> emit" where
  "with_val r f = (case r of Inl e \<Rightarrow> js_throw e | Inr v \<Rightarrow> f v)"

definition js_map :: "('a \<Rightarrow> 'b) \<Rightarrow> js_error + 'a \<Rightarrow> js_error + 'b" where
  "js_map f r = map_sum id f r"

definition try_catch :: "emit \<Rightarrow> (js_error \<Rightarrow> emit) \<Rightarrow> emit" where
  "try_catch a h = (case snd a of Normal \<Rightarrow> a | Throw e \<Rightarrow> (fst a @ fst (h e), snd (h e)))"

text \<open>\<open>try { .. } catch (error) { console.error(..) }\<close>: the console is not modelled.\<close>

definition catch_silent :: "emit \<Rightarrow> emit" where
  "catch_silent a = try_catch a (\<lambda>_. skip)"

text \<open>\<open>element.textContent = expr\<close>.\<close>

definition set_text :: "elem \<Rightarrow> js_error + string \<Rightarrow> emit" where
  "set_text el r = with_val r (\<lambda>s. emit1 (OSink (SetText el (Plain s))))"

definition sinks :: "out list \<Rightarrow> sink_call list" where
  "sinks os = concat (map (\<lambda>x. case x of OSink c \<Rightarrow> [c] | _ \<Rightarrow> []) os)"

text \<open>Every effect of a statement satisfies \<open>P\<close>.\<close>

definition outs_all :: "(out \<Rightarrow> bool) \<Rightarrow> emit \<Rightarrow> bool" where
  "outs_all P a = (\<forall>x \<in> set (fst a). P x)"

declare skip_def [js_eval] emit1_def [js_eval] js_throw_def [js_eval] seq_def [js_eval]
  when_do_def [js_eval] with_val_def [js_eval] js_map_def [js_eval] try_catch_def [js_eval]
  catch_silent_def [js_eval] set_text_def [js_eval] sinks_def [js_eval]

subsection \<open>Algebra of statements\<close>

lemma seq_skip_left [simp, emit_simps]: "seq skip a = a"
  by (simp add: seq_def skip_def)

lemma seq_skip_right [simp, emit_simps]: "seq a skip = a"
  by (cases a; cases "snd a") (auto simp: seq_def skip_def)

lemma seq_assoc [emit_simps]: "seq (seq a b) c = seq a (seq b c)"
  by (cases a; cases b; cases c) (auto simp: seq_def split: completion.splits)

lemma catch_silent_Normal [simp, emit_simps]: "snd (catch_silent a) = Normal"
  by (auto simp: catch_silent_def try_catch_def skip_def split: completion.splits)

lemma fst_catch_silent [simp, emit_simps]: "fst (catch_silent a) = fst a"
  by (auto simp: catch_silent_def try_catch_def skip_def split: completion.splits)

lemma catch_silent_normal [simp]: "catch_silent (xs, Normal) = (xs, Normal)"
  by (simp add: catch_silent_def try_catch_def)

lemma fst_seq_prefix: "prefix (fst a) (fst (seq a b))"
  by (auto simp: seq_def split: completion.splits)

lemma set_fst_seq [emit_simps]: "set (fst (seq a b)) \<subseteq> set (fst a) \<union> set (fst b)"
  by (auto simp: seq_def split: completion.splits)

lemma set_fst_seqs: "set (fst (seqs as)) \<subseteq> (\<Union>a \<in> set as. set (fst a))"
proof (induction as)
  case Nil
  then show ?case by (simp add: skip_def)
next
  case (Cons a as)
  then show ?case using set_fst_seq [of a "seqs as"] by auto
qed

lemma set_fst_when_do: "set (fst (when_do b a)) \<subseteq> set (fst a)"
  by (simp add: when_do_def skip_def)

lemma set_fst_with_val: "(\<And>v. set (fst (f v)) \<subseteq> S) \<Longrightarrow> set (fst (with_val r f)) \<subseteq> S"
  by (cases r) (auto simp: with_val_def js_throw_def)

lemma sinks_append [simp]: "sinks (xs @ ys) = sinks xs @ sinks ys"
  by (simp add: sinks_def)

subsection \<open>Effects that all satisfy a predicate\<close>

lemma outs_all_skip: "outs_all P skip"
  by (simp add: outs_all_def skip_def)

lemma outs_all_throw: "outs_all P (js_throw e)"
  by (simp add: outs_all_def js_throw_def)

lemma outs_all_emit1: "P x \<Longrightarrow> outs_all P (emit1 x)"
  by (simp add: outs_all_def emit1_def)

lemma outs_all_seq: "outs_all P a \<Longrightarrow> outs_all P b \<Longrightarrow> outs_all P (seq a b)"
  using set_fst_seq [of a b] by (auto simp: outs_all_def)

lemma outs_all_seqs_Nil: "outs_all P (seqs [])"
  by (simp add: outs_all_skip)

lemma outs_all_seqs_Cons: "outs_all P a \<Longrightarrow> outs_all P (seqs as) \<Longrightarrow> outs_all P (seqs (a # as))"
  by (simp add: outs_all_seq)

lemma outs_all_when_do: "outs_all P a \<Longrightarrow> outs_all P (when_do b a)"
  by (simp add: when_do_def outs_all_skip)

lemma outs_all_if: "outs_all P a \<Longrightarrow> outs_all P b \<Longrightarrow> outs_all P (if c then a else b)"
  by simp

lemma outs_all_with_val: "(\<And>v. outs_all P (f v)) \<Longrightarrow> outs_all P (with_val r f)"
  by (cases r) (auto simp: with_val_def outs_all_throw)

lemma outs_all_try_catch:
  "outs_all P a \<Longrightarrow> (\<And>e. outs_all P (h e)) \<Longrightarrow> outs_all P (try_catch a h)"
  by (auto simp: outs_all_def try_catch_def split: completion.splits)

lemma outs_all_catch_silent: "outs_all P a \<Longrightarrow> outs_all P (catch_silent a)"
  by (simp add: outs_all_def)

lemma outs_all_set_text: "(\<And>s. P (OSink (SetText el (Plain s)))) \<Longrightarrow> outs_all P (set_text el r)"
  unfolding set_text_def by (rule outs_all_with_val, rule outs_all_emit1)

lemma outs_all_mono: "outs_all P a \<Longrightarrow> (\<And>x. P x \<Longrightarrow> Q x) \<Longrightarrow> outs_all Q a"
  by (auto simp: outs_all_def)

lemmas outs_all_rules = outs_all_seq outs_all_seqs_Nil outs_all_seqs_Cons outs_all_when_do outs_all_if
  outs_all_with_val outs_all_try_catch outs_all_catch_silent outs_all_emit1

lemma seq_Normal [simp]: "snd a = Normal \<Longrightarrow> seq a b = (fst a @ fst b, snd b)"
  by (simp add: seq_def)

lemma fst_try_catch: "fst (try_catch a h) = fst a @ (case snd a of Normal \<Rightarrow> [] | Throw e \<Rightarrow> fst (h e))"
  by (simp add: try_catch_def split: completion.split)

lemma filter_sinks_none:
  "outs_all P a \<Longrightarrow> (\<And>c. P (OSink c) \<Longrightarrow> \<not> Q c) \<Longrightarrow> filter Q (sinks (fst a)) = []"
  unfolding outs_all_def sinks_def
  by (induction "fst a") (auto simp: filter_empty_conv split: out.splits)

lemma filter_sinks_all:
  "outs_all P a \<Longrightarrow> (\<And>c. P (OSink c) \<Longrightarrow> Q c) \<Longrightarrow> filter Q (sinks (fst a)) = sinks (fst a)"
  unfolding outs_all_def sinks_def
  by (auto simp: filter_id_conv split: out.splits)

lemma when_do_weak_cong: "b = b' \<Longrightarrow> when_do b a = when_do b' a"
  by simp

end
