(* ===== verification/Reconciler.thy ===== *)
theory Reconciler
  imports Effects
begin

text \<open>
  The market-update path of the socket client \<open>TradingMonitor\<close>
  (\<open>src/web/static/js/app.js\<close>): \<open>handleMarketUpdate\<close> and the functions it calls,
  \<open>updateBTCData\<close>, \<open>updateBTCIndicators\<close>, \<open>updateDOGEData\<close>,
  \<open>updateDOGEIndicators\<close>, \<open>setKDJColor\<close> and \<open>updateSignals\<close>. Each is a function
  from the payload (and, for the signals, the stored list \<open>this.lastSignals\<close> and the
  clock) to the effects it performs and its completion. Every function but the outermost
  catches its own exceptions with a silent \<open>catch\<close>; a \<open>TypeError\<close> in the middle of
  one stops the rest of that function and only of it.
\<close>

subsection \<open>Statement blocks shared by the two instruments\<close>

text \<open>\<open>changeElement.textContent = (v > 0 ? '+' : '') + v.toFixed(2) + '%';
  changeElement.className = 'change ' + (v >= 0 ? 'positive' : 'negative')\<close>
  (lines 190--196 for BTC, 298--304 for DOGE).\<close>

definition change_stmts :: "elem \<Rightarrow> jsval \<Rightarrow> emit" where
  "change_stmts el cv =
     with_val (js_toFixed cv 2) (\<lambda>s.
       seq (emit1 (OSink (SetText el (Plain ((if num_cmp (\<lambda>r. 0 < r) cv then ''+'' else []) @ s @ ''%'')))))
           (emit1 (OSink (SetClass el [''change'', if num_cmp (\<lambda>r. 0 \<le> r) cv then ''positive'' else ''negative'']))))"

text \<open>The 24-hour statistics of \<open>indicators.market_stats\<close> (lines 242--251, 319--328).\<close>

definition market_stats_stmts :: "inst \<Rightarrow> jsval \<Rightarrow> emit" where
  "market_stats_stmts i stats =
     seq (when_do (jmem stats ''amplitude_24h'' \<noteq> None)
            (set_text (Volatility i) (js_map (\<lambda>s. s @ ''%'') (js_toFixed (jmem stats ''amplitude_24h'') 3))))
         (when_do (jmem stats ''growth_24h'' \<noteq> None)
            (set_text (Growth i)
               (js_map (\<lambda>s. (if num_cmp (\<lambda>r. 0 < r) (jmem stats ''growth_24h'') then ''+'' else []) @ s @ ''%'')
                  (js_toFixed (jmem stats ''growth_24h'') 3))))"

text \<open>A Bollinger block of BTC: \<open>'$' + boll.upper.toLocaleString()\<close> for the three bands
  (lines 254--259, 270--275).\<close>

definition boll_locale_stmts :: "inst \<Rightarrow> tf \<Rightarrow> jsval \<Rightarrow> emit" where
  "boll_locale_stmts i t b =
     seqs [set_text (BollEl i t Upper) (js_map (\<lambda>s. ''$'' @ s) (js_toLocaleString (intl_format 0 3) (jmem b ''upper''))),
           set_text (BollEl i t Middle) (js_map (\<lambda>s. ''$'' @ s) (js_toLocaleString (intl_format 0 3) (jmem b ''middle''))),
           set_text (BollEl i t Lower) (js_map (\<lambda>s. ''$'' @ s) (js_toLocaleString (intl_format 0 3) (jmem b ''lower'')))]"

text \<open>A Bollinger block of DOGE: \<open>'$' + boll.upper.toFixed(6)\<close> (lines 331--336, 352--357,
  373--378).\<close>

definition boll_fixed_stmts :: "inst \<Rightarrow> tf \<Rightarrow> jsval \<Rightarrow> emit" where
  "boll_fixed_stmts i t b =
     seqs [set_text (BollEl i t Upper) (js_map (\<lambda>s. ''$'' @ s) (js_toFixed (jmem b ''upper'') 6)),
           set_text (BollEl i t Middle) (js_map (\<lambda>s. ''$'' @ s) (js_toFixed (jmem b ''middle'') 6)),
           set_text (BollEl i t Lower) (js_map (\<lambda>s. ''$'' @ s) (js_toFixed (jmem b ''lower'') 6))]"

text \<open>A KDJ block: \<open>kdj.k.toFixed(2)\<close> for the three lines (lines 262--267, 278--283).\<close>

definition kdj_stmts :: "inst \<Rightarrow> tf \<Rightarrow> jsval \<Rightarrow> emit" where
  "kdj_stmts i t k =
     seqs [set_text (KdjEl i t LineK) (js_toFixed (jmem k ''k'') 2),
           set_text (KdjEl i t LineD) (js_toFixed (jmem k ''d'') 2),
           set_text (KdjEl i t LineJ) (js_toFixed (jmem k ''j'') 2)]"

text \<open>\<open>setKDJColor(elementId, value)\<close> (lines 398--416): the element always exists; the
  class list update is \<open>KdjColor\<close> of the view sink with \<open>Number(value)\<close>.\<close>

definition setKDJColor :: "elem \<Rightarrow> jsval \<Rightarrow> emit" where
  "setKDJColor el v = emit1 (OSink (KdjColor el (js_to_number v)))"

text \<open>A KDJ block of DOGE, followed by the three colour calls (lines 339--349).\<close>

definition kdj_colored_stmts :: "inst \<Rightarrow> tf \<Rightarrow> jsval \<Rightarrow> emit" where
  "kdj_colored_stmts i t k =
     seq (kdj_stmts i t k)
       (seqs [setKDJColor (KdjEl i t LineK) (jmem k ''k''),
              setKDJColor (KdjEl i t LineD) (jmem k ''d''),
              setKDJColor (KdjEl i t LineJ) (jmem k ''j'')])"

subsection \<open>BTC\<close>

text \<open>\<open>updateBTCIndicators(indicators)\<close>, lines 239--288.\<close>

definition updateBTCIndicators :: "jsval \<Rightarrow> emit" where
  "updateBTCIndicators ind =
     catch_silent (seqs [
       when_do (truthy (jmem ind ''market_stats'')) (market_stats_stmts BTC (jmem ind ''market_stats'')),
       when_do (truthy (jmem ind ''boll_4h'')) (boll_locale_stmts BTC TF4h (jmem ind ''boll_4h'')),
       when_do (truthy (jmem ind ''kdj_4h'')) (kdj_stmts BTC TF4h (jmem ind ''kdj_4h'')),
       when_do (truthy (jmem ind ''boll_1h'')) (boll_locale_stmts BTC TF1h (jmem ind ''boll_1h'')),
       when_do (truthy (jmem ind ''kdj_1h'')) (kdj_stmts BTC TF1h (jmem ind ''kdj_1h''))])"

text \<open>The condition block of \<open>updateBTCData\<close> (lines 199--227): the status text and class
  from \<open>btcData.valid\<close>, and the 24-hour volatility \<open>(volatility * 100).toFixed(2)\<close>.
  The KDJ condition values are read and not displayed (the display code is commented out).\<close>

definition conditions_stmts :: "jsval \<Rightarrow> emit" where
  "conditions_stmts btc =
     seqs [
       emit1 (OSink (SetText (ConditionStatus BTC)
                (Label (if truthy (jmem btc ''valid'') then LSatisfied else LNotSatisfied)))),
       emit1 (OSink (SetClass (ConditionStatus BTC)
                [''condition-status'', if truthy (jmem btc ''valid'') then ''satisfied'' else ''not-satisfied''])),
       when_do (truthy (jmem (jmem btc ''conditions'') ''24h_conditions'')
                \<and> jmem (jmem (jmem btc ''conditions'') ''24h_conditions'') ''volatility'' \<noteq> None)
         (emit1 (OSink (SetText (Volatility BTC)
            (Plain (num_toFixed (map_option (\<lambda>r. r * 100)
                      (js_to_number (jmem (jmem (jmem btc ''conditions'') ''24h_conditions'') ''volatility''))) 2
                    @ ''%'')))))]"

text \<open>\<open>updateBTCData(btcData)\<close>, lines 179--237; the caller has tested \<open>btcData\<close> truthy.\<close>

definition updateBTCData :: "jsval \<Rightarrow> emit" where
  "updateBTCData btc =
     catch_silent (seqs [
       when_do (jmem btc ''price'' \<noteq> None)
         (set_text (Price BTC) (js_toLocaleString (intl_format 2 2) (jmem btc ''price''))),
       when_do (jmem btc ''change_percent'' \<noteq> None) (change_stmts (Change BTC) (jmem btc ''change_percent'')),
       when_do (truthy (jmem btc ''conditions'')) (conditions_stmts btc),
       when_do (truthy (jmem btc ''indicators'')) (updateBTCIndicators (jmem btc ''indicators''))])"

subsection \<open>DOGE\<close>

text \<open>\<open>updateDOGEIndicators(indicators)\<close>, lines 316--396.\<close>

definition updateDOGEIndicators :: "jsval \<Rightarrow> emit" where
  "updateDOGEIndicators ind =
     catch_silent (seqs [
       when_do (truthy (jmem ind ''market_stats'')) (market_stats_stmts DOGE (jmem ind ''market_stats'')),
       when_do (truthy (jmem ind ''boll_1h'')) (boll_fixed_stmts DOGE TF1h (jmem ind ''boll_1h'')),
       when_do (truthy (jmem ind ''kdj_1h'')) (kdj_colored_stmts DOGE TF1h (jmem ind ''kdj_1h'')),
       when_do (truthy (jmem ind ''boll_15m'')) (boll_fixed_stmts DOGE TF15m (jmem ind ''boll_15m'')),
       when_do (truthy (jmem ind ''kdj_15m'')) (kdj_colored_stmts DOGE TF15m (jmem ind ''kdj_15m'')),
       when_do (truthy (jmem ind ''boll_1m'')) (boll_fixed_stmts DOGE TF1m (jmem ind ''boll_1m'')),
       when_do (truthy (jmem ind ''kdj_1m'')) (kdj_colored_stmts DOGE TF1m (jmem ind ''kdj_1m''))])"

text \<open>\<open>updateDOGEData(dogeData)\<close>, lines 290--314.\<close>

definition updateDOGEData :: "jsval \<Rightarrow> emit" where
  "updateDOGEData doge =
     catch_silent (seqs [
       when_do (jmem doge ''price'' \<noteq> None) (set_text (Price DOGE) (js_toFixed (jmem doge ''price'') 6)),
       when_do (jmem doge ''change_percent'' \<noteq> None) (change_stmts (Change DOGE) (jmem doge ''change_percent'')),
       when_do (truthy (jmem doge ''indicators'')) (updateDOGEIndicators (jmem doge ''indicators''))])"

subsection \<open>Signals\<close>

text \<open>
  The \<open>forEach\<close> of \<open>updateSignals\<close> (lines 432--445): one item per element of the
  list, \<open>signal.type || 'unknown'\<close> and \<open>signal.signal_id || index + 1\<close>; reading
  \<open>.type\<close> of a \<open>null\<close> element throws.
\<close>

fun signal_items :: "clock \<Rightarrow> nat \<Rightarrow> json list \<Rightarrow> js_error + signal_item list" where
  "signal_items now i [] = Inr []"
| "signal_items now i (x # xs) =
     (case jprop (Some x) ''type'' of
        Inl e \<Rightarrow> Inl e
      | Inr ty \<Rightarrow>
          js_map (\<lambda>rest.
              \<lparr>si_type = jsval_to_string (js_or ty (Some (JStr ''unknown''))),
               si_buy = (js_or ty (Some (JStr ''unknown'')) = Some (JStr ''buy'')),
               si_id = jsval_to_string (js_or (jmem (Some x) ''signal_id'') (Some (JNum (of_nat (Suc i))))),
               si_time = now\<rparr> # rest)
            (signal_items now (Suc i) xs))"

text \<open>\<open>updateSignals(signalsData)\<close>, lines 418--463: the count \<open>signalsData.count || 0\<close>
  is shown; a count \<open>=== 0\<close> shows the empty list and leaves \<open>lastSignals\<close> as it was;
  otherwise the list is drawn, a longer list than the stored one logs the new-signal message
  and plays the sound, and the list is stored.\<close>

definition updateSignals :: "clock \<Rightarrow> jsval \<Rightarrow> json list \<Rightarrow> emit" where
  "updateSignals now sd last_signals =
     catch_silent (
       seq (emit1 (OSink (SetText SignalCount (Plain (jsval_to_string (js_or (jmem sd ''count'') (Some (JNum 0))))))))
         (if js_or (jmem sd ''count'') (Some (JNum 0)) = Some (JNum 0)
          then emit1 (OSink (SetText SignalList (Label LNoSignals)))
          else (case jmem sd ''list'' of
                  Some (JArr xs) \<Rightarrow>
                    with_val (signal_items now 0 xs) (\<lambda>items.
                      seqs [emit1 (OSink (SetText SignalList (SignalItems items))),
                            when_do (length last_signals < length xs)
                              (seq (emit1 (OLog Success (MsgNewSignals
                                      (jsval_to_string (js_or (jmem sd ''count'') (Some (JNum 0)))))))
                                   (emit1 ONotify)),
                            emit1 (OStoreSignals xs)])
                | _ \<Rightarrow> js_throw TypeError)))"

subsection \<open>The market update\<close>

text \<open>The summary line of \<open>handleMarketUpdate\<close> (line 171):
  \<open>data.btc?.price?.toLocaleString() || 'N/A'\<close> and
  \<open>data.doge?.price?.toFixed(6) || 'N/A'\<close>; the second throws on a price that is not a
  number.\<close>

definition summary_btc :: "jsval \<Rightarrow> string" where
  "summary_btc data =
     (if nullish (jmem (jmem data ''btc'') ''price'') then ''N/A''
      else if locale_json (intl_format 0 3) (the (jmem (jmem data ''btc'') ''price'')) = [] then ''N/A''
      else locale_json (intl_format 0 3) (the (jmem (jmem data ''btc'') ''price'')))"

definition summary_doge :: "jsval \<Rightarrow> js_error + string" where
  "summary_doge data =
     (if nullish (jmem (jmem data ''doge'') ''price'') then Inr ''N/A''
      else js_toFixed (jmem (jmem data ''doge'') ''price'') 6)"

text \<open>\<open>handleMarketUpdate(data)\<close>, lines 148--177. \<open>data.timestamp\<close> throws when the
  payload itself is \<open>null\<close>; the \<open>catch\<close> logs the failure.\<close>

definition handleMarketUpdate :: "clock \<Rightarrow> jsval \<Rightarrow> json list \<Rightarrow> emit" where
  "handleMarketUpdate now data last_signals =
     try_catch (seqs [
       with_val (jprop data ''timestamp'') (\<lambda>ts.
         when_do (truthy ts) (emit1 (OSink (SetText LastUpdate (Plain (jsval_to_string ts)))))),
       when_do (truthy (jmem data ''btc'')) (updateBTCData (jmem data ''btc'')),
       when_do (truthy (jmem data ''doge'')) (updateDOGEData (jmem data ''doge'')),
       when_do (truthy (jmem data ''signals'')) (updateSignals now (jmem data ''signals'') last_signals),
       with_val (summary_doge data) (\<lambda>d. emit1 (OLog Info (MsgMarketSummary (summary_btc data) d)))])
     (\<lambda>e. emit1 (OLog Error (MsgProcessFailed e)))"

subsection \<open>Which instrument an update writes to\<close>

text \<open>An effect that is a view call on an element of instrument \<open>i\<close>.\<close>

definition out_on :: "inst \<Rightarrow> out \<Rightarrow> bool" where
  "out_on i x = (case x of OSink c \<Rightarrow> elem_inst (call_elem c) = Some i | _ \<Rightarrow> False)"

text \<open>An effect of a market update that touches no instrument: the shared elements, the
  log, the sound and the stored signal list.\<close>

definition out_market :: "out \<Rightarrow> bool" where
  "out_market x = (case x of OSink c \<Rightarrow> call_elem c \<in> {LastUpdate, SignalCount, SignalList}
      | OLog _ _ \<Rightarrow> True | ONotify \<Rightarrow> True | OStoreSignals _ \<Rightarrow> True | _ \<Rightarrow> False)"

declare change_stmts_def [js_eval] market_stats_stmts_def [js_eval] boll_locale_stmts_def [js_eval]
  boll_fixed_stmts_def [js_eval] kdj_stmts_def [js_eval] setKDJColor_def [js_eval]
  kdj_colored_stmts_def [js_eval] updateBTCIndicators_def [js_eval] conditions_stmts_def [js_eval]
  updateBTCData_def [js_eval] updateDOGEIndicators_def [js_eval] updateDOGEData_def [js_eval]
  updateSignals_def [js_eval] summary_btc_def [js_eval] summary_doge_def [js_eval]
  handleMarketUpdate_def [js_eval]

subsection \<open>Market update lemmas\<close>

lemma out_on_sink [simp]: "out_on i (OSink c) = (elem_inst (call_elem c) = Some i)"
  by (simp add: out_on_def)

lemma outs_on_blocks:
  "outs_all (out_on i) (change_stmts (Change i) cv)"
  "outs_all (out_on i) (market_stats_stmts i s)"
  "outs_all (out_on i) (boll_locale_stmts i t b)"
  "outs_all (out_on i) (boll_fixed_stmts i t b)"
  "outs_all (out_on i) (kdj_stmts i t k)"
  "outs_all (out_on i) (kdj_colored_stmts i t k)"
  unfolding change_stmts_def market_stats_stmts_def boll_locale_stmts_def boll_fixed_stmts_def
    kdj_stmts_def kdj_colored_stmts_def setKDJColor_def
  by (intro outs_all_rules outs_all_set_text; simp)+

text \<open>Every view call of \<open>updateBTCData\<close> addresses an element of BTC, whatever the
  payload and wherever it stops.\<close>

theorem updateBTCData_partition: "outs_all (out_on BTC) (updateBTCData v)"
  unfolding updateBTCData_def updateBTCIndicators_def conditions_stmts_def
  by (intro outs_all_rules outs_all_set_text outs_on_blocks; simp)

text \<open>Every view call of \<open>updateDOGEData\<close> addresses an element of DOGE.\<close>

theorem updateDOGEData_partition: "outs_all (out_on DOGE) (updateDOGEData v)"
  unfolding updateDOGEData_def updateDOGEIndicators_def
  by (intro outs_all_rules outs_all_set_text outs_on_blocks; simp)

text \<open>C28: Scenario A: a BTC payload with price and change draws the price with two decimals and grouping, the signed change with two decimals and a percent sign, and the class of its sign.\<close>

lemma updateBTCData_snapshot:
  "updateBTCData (Some (JObj [(''price'', JNum p), (''change_percent'', JNum c)]))
   = ([OSink (SetText (Price BTC) (Plain (intl_format 2 2 p))),
       OSink (SetText (Change BTC) (Plain ((if 0 < c then ''+'' else []) @ to_fixed 2 c @ ''%''))),
       OSink (SetClass (Change BTC) [''change'', if 0 \<le> c then ''positive'' else ''negative''])], Normal)"
  by (simp add: updateBTCData_def change_stmts_def set_text_def with_val_def js_toLocaleString_def
      js_toFixed_def num_cmp_def js_to_number_def jmem_def jget_def nullish_def truthy_def
      when_do_def emit1_def seq_def skip_def)

lemma boll_locale_stmts_throw:
  "nullish (jmem b ''upper'') \<Longrightarrow> boll_locale_stmts i t b = ([], Throw TypeError)"
  by (simp add: boll_locale_stmts_def set_text_def with_val_def js_toLocaleString_def js_map_def js_throw_def
      seq_def)

text \<open>C29: For every indicator payload whose 4-hour Bollinger block is present but lacks its upper band (missing or \<open>null\<close>), \<open>updateBTCIndicators\<close> draws the 24-hour statistics and nothing else: the exception of \<open>upper.toLocaleString()\<close> abandons every block after it (the 4-hour KDJ, the 1-hour Bollinger and KDJ), and is swallowed.\<close>

theorem updateBTCIndicators_boll_abort:
  assumes "truthy (jmem ind ''boll_4h'')" "nullish (jmem (jmem ind ''boll_4h'') ''upper'')"
  shows "updateBTCIndicators ind =
           (fst (when_do (truthy (jmem ind ''market_stats'')) (market_stats_stmts BTC (jmem ind ''market_stats''))),
            Normal)"
  using assms(1) boll_locale_stmts_throw [OF assms(2)]
  by (simp add: updateBTCIndicators_def when_do_def seq_def catch_silent_def try_catch_def skip_def
      split: completion.split)

subsection \<open>Signal lemmas\<close>

lemma js_or_buy: "(js_or ty (Some (JStr ''unknown'')) = Some (JStr ''buy'')) = (ty = Some (JStr ''buy''))"
  by (auto simp: js_or_def truthy_def)

lemma signal_items_total:
  "JNull \<notin> set xs \<Longrightarrow> \<exists>items. signal_items now i xs = Inr items
      \<and> map si_buy items = map (\<lambda>x. jget x ''type'' = Some (JStr ''buy'')) xs"
proof (induction xs arbitrary: i)
  case Nil
  then show ?case by simp
next
  case (Cons x xs)
  then obtain items where "signal_items now (Suc i) xs = Inr items"
    and "map si_buy items = map (\<lambda>x. jget x ''type'' = Some (JStr ''buy'')) xs" by fastforce
  moreover have "jprop (Some x) ''type'' = Inr (jget x ''type'')"
    using Cons.prems by (cases x) (simp_all add: jprop_def)
  ultimately show ?case by (simp add: js_map_def js_or_buy)
qed

text \<open>C31: A \<open>null\<close> element anywhere in the signal list makes drawing the list throw a \<open>TypeError\<close>.\<close>

lemma signal_items_null: "JNull \<in> set xs \<Longrightarrow> signal_items now i xs = Inl TypeError"
proof (induction xs arbitrary: i)
  case Nil
  then show ?case by simp
next
  case (Cons x xs)
  show ?case
  proof (cases "x = JNull")
    case True
    then show ?thesis by (simp add: jprop_def)
  next
    case False
    with Cons have "signal_items now (Suc i) xs = Inl TypeError" by simp
    with False show ?thesis by (cases x) (simp_all add: jprop_def js_map_def)
  qed
qed

lemma js_map_Inr [simp]: "js_map f r = Inr y \<longleftrightarrow> (\<exists>z. r = Inr z \<and> y = f z)"
  by (cases r) (auto simp: js_map_def)

lemma length_signal_items: "signal_items now i xs = Inr items \<Longrightarrow> length items = length xs"
  by (induction now i xs arbitrary: items rule: signal_items.induct)
     (auto split: sum.splits)

lemma updateSignals_new_list:
  assumes "js_or (jmem sd ''count'') (Some (JNum 0)) = c" "c \<noteq> Some (JNum 0)"
    "jmem sd ''list'' = Some (JArr xs)" "signal_items now 0 xs = Inr items"
  shows "updateSignals now sd ls =
           ([OSink (SetText SignalCount (Plain (jsval_to_string c))),
             OSink (SetText SignalList (SignalItems items))]
            @ (if length ls < length xs then [OLog Success (MsgNewSignals (jsval_to_string c)), ONotify] else [])
            @ [OStoreSignals xs], Normal)"
  using assms by (simp add: updateSignals_def with_val_def when_do_def emit1_def seq_def skip_def)

lemma updateSignals_Normal [simp]: "snd (updateSignals now sd ls) = Normal"
  by (simp add: updateSignals_def)

text \<open>C12: A signals payload with a non-zero count and an array of non-null signals shows the count and one item per signal (a buy item exactly for \<open>type = 'buy'\<close>), logs and plays the notification exactly when the list is longer than the stored one, and stores the list.\<close>

theorem updateSignals_list:
  assumes cnt: "js_or (jmem sd ''count'') (Some (JNum 0)) = c" "c \<noteq> Some (JNum 0)"
    and lst: "jmem sd ''list'' = Some (JArr xs)" "JNull \<notin> set xs"
  shows "\<exists>items. length items = length xs
           \<and> map si_buy items = map (\<lambda>x. jget x ''type'' = Some (JStr ''buy'')) xs
           \<and> updateSignals now sd ls =
               ([OSink (SetText SignalCount (Plain (jsval_to_string c))),
                 OSink (SetText SignalList (SignalItems items))]
                @ (if length ls < length xs then [OLog Success (MsgNewSignals (jsval_to_string c)), ONotify] else [])
                @ [OStoreSignals xs], Normal)"
proof -
  obtain items where it: "signal_items now 0 xs = Inr items"
    "map si_buy items = map (\<lambda>x. jget x ''type'' = Some (JStr ''buy'')) xs"
    using signal_items_total [OF lst(2)] by blast
  have "updateSignals now sd ls =
               ([OSink (SetText SignalCount (Plain (jsval_to_string c))),
                 OSink (SetText SignalList (SignalItems items))]
                @ (if length ls < length xs then [OLog Success (MsgNewSignals (jsval_to_string c)), ONotify] else [])
                @ [OStoreSignals xs], Normal)"
    by (rule updateSignals_new_list [OF cnt lst(1) it(1)])
  with it length_signal_items [OF it(1)] show ?thesis by blast
qed

text \<open>C14: A signals payload whose count is missing or zero shows 0 and the empty-list label, and does not replace the stored list.\<close>

theorem updateSignals_count_zero:
  "js_or (jmem sd ''count'') (Some (JNum 0)) = Some (JNum 0) \<Longrightarrow>
   updateSignals now sd ls = ([OSink (SetText SignalCount (Plain ''0'')), OSink (SetText SignalList (Label LNoSignals))], Normal)"
  by (simp add: updateSignals_def emit1_def seq_def jsval_to_string_def js_eval)

lemma handleMarketUpdate_Normal [simp]: "snd (handleMarketUpdate now d ls) = Normal"
  by (simp add: handleMarketUpdate_def try_catch_def emit1_def split: completion.split)

text \<open>A market update that carries only signals: the signal list's effects and the
  summary line.\<close>

lemma handleMarketUpdate_signals:
  "truthy (Some s) \<Longrightarrow> fst (handleMarketUpdate now (Some (JObj [(''signals'', s)])) ls)
     = fst (updateSignals now (Some s) ls) @ [OLog Info (MsgMarketSummary ''N/A'' ''N/A'')]"
  by (simp add: handleMarketUpdate_def jprop_def jmem_def jget_def summary_doge_def summary_btc_def
      nullish_def with_val_def when_do_def emit1_def skip_def fst_try_catch truthy_def)

subsection \<open>Isolation of the instruments in a market update\<close>

lemma updateSignals_market: "outs_all out_market (updateSignals now sd ls)"
  unfolding updateSignals_def
  by (intro outs_all_rules; auto simp: out_market_def outs_all_throw split: option.split json.split
      intro!: outs_all_rules)

lemma handleMarketUpdate_outs:
  "outs_all (\<lambda>x. out_on BTC x \<or> out_on DOGE x \<or> out_market x) (handleMarketUpdate now d ls)"
  unfolding handleMarketUpdate_def
  by (intro outs_all_rules outs_all_mono [OF updateBTCData_partition] outs_all_mono [OF updateDOGEData_partition]
      outs_all_mono [OF updateSignals_market]; simp add: out_market_def)

text \<open>C7: The DOGE elements of the page receive, from a market update that is not \<open>null\<close>, exactly the writes of \<open>updateDOGEData\<close> on its DOGE payload, in the same order: the BTC payload, however malformed, and the signals change nothing there.\<close>

theorem handleMarketUpdate_doge_view:
  assumes "\<not> nullish d"
  shows "filter (\<lambda>c. elem_inst (call_elem c) = Some DOGE) (sinks (fst (handleMarketUpdate now d ls)))
         = (if truthy (jmem d ''doge'') then sinks (fst (updateDOGEData (jmem d ''doge''))) else [])"
proof -
  let ?Q = "\<lambda>c. elem_inst (call_elem c) = Some DOGE"
  define A where "A = with_val (jprop d ''timestamp'') (\<lambda>ts.
         when_do (truthy ts) (emit1 (OSink (SetText LastUpdate (Plain (jsval_to_string ts))))))"
  define B where "B = when_do (truthy (jmem d ''btc'')) (updateBTCData (jmem d ''btc''))"
  define C where "C = when_do (truthy (jmem d ''doge'')) (updateDOGEData (jmem d ''doge''))"
  define D where "D = when_do (truthy (jmem d ''signals'')) (updateSignals now (jmem d ''signals'') ls)"
  define E where "E = with_val (summary_doge d) (\<lambda>s. emit1 (OLog Info (MsgMarketSummary (summary_btc d) s)))"
  define H where "H = (\<lambda>e. emit1 (OLog Error (MsgProcessFailed e)))"
  have hm: "handleMarketUpdate now d ls = try_catch (seqs [A, B, C, D, E]) H"
    by (simp add: handleMarketUpdate_def A_def B_def C_def D_def E_def H_def)
  have nA: "snd A = Normal"
    using assms by (simp add: A_def jprop_not_nullish with_val_def when_do_def skip_def emit1_def)
  have nBCD: "snd B = Normal" "snd C = Normal" "snd D = Normal"
    by (simp_all add: B_def C_def D_def when_do_def skip_def updateBTCData_def updateDOGEData_def
        updateSignals_def)
  have fA: "filter ?Q (sinks (fst A)) = []"
    by (rule filter_sinks_none [where P = out_market]) (auto simp: A_def out_market_def
        intro!: outs_all_rules)
  have fB: "filter ?Q (sinks (fst B)) = []"
    by (rule filter_sinks_none [where P = "out_on BTC"]) (auto simp: B_def
        intro!: outs_all_rules updateBTCData_partition)
  have fD: "filter ?Q (sinks (fst D)) = []"
    by (rule filter_sinks_none [where P = out_market]) (auto simp: D_def out_market_def
        intro!: outs_all_rules updateSignals_market)
  have fE: "filter ?Q (sinks (fst E @ (case snd E of Normal \<Rightarrow> [] | Throw e \<Rightarrow> fst (H e)))) = []"
    by (auto simp: E_def H_def with_val_def js_throw_def emit1_def sinks_def split: sum.split)
  have fC: "filter ?Q (sinks (fst C)) = sinks (fst C)"
    by (rule filter_sinks_all [where P = "out_on DOGE"]) (auto simp: C_def
        intro!: outs_all_rules updateDOGEData_partition)
  have "fst (handleMarketUpdate now d ls) =
        fst A @ fst B @ fst C @ fst D @ fst E @ (case snd E of Normal \<Rightarrow> [] | Throw e \<Rightarrow> fst (H e))"
    using nA nBCD by (simp add: hm fst_try_catch)
  then show ?thesis
    using fA fB fC fD fE by (simp add: C_def when_do_def skip_def sinks_def)
qed

subsection \<open>Instances\<close>

theorem handleMarketUpdate_doge_view_witness:
  "\<not> nullish (Some (JObj [(''doge'', JObj [(''price'', JNum 1)])]))
   \<and> filter (\<lambda>c. elem_inst (call_elem c) = Some DOGE)
        (sinks (fst (handleMarketUpdate ''00:00:00'' (Some (JObj [(''doge'', JObj [(''price'', JNum 1)])])) [])))
      = (if truthy (jmem (Some (JObj [(''doge'', JObj [(''price'', JNum 1)])])) ''doge'')
         then sinks (fst (updateDOGEData (jmem (Some (JObj [(''doge'', JObj [(''price'', JNum 1)])])) ''doge''))) else [])"
proof
  show n: "\<not> nullish (Some (JObj [(''doge'', JObj [(''price'', JNum 1)])]))" by (simp add: nullish_def)
  show "filter (\<lambda>c. elem_inst (call_elem c) = Some DOGE)
        (sinks (fst (handleMarketUpdate ''00:00:00'' (Some (JObj [(''doge'', JObj [(''price'', JNum 1)])])) [])))
      = (if truthy (jmem (Some (JObj [(''doge'', JObj [(''price'', JNum 1)])])) ''doge'')
         then sinks (fst (updateDOGEData (jmem (Some (JObj [(''doge'', JObj [(''price'', JNum 1)])])) ''doge''))) else [])"
    by (rule handleMarketUpdate_doge_view [OF n])
qed

theorem updateSignals_list_witness:
  "\<exists>items. length items = 1
     \<and> map si_buy items = [True]
     \<and> updateSignals ''00:00:00'' (Some (JObj [(''count'', JNum 1), (''list'', JArr [JObj [(''type'', JStr ''buy'')]])])) [] =
         ([OSink (SetText SignalCount (Plain (jsval_to_string (Some (JNum 1))))),
           OSink (SetText SignalList (SignalItems items))]
          @ [OLog Success (MsgNewSignals (jsval_to_string (Some (JNum 1)))), ONotify]
          @ [OStoreSignals [JObj [(''type'', JStr ''buy'')]]], Normal)"
  using updateSignals_list [of "Some (JObj [(''count'', JNum 1), (''list'', JArr [JObj [(''type'', JStr ''buy'')]])])"
      "Some (JNum 1)" "[JObj [(''type'', JStr ''buy'')]]" "''00:00:00''" "[]"]
  by (simp add: js_or_def jmem_def jget_def truthy_def)

theorem updateSignals_count_zero_witness:
  "updateSignals ''00:00:00'' (Some (JObj [])) []
   = ([OSink (SetText SignalCount (Plain ''0'')), OSink (SetText SignalList (Label LNoSignals))], Normal)"
  using updateSignals_count_zero [of "Some (JObj [])" "''00:00:00''" "[]"]
  by (simp add: js_or_def jmem_def jget_def truthy_def)

theorem signal_items_null_witness:
  "signal_items ''00:00:00'' 0 [JObj [], JNull] = Inl TypeError"
  using signal_items_null [of "[JObj [], JNull]" "''00:00:00''" 0] by simp

theorem updateBTCIndicators_boll_abort_witness:
  "truthy (jmem (Some (JObj [(''boll_4h'', JObj [(''middle'', JNum 1)]), (''kdj_4h'', JObj [(''k'', JNum 50)])])) ''boll_4h'')
   \<and> updateBTCIndicators (Some (JObj [(''boll_4h'', JObj [(''middle'', JNum 1)]), (''kdj_4h'', JObj [(''k'', JNum 50)])]))
     = (fst (when_do (truthy (jmem (Some (JObj [(''boll_4h'', JObj [(''middle'', JNum 1)]), (''kdj_4h'', JObj [(''k'', JNum 50)])])) ''market_stats''))
          (market_stats_stmts BTC (jmem (Some (JObj [(''boll_4h'', JObj [(''middle'', JNum 1)]), (''kdj_4h'', JObj [(''k'', JNum 50)])])) ''market_stats''))),
        Normal)"
  using updateBTCIndicators_boll_abort [of "Some (JObj [(''boll_4h'', JObj [(''middle'', JNum 1)]), (''kdj_4h'', JObj [(''k'', JNum 50)])])"]
  by (simp add: jmem_def jget_def truthy_def nullish_def)

end
