(* ===== verification/Settings.thy ===== *)
theory Settings
  imports Effects
begin

text \<open>
  The strategy settings dialog of \<open>app.js\<close> (lines 527--656): the form is the local
  draft, the server holds the saved settings. \<open>populateSettingsForm\<close> copies a settings
  object into the inputs, \<open>saveSettings\<close> reads the inputs back into an object and posts
  it, \<open>loadDefaultSettings\<close> fills the form with built-in values without saving, and the
  responses of the two requests are handled in \<open>Monitor\<close>. The value of an input is a
  string; the markup (and so any sanitisation of \<open>type=number\<close> inputs) is not part of
  the sources, and the inputs are modelled as text inputs.
\<close>

subsection \<open>Writing the form\<close>

text \<open>\<open>input.value = v\<close>: ToString, with \<open>null\<close> written as the empty string.\<close>

definition value_string :: "jsval \<Rightarrow> string" where
  "value_string v = (case v of None \<Rightarrow> ''undefined'' | Some JNull \<Rightarrow> [] | Some j \<Rightarrow> js_to_string j)"

definition set_field :: "form_field \<Rightarrow> string \<Rightarrow> emit" where
  "set_field f v = emit1 (OField f v)"

text \<open>\<open>(x * 100).toFixed(2)\<close> of a threshold stored as a fraction.\<close>

definition percent_field :: "jsval \<Rightarrow> string" where
  "percent_field v = num_toFixed (map_option (\<lambda>r. r * 100) (js_to_number v)) 2"

text \<open>\<open>populateSettingsForm(settings)\<close>, lines 553--580. Reading \<open>settings.btc_conditions\<close>
  throws when the settings object itself is \<open>null\<close>; the \<open>catch\<close> logs it.\<close>

definition populateSettingsForm :: "jsval \<Rightarrow> emit" where
  "populateSettingsForm st =
     try_catch (with_val (jprop st ''btc_conditions'') (\<lambda>btc.
       seqs [
         when_do (truthy btc) (seqs [
           set_field VolatilityThreshold (percent_field (jmem btc ''volatility_threshold'')),
           set_field GrowthThreshold (percent_field (jmem btc ''growth_threshold'')),
           set_field KdjThreshold (value_string (jmem btc ''kdj_threshold''))]),
         when_do (truthy (jmem st ''doge_thresholds'')) (seqs [
           set_field Oversold1 (value_string (js_or (jindex (the (js_or (jmem (jmem st ''doge_thresholds'') ''oversold'')
              (Some (JArr [JNum 10, JNum 15, JNum 20, JNum 20])))) 0) (Some (JNum 10)))),
           set_field Oversold2 (value_string (js_or (jindex (the (js_or (jmem (jmem st ''doge_thresholds'') ''oversold'')
              (Some (JArr [JNum 10, JNum 15, JNum 20, JNum 20])))) 1) (Some (JNum 15)))),
           set_field Oversold3 (value_string (js_or (jindex (the (js_or (jmem (jmem st ''doge_thresholds'') ''oversold'')
              (Some (JArr [JNum 10, JNum 15, JNum 20, JNum 20])))) 2) (Some (JNum 20)))),
           set_field Oversold4 (value_string (js_or (jindex (the (js_or (jmem (jmem st ''doge_thresholds'') ''oversold'')
              (Some (JArr [JNum 10, JNum 15, JNum 20, JNum 20])))) 3) (Some (JNum 20)))),
           set_field Overbought (value_string (js_or (jmem (jmem st ''doge_thresholds'') ''overbought'') (Some (JNum 90))))]),
         when_do (truthy (jmem st ''monitoring''))
           (set_field UpdateInterval (value_string (js_or (jmem (jmem st ''monitoring'') ''update_interval'') (Some (JNum 5)))))]))
     (\<lambda>e. emit1 (OLog Error (MsgFormFillFailed e)))"

subsection \<open>Reading the form\<close>

text \<open>\<open>JSON.stringify\<close> of a number: \<open>NaN\<close> (and infinities) become \<open>null\<close>.\<close>

definition num_json :: "rat option \<Rightarrow> json" where
  "num_json v = (case v of Some r \<Rightarrow> JNum r | None \<Rightarrow> JNull)"

text \<open>The object built by \<open>saveSettings\<close> (lines 585--603) as it is sent.\<close>

definition settings_json :: "(form_field \<Rightarrow> string) \<Rightarrow> json" where
  "settings_json f =
     JObj [(''btc_conditions'', JObj [
              (''volatility_threshold'', num_json (map_option (\<lambda>r. r / 100) (parse_float (f VolatilityThreshold)))),
              (''growth_threshold'', num_json (map_option (\<lambda>r. r / 100) (parse_float (f GrowthThreshold)))),
              (''kdj_threshold'', num_json (parse_float (f KdjThreshold)))]),
           (''doge_thresholds'', JObj [
              (''oversold'', JArr [num_json (parse_float (f Oversold1)), num_json (parse_float (f Oversold2)),
                                   num_json (parse_float (f Oversold3)), num_json (parse_float (f Oversold4))]),
              (''overbought'', num_json (parse_float (f Overbought)))]),
           (''monitoring'', JObj [
              (''update_interval'', num_json (map_option of_int (parse_int (f UpdateInterval))))])]"

text \<open>\<open>saveSettings()\<close>, lines 582--635: post the object. Nothing in the \<open>try\<close> block can
  throw (the inputs exist, \<open>parseFloat\<close>/\<open>parseInt\<close> and \<open>JSON.stringify\<close> of this
  object never throw), so its \<open>catch\<close> is not reachable. The request carries the
  \<open>update_interval\<close> the response handler compares (\<open>None\<close> for \<open>NaN\<close>).\<close>

definition saveSettings :: "(form_field \<Rightarrow> string) \<Rightarrow> emit" where
  "saveSettings f = emit1 (OFetch (ReqSaveSettings (settings_json f) (parse_int (f UpdateInterval))))"

subsection \<open>Defaults\<close>

text \<open>The object of \<open>loadDefaultSettings\<close> (lines 639--652). The volatility and growth
  thresholds are written as percentages (\<open>3.0 // 3%\<close>) although the server keeps
  fractions and the form multiplies by 100.\<close>

definition default_settings :: json where
  "default_settings =
     JObj [(''btc_conditions'', JObj [(''volatility_threshold'', JNum 3), (''growth_threshold'', JNum 1),
                                    (''kdj_threshold'', JNum 50)]),
           (''doge_thresholds'', JObj [(''oversold'', JArr [JNum 10, JNum 15, JNum 20, JNum 20]),
                                     (''overbought'', JNum 90)]),
           (''monitoring'', JObj [(''update_interval'', JNum 5)])]"

text \<open>\<open>loadDefaultSettings()\<close>, lines 637--656: the draft only, no request.\<close>

definition loadDefaultSettings :: emit where
  "loadDefaultSettings =
     seq (populateSettingsForm (Some default_settings)) (emit1 (OLog Info MsgDefaultsRestored))"

text \<open>\<open>openSettingsModal()\<close> (lines 527--535): request the settings, show the dialog, log;
  \<open>closeSettingsModal()\<close> (lines 537--539).\<close>

definition openSettingsModal :: emit where
  "openSettingsModal = seqs [emit1 (OFetch ReqSettings), emit1 (OModal True), emit1 (OLog Info MsgSettingsOpened)]"

definition closeSettingsModal :: emit where
  "closeSettingsModal = emit1 (OModal False)"

subsection \<open>Responses\<close>

text \<open>\<open>loadCurrentSettings()\<close>, lines 541--551, once the request ends: the body fills the
  form; a failed request or a body that is not JSON is logged. The status is not looked at.\<close>

definition settingsResponse :: "fetch_result \<Rightarrow> emit" where
  "settingsResponse r =
     (case r of
        FetchResponse _ (Inr body) \<Rightarrow> populateSettingsForm (Some body)
      | FetchResponse _ (Inl e) \<Rightarrow> emit1 (OLog Error (MsgSettingsLoadFailed e))
      | FetchFailed e \<Rightarrow> emit1 (OLog Error (MsgSettingsLoadFailed e)))"

text \<open>The \<open>then\<close>/\<open>catch\<close> of the save request (lines 613--630), given the interval that
  was sent and \<open>this.lastUpdateInterval\<close> (\<open>None\<close> while undefined). \<open>result.success\<close>
  throws on a \<open>null\<close> body, which the \<open>catch\<close> logs. \<open>x !== y\<close> is true whenever
  \<open>x\<close> is \<open>NaN\<close>.\<close>

definition saveResponse :: "int option \<Rightarrow> int option option \<Rightarrow> fetch_result \<Rightarrow> emit" where
  "saveResponse iv last_iv r =
     (case r of
        FetchResponse _ (Inr result) \<Rightarrow>
          try_catch (with_val (jprop (Some result) ''success'') (\<lambda>ok.
            if truthy ok then
              seqs [emit1 (OLog Success MsgSettingsSaved), closeSettingsModal,
                    when_do (iv = None \<or> last_iv \<noteq> Some iv)
                      (seq (emit1 (OLog Info MsgIntervalChanged)) (emit1 (OLastInterval iv)))]
            else emit1 (OLog Error (MsgSaveFailed (jsval_to_string (jmem (Some result) ''error''))))))
          (\<lambda>e. emit1 (OLog Error (MsgSaveRejected e)))
      | FetchResponse _ (Inl e) \<Rightarrow> emit1 (OLog Error (MsgSaveRejected e))
      | FetchFailed e \<Rightarrow> emit1 (OLog Error (MsgSaveRejected e)))"

declare value_string_def [js_eval] set_field_def [js_eval] percent_field_def [js_eval]
  populateSettingsForm_def [js_eval] num_json_def [js_eval] settings_json_def [js_eval]
  saveSettings_def [js_eval] default_settings_def [js_eval] loadDefaultSettings_def [js_eval]
  openSettingsModal_def [js_eval] closeSettingsModal_def [js_eval] settingsResponse_def [js_eval]
  saveResponse_def [js_eval]

subsection \<open>Save and load\<close>

text \<open>Saving a form whose inputs hold numbers in the form the dialog writes them
  (thresholds with two decimals, the others as \<open>String(n)\<close>, levels and interval not
  zero) and loading the saved object back writes every input with the string it held.\<close>

text \<open>C16: Saving a form whose inputs hold numbers in the form the dialog writes them (thresholds with two decimals, the others as \<open>String(n)\<close>, levels and interval not zero) and loading the saved object back writes every input with the string it held.\<close>

theorem settings_save_load_roundtrip:
  assumes vol: "parse_float (f VolatilityThreshold) = Some a" "to_fixed 2 a = f VolatilityThreshold"
    and gro: "parse_float (f GrowthThreshold) = Some g" "to_fixed 2 g = f GrowthThreshold"
    and kdj: "parse_float (f KdjThreshold) = Some k" "js_num_to_string k = f KdjThreshold"
    and lv: "\<forall>fld \<in> set [Oversold1, Oversold2, Oversold3, Oversold4, Overbought].
               \<exists>v. parse_float (f fld) = Some v \<and> v \<noteq> 0 \<and> js_num_to_string v = f fld"
    and itv: "parse_int (f UpdateInterval) = Some n" "n \<noteq> 0" "js_num_to_string (of_int n) = f UpdateInterval"
  shows "populateSettingsForm (Some (settings_json f))
         = (map (\<lambda>fld. OField fld (f fld)) [VolatilityThreshold, GrowthThreshold, KdjThreshold,
              Oversold1, Oversold2, Oversold3, Oversold4, Overbought, UpdateInterval], Normal)"
proof -
  from lv obtain o1 o2 o3 o4 ob where
    o1: "parse_float (f Oversold1) = Some o1" "o1 \<noteq> 0" "js_num_to_string o1 = f Oversold1" and
    o2: "parse_float (f Oversold2) = Some o2" "o2 \<noteq> 0" "js_num_to_string o2 = f Oversold2" and
    o3: "parse_float (f Oversold3) = Some o3" "o3 \<noteq> 0" "js_num_to_string o3 = f Oversold3" and
    o4: "parse_float (f Oversold4) = Some o4" "o4 \<noteq> 0" "js_num_to_string o4 = f Oversold4" and
    ob: "parse_float (f Overbought) = Some ob" "ob \<noteq> 0" "js_num_to_string ob = f Overbought"
    by auto
  show ?thesis
    using vol gro kdj o1 o2 o3 o4 ob itv
    by (simp add: populateSettingsForm_def settings_json_def percent_field_def value_string_def num_json_def
        set_field_def jprop_def jmem_def jget_def truthy_def js_or_def jindex_def js_to_number_def num_toFixed_def
        with_val_def when_do_def emit1_def seq_def skip_def try_catch_def)
qed


text \<open>Restoring the defaults writes 300.00 and 100.00 into the volatility and growth inputs:
  the defaults object gives the percentages 3 and 1 where the server format is a fraction,
  and the form multiplies by 100.\<close>

text \<open>The effects of restoring the defaults: the volatility and growth inputs receive
  300.00 and 100.00, since the defaults object gives the percentages 3 and 1 where the
  server format is a fraction and the form multiplies by 100.\<close>

lemma loadDefaultSettings_fields:
  "loadDefaultSettings =
   ([OField VolatilityThreshold ''300.00'', OField GrowthThreshold ''100.00'', OField KdjThreshold ''50'',
     OField Oversold1 ''10'', OField Oversold2 ''15'', OField Oversold3 ''20'', OField Oversold4 ''20'',
     OField Overbought ''90'', OField UpdateInterval ''5'', OLog Info MsgDefaultsRestored], Normal)"
  by (simp add: js_eval)

theorem settings_save_load_roundtrip_witness:
  "populateSettingsForm (Some (settings_json (\<lambda>fld. case fld of
        VolatilityThreshold \<Rightarrow> ''3.00'' | GrowthThreshold \<Rightarrow> ''1.50'' | KdjThreshold \<Rightarrow> ''50''
      | Oversold1 \<Rightarrow> ''10'' | Oversold2 \<Rightarrow> ''15'' | Oversold3 \<Rightarrow> ''20'' | Oversold4 \<Rightarrow> ''25''
      | Overbought \<Rightarrow> ''90'' | UpdateInterval \<Rightarrow> ''5'')))
   = ([OField VolatilityThreshold ''3.00'', OField GrowthThreshold ''1.50'', OField KdjThreshold ''50'',
       OField Oversold1 ''10'', OField Oversold2 ''15'', OField Oversold3 ''20'', OField Oversold4 ''25'',
       OField Overbought ''90'', OField UpdateInterval ''5''], Normal)"
  using settings_save_load_roundtrip [of "\<lambda>fld. case fld of
        VolatilityThreshold \<Rightarrow> ''3.00'' | GrowthThreshold \<Rightarrow> ''1.50'' | KdjThreshold \<Rightarrow> ''50''
      | Oversold1 \<Rightarrow> ''10'' | Oversold2 \<Rightarrow> ''15'' | Oversold3 \<Rightarrow> ''20'' | Oversold4 \<Rightarrow> ''25''
      | Overbought \<Rightarrow> ''90'' | UpdateInterval \<Rightarrow> ''5''" 3 "3 / 2" 50 5]
  by (simp add: js_eval)

end
