(* ===== verification/Monitor.thy ===== *)
theory Monitor
  imports Reconciler Settings "HOL-Library.Multiset"
begin

text \<open>
  The socket client \<open>TradingMonitor\<close> of \<open>src/web/static/js/app.js\<close> as a state machine.
  Its state is the fields of the object (\<open>isConnected\<close>, \<open>isMonitoring\<close>,
  \<open>lastSignals\<close>, \<open>lastUpdateInterval\<close>) together with what its handlers change outside
  it: the page (the view sink), the log, the commands sent on the socket, the requests in
  flight, the sounds played, the settings dialog and its inputs. Each event the browser
  delivers (a socket event, a click, the end of a request) runs one handler to completion;
  the handler computes its effects from the state it starts in and they are applied in
  order.
\<close>

record tm_state =
  isConnected :: bool
  isMonitoring :: jsval
  lastSignals :: "json list"
  lastUpdateInterval :: "int option option"
  tm_dom :: dom
  tm_log :: log
  tm_socket :: "socket_cmd list"
  tm_pending :: "request multiset"
  tm_sounds :: nat
  tm_modal :: bool
  tm_form :: "form_field \<Rightarrow> string"

subsection \<open>Applying effects\<close>

text \<open>One effect on the state of the socket client. \<open>OClearLog\<close> is its \<open>clearLog\<close>
  (lines 507--511); \<open>OInterval\<close> belongs to the polling client and is never produced
  here.\<close>

fun apply_out :: "clock \<Rightarrow> out \<Rightarrow> tm_state \<Rightarrow> tm_state" where
  "apply_out now (OSink c) st = st\<lparr>tm_dom := apply_call c (tm_dom st)\<rparr>"
| "apply_out now (OLog k m) st = st\<lparr>tm_log := addLog now k m (tm_log st)\<rparr>"
| "apply_out now ONotify st = st\<lparr>tm_sounds := Suc (tm_sounds st)\<rparr>"
| "apply_out now (OStoreSignals xs) st = st\<lparr>lastSignals := xs\<rparr>"
| "apply_out now (OEmit c) st = st\<lparr>tm_socket := tm_socket st @ [c]\<rparr>"
| "apply_out now (OFetch r) st = st\<lparr>tm_pending := add_mset r (tm_pending st)\<rparr>"
| "apply_out now (OModal b) st = st\<lparr>tm_modal := b\<rparr>"
| "apply_out now (OField f v) st = st\<lparr>tm_form := (tm_form st)(f := v)\<rparr>"
| "apply_out now (OLastInterval iv) st = st\<lparr>lastUpdateInterval := Some iv\<rparr>"
| "apply_out now (OConnected b) st = st\<lparr>isConnected := b\<rparr>"
| "apply_out now (OMonitoring v) st = st\<lparr>isMonitoring := v\<rparr>"
| "apply_out now OClearLog st = st\<lparr>tm_log := clearLog now (tm_log st)\<rparr>"
| "apply_out now (OInterval b) st = st"

text \<open>A handler's effects, applied in order; an exception that leaves the handler is
  reported on the console and changes nothing more.\<close>

definition run :: "clock \<Rightarrow> emit \<Rightarrow> tm_state \<Rightarrow> tm_state" where
  "run now a st = fold (apply_out now) (fst a) st"

subsection \<open>Handlers\<close>

text \<open>\<open>updateConnectionStatus(connected)\<close> and \<open>updateMonitoringStatus(monitoring)\<close>,
  lines 465--475; the second takes any value and tests its truthiness.\<close>

definition updateConnectionStatus :: "bool \<Rightarrow> emit" where
  "updateConnectionStatus c =
     seq (emit1 (OSink (SetText ConnectionStatus (Label (if c then LConnected else LDisconnected)))))
         (emit1 (OSink (SetClass ConnectionStatus [''status'', if c then ''connected'' else ''disconnected''])))"

definition updateMonitoringStatus :: "jsval \<Rightarrow> emit" where
  "updateMonitoringStatus m =
     seq (emit1 (OSink (SetText MonitoringStatus (Label (if truthy m then LMonitoring else LStopped)))))
         (emit1 (OSink (SetClass MonitoringStatus [''status'', if truthy m then ''running'' else ''stopped''])))"

text \<open>The socket handlers of \<open>initializeSocket\<close>, lines 25--35: \<open>connect\<close> and
  \<open>disconnect\<close>. The disconnect handler leaves \<open>isMonitoring\<close> as it is.\<close>

definition onConnect :: emit where
  "onConnect = seqs [emit1 (OConnected True), updateConnectionStatus True, emit1 (OLog Success MsgConnected)]"

definition onDisconnect :: emit where
  "onDisconnect = seqs [emit1 (OConnected False), updateConnectionStatus False, emit1 (OLog Error MsgDisconnected)]"

text \<open>\<open>handleStatusUpdate(data)\<close>, lines 139--146: \<open>this.isMonitoring\<close> takes whatever
  \<open>data.monitoring_active\<close> is; reading it throws on a \<open>null\<close> payload.\<close>

definition handleStatusUpdate :: "jsval \<Rightarrow> emit" where
  "handleStatusUpdate data =
     with_val (jprop data ''monitoring_active'') (\<lambda>m.
       seqs [emit1 (OMonitoring m), updateMonitoringStatus m,
             when_do (truthy (jmem data ''message''))
               (emit1 (OLog Info (MsgStatus (jsval_to_string (jmem data ''message'')))))])"

text \<open>\<open>startMonitoring()\<close>, lines 106--113, and \<open>stopMonitoring()\<close>, lines 115--120: a
  command on the socket, guarded by the flags; the flags themselves change only when the
  server answers with a \<open>status\<close> event.\<close>

definition startMonitoring :: "tm_state \<Rightarrow> emit" where
  "startMonitoring st =
     (if isConnected st \<and> \<not> truthy (isMonitoring st)
      then seq (emit1 (OEmit CmdStartMonitoring)) (emit1 (OLog Info MsgStartRequested))
      else if \<not> isConnected st then emit1 (OLog Error MsgNotConnected)
      else skip)"

definition stopMonitoring :: "tm_state \<Rightarrow> emit" where
  "stopMonitoring st =
     when_do (isConnected st \<and> truthy (isMonitoring st))
       (seq (emit1 (OEmit CmdStopMonitoring)) (emit1 (OLog Info MsgStopRequested)))"

text \<open>\<open>refreshData()\<close>, lines 122--137: the request, and once it ends, the market update
  with the body and the refreshed message, or the failure. The status of the response is
  not looked at.\<close>

definition refreshData :: "tm_state \<Rightarrow> emit" where
  "refreshData st = (if isConnected st then emit1 (OFetch ReqData) else emit1 (OLog Error MsgNotConnected))"

definition dataResponse :: "clock \<Rightarrow> fetch_result \<Rightarrow> json list \<Rightarrow> emit" where
  "dataResponse now r ls =
     (case r of
        FetchResponse _ (Inr d) \<Rightarrow> seq (handleMarketUpdate now (Some d) ls) (emit1 (OLog Info MsgRefreshed))
      | FetchResponse _ (Inl e) \<Rightarrow> emit1 (OLog Error (MsgRefreshFailed e))
      | FetchFailed e \<Rightarrow> emit1 (OLog Error (MsgRefreshFailed e)))"

text \<open>\<open>updateUI()\<close>, lines 477--485, run by the constructor through \<open>init()\<close>.\<close>

definition updateUI :: emit where
  "updateUI = seqs [updateConnectionStatus False, updateMonitoringStatus (Some (JBool False)),
                    emit1 (OLog Info MsgSystemInit), emit1 (OLog Info MsgConnecting)]"

subsection \<open>Events\<close>

text \<open>The events the client reacts to: the socket events (lines 25--45), the clicks bound
  by \<open>bindEvents\<close> (lines 54--104; \<open>WindowClick b\<close> is a click anywhere, \<open>b\<close> telling
  whether its target is the dialog's backdrop), and the end of a request it issued.\<close>

datatype tm_event =
    EvConnect | EvDisconnect | EvStatus jsval | EvMarketUpdate jsval
  | ClickStart | ClickStop | ClickRefresh | ClickClearLog | ClickSettings
  | ClickCloseModal | ClickCancel | ClickSave | ClickLoadDefault | WindowClick bool
  | EvResponse request fetch_result

definition tm_handler :: "clock \<Rightarrow> tm_event \<Rightarrow> tm_state \<Rightarrow> emit" where
  "tm_handler now ev st =
     (case ev of
        EvConnect \<Rightarrow> onConnect
      | EvDisconnect \<Rightarrow> onDisconnect
      | EvStatus d \<Rightarrow> handleStatusUpdate d
      | EvMarketUpdate d \<Rightarrow> handleMarketUpdate now d (lastSignals st)
      | ClickStart \<Rightarrow> startMonitoring st
      | ClickStop \<Rightarrow> stopMonitoring st
      | ClickRefresh \<Rightarrow> refreshData st
      | ClickClearLog \<Rightarrow> emit1 OClearLog
      | ClickSettings \<Rightarrow> openSettingsModal
      | ClickCloseModal \<Rightarrow> closeSettingsModal
      | ClickCancel \<Rightarrow> closeSettingsModal
      | ClickSave \<Rightarrow> saveSettings (tm_form st)
      | ClickLoadDefault \<Rightarrow> loadDefaultSettings
      | WindowClick b \<Rightarrow> when_do b closeSettingsModal
      | EvResponse ReqData r \<Rightarrow> dataResponse now r (lastSignals st)
      | EvResponse ReqSettings r \<Rightarrow> settingsResponse r
      | EvResponse (ReqSaveSettings _ iv) r \<Rightarrow> saveResponse iv (lastUpdateInterval st) r
      | EvResponse _ _ \<Rightarrow> skip)"

text \<open>One event: a response first leaves the set of requests in flight.\<close>

definition tm_handle :: "clock \<Rightarrow> tm_event \<Rightarrow> tm_state \<Rightarrow> tm_state" where
  "tm_handle now ev st =
     run now (tm_handler now ev st)
       (case ev of EvResponse q _ \<Rightarrow> st\<lparr>tm_pending := tm_pending st - {#q#}\<rparr> | _ \<Rightarrow> st)"

text \<open>When an event can happen: the server's events arrive on an open connection,
  \<open>connect\<close> on a closed one, a response ends a request in flight, and the buttons of the
  dialog are clicked while it is shown.\<close>

definition tm_enabled :: "tm_event \<Rightarrow> tm_state \<Rightarrow> bool" where
  "tm_enabled ev st =
     (case ev of
        EvConnect \<Rightarrow> \<not> isConnected st
      | EvDisconnect \<Rightarrow> isConnected st
      | EvStatus _ \<Rightarrow> isConnected st
      | EvMarketUpdate _ \<Rightarrow> isConnected st
      | ClickCloseModal \<Rightarrow> tm_modal st
      | ClickCancel \<Rightarrow> tm_modal st
      | ClickSave \<Rightarrow> tm_modal st
      | ClickLoadDefault \<Rightarrow> tm_modal st
      | WindowClick b \<Rightarrow> (if b then tm_modal st else True)
      | EvResponse q _ \<Rightarrow> q \<in># tm_pending st
      | _ \<Rightarrow> True)"

text \<open>The constructor (lines 4--11) on a page whose elements hold \<open>d0\<close> and whose inputs
  hold \<open>f0\<close>: the flags, then \<open>updateUI\<close>.\<close>

definition tm_init :: "clock \<Rightarrow> dom \<Rightarrow> (form_field \<Rightarrow> string) \<Rightarrow> tm_state" where
  "tm_init now d0 f0 =
     run now updateUI
       \<lparr>isConnected = False, isMonitoring = Some (JBool False), lastSignals = [], lastUpdateInterval = None,
        tm_dom = d0, tm_log = [], tm_socket = [], tm_pending = {#}, tm_sounds = 0, tm_modal = False,
        tm_form = f0\<rparr>"

inductive tm_reach :: "tm_state \<Rightarrow> bool" where
  init: "tm_reach (tm_init now d0 f0)"
| step: "tm_reach st \<Longrightarrow> tm_enabled ev st \<Longrightarrow> tm_reach (tm_handle now ev st)"

subsection \<open>Footprints\<close>

text \<open>The effects an event's handler may have: only the socket handlers set the flags and
  draw the two status elements, only the buttons send commands, and only the save button
  posts the settings.\<close>

definition ev_may :: "tm_event \<Rightarrow> out \<Rightarrow> bool" where
  "ev_may ev x =
     (case x of
        OConnected _ \<Rightarrow> ev = EvConnect \<or> ev = EvDisconnect
      | OMonitoring _ \<Rightarrow> (\<exists>d. ev = EvStatus d)
      | OSink c \<Rightarrow> (call_elem c = ConnectionStatus \<longrightarrow> ev = EvConnect \<or> ev = EvDisconnect)
                 \<and> (call_elem c = MonitoringStatus \<longrightarrow> (\<exists>d. ev = EvStatus d))
      | OEmit _ \<Rightarrow> ev = ClickStart \<or> ev = ClickStop
      | OFetch (ReqSaveSettings _ _) \<Rightarrow> ev = ClickSave
      | _ \<Rightarrow> True)"

text \<open>The two status elements show the two flags.\<close>

definition status_shown :: "tm_state \<Rightarrow> bool" where
  "status_shown st =
     (dom_text (tm_dom st) ConnectionStatus = Label (if isConnected st then LConnected else LDisconnected)
      \<and> dom_class (tm_dom st) ConnectionStatus = [''status'', if isConnected st then ''connected'' else ''disconnected'']
      \<and> dom_text (tm_dom st) MonitoringStatus = Label (if truthy (isMonitoring st) then LMonitoring else LStopped)
      \<and> dom_class (tm_dom st) MonitoringStatus = [''status'', if truthy (isMonitoring st) then ''running'' else ''stopped''])"

text \<open>Save requests in flight.\<close>

definition is_save :: "request \<Rightarrow> bool" where
  "is_save q = (case q of ReqSaveSettings _ _ \<Rightarrow> True | _ \<Rightarrow> False)"

subsection \<open>The monitoring state machine of the design\<close>

text \<open>The three states of the design's monitoring machine and its labelled transitions:
  \<open>connect\<close> from \<open>Disconnected\<close>, \<open>disconnect\<close> from any state, a start confirmed
  from \<open>Connected-Idle\<close>, a stop confirmed from \<open>Connected-Monitoring\<close>, and the steps
  of no event of the machine, which change nothing. Each label has at most one successor.
  The client's state is read as one of the three states through its two flags.\<close>

datatype ms_state = Disconnected | ConnectedIdle | ConnectedMonitoring

datatype ms_event = MsConnect | MsDisconnect | MsStart | MsStop | MsNone

inductive ms_step :: "ms_state \<Rightarrow> ms_event \<Rightarrow> ms_state \<Rightarrow> bool" where
  ms_connect: "ms_step Disconnected MsConnect ConnectedIdle"
| ms_disconnect: "ms_step s MsDisconnect Disconnected"
| ms_start: "ms_step ConnectedIdle MsStart ConnectedMonitoring"
| ms_stop: "ms_step ConnectedMonitoring MsStop ConnectedIdle"
| ms_none: "ms_step s MsNone s"

text \<open>Some transition of the machine leads from one state to the other.\<close>

definition ms_trans :: "ms_state \<Rightarrow> ms_state \<Rightarrow> bool" where
  "ms_trans a b = (\<exists>l. ms_step a l b)"

definition ms_abs :: "tm_state \<Rightarrow> ms_state" where
  "ms_abs st = (if \<not> isConnected st then Disconnected
                else if truthy (isMonitoring st) then ConnectedMonitoring else ConnectedIdle)"

text \<open>The machine's event that a client event stands for: the socket's \<open>connect\<close> and
  \<open>disconnect\<close>; a \<open>status\<close> event whose \<open>monitoring_active\<close> turns the flag on or off
  is the server's confirmation of a start or a stop; every other event is none of the
  machine's (the clicks only send commands, lines 106--120).\<close>

definition ms_label :: "tm_event \<Rightarrow> tm_state \<Rightarrow> ms_event" where
  "ms_label ev st =
     (case ev of
        EvConnect \<Rightarrow> MsConnect
      | EvDisconnect \<Rightarrow> MsDisconnect
      | EvStatus d \<Rightarrow>
          (if nullish d \<or> truthy (jmem d ''monitoring_active'') = truthy (isMonitoring st) then MsNone
           else if truthy (jmem d ''monitoring_active'') then MsStart else MsStop)
      | _ \<Rightarrow> MsNone)"

text \<open>Two statements draw the same: the same view calls and the same completion.\<close>

definition same_view :: "emit \<Rightarrow> emit \<Rightarrow> bool" where
  "same_view a b = (sinks (fst a) = sinks (fst b) \<and> snd a = snd b)"

declare updateConnectionStatus_def [js_eval] updateMonitoringStatus_def [js_eval] onConnect_def [js_eval]
  onDisconnect_def [js_eval] handleStatusUpdate_def [js_eval] startMonitoring_def [js_eval]
  stopMonitoring_def [js_eval] refreshData_def [js_eval] dataResponse_def [js_eval] updateUI_def [js_eval]
  tm_handler_def [js_eval] tm_handle_def [js_eval] tm_enabled_def [js_eval] tm_init_def [js_eval]
  run_def [js_eval]

subsection \<open>Applying effects\<close>

lemma run_pair [simp]: "run now (xs, c) st = fold (apply_out now) xs st"
  by (simp add: run_def)

lemma run_frame:
  assumes "\<And>x st. P x \<Longrightarrow> f (apply_out now x st) = f st" and "outs_all P a"
  shows "f (run now a st) = f st"
proof -
  have "\<forall>x \<in> set xs. P x \<Longrightarrow> f (fold (apply_out now) xs st) = f st" for xs st
    by (induction xs arbitrary: st) (simp_all add: assms(1))
  with assms(2) show ?thesis by (simp add: run_def outs_all_def)
qed

lemma tm_dom_run: "tm_dom (run now a st) = dom_apply (sinks (fst a)) (tm_dom st)"
proof -
  have "tm_dom (fold (apply_out now) xs st) = dom_apply (sinks xs) (tm_dom st)" for xs st
  proof (induction xs arbitrary: st)
    case (Cons x xs)
    then show ?case by (cases x) (simp_all add: sinks_def)
  qed (simp add: sinks_def)
  then show ?thesis by (simp add: run_def)
qed

lemma tm_log_run: "length (tm_log st) \<le> log_cap \<Longrightarrow> length (tm_log (run now a st)) \<le> log_cap"
proof -
  have "length (tm_log st) \<le> log_cap \<Longrightarrow> length (tm_log (fold (apply_out now) xs st)) \<le> log_cap" for xs st
  proof (induction xs arbitrary: st)
    case (Cons x xs)
    then show ?case
      by (cases x) (simp_all add: addLog_def length_log_append clearLog_def log_append_def log_cap_def)
  qed simp
  then show "length (tm_log st) \<le> log_cap \<Longrightarrow> ?thesis" by (simp add: run_def)
qed

lemma out_on_may: "out_on i x \<Longrightarrow> ev_may ev x"
  by (cases x) (auto simp: out_on_def ev_may_def)

lemma out_market_may: "out_market x \<Longrightarrow> ev_may ev x"
  by (cases x) (auto simp: out_market_def ev_may_def)

lemma handleMarketUpdate_may: "outs_all (ev_may ev) (handleMarketUpdate now d ls)"
  by (rule outs_all_mono [OF handleMarketUpdate_outs]) (auto intro: out_on_may out_market_may)

lemma settings_may:
  "outs_all (ev_may ev) (populateSettingsForm v)"
  "outs_all (ev_may ev) (settingsResponse r)"
  "outs_all (ev_may ev) (saveResponse iv li r)"
  "outs_all (ev_may ev) loadDefaultSettings"
  "outs_all (ev_may ev) openSettingsModal"
  "outs_all (ev_may ev) closeSettingsModal"
  unfolding populateSettingsForm_def settingsResponse_def saveResponse_def loadDefaultSettings_def
    openSettingsModal_def closeSettingsModal_def set_field_def
  by (auto simp: ev_may_def split: fetch_result.split sum.split intro!: outs_all_rules)

lemma tm_handler_may: "outs_all (ev_may ev) (tm_handler now ev st)"
proof (cases ev)
  case (EvResponse q r)
  then show ?thesis
    by (cases q) (auto simp: tm_handler_def dataResponse_def ev_may_def outs_all_skip settings_may
        handleMarketUpdate_may simp del: handleMarketUpdate_Normal
        split: fetch_result.split sum.split intro!: outs_all_rules)
qed (auto simp: tm_handler_def ev_may_def onConnect_def onDisconnect_def handleStatusUpdate_def
       updateConnectionStatus_def updateMonitoringStatus_def startMonitoring_def stopMonitoring_def
       refreshData_def saveSettings_def settings_may handleMarketUpdate_may outs_all_skip intro!: outs_all_rules)

subsection \<open>Invariants of the reachable states\<close>

lemma tm_handle_run:
  obtains st' where "tm_handle now ev st = run now (tm_handler now ev st) st'"
    and "st' = st \<lparr>tm_pending := tm_pending st'\<rparr>" and "tm_pending st' \<subseteq># tm_pending st"
  by (cases ev) (auto simp: tm_handle_def)

lemma status_apply_frame:
  assumes "ev_may ev x" "ev \<noteq> EvConnect" "ev \<noteq> EvDisconnect" "\<forall>d. ev \<noteq> EvStatus d"
  shows "status_shown (apply_out now x st) = status_shown st"
proof (cases x)
  case (OSink c)
  then show ?thesis
    using assms by (cases c) (auto simp: ev_may_def status_shown_def)
qed (use assms in \<open>auto simp: ev_may_def status_shown_def\<close>)

lemma run_handleStatusUpdate:
  "run now (handleStatusUpdate d) st =
   (case jprop d ''monitoring_active'' of
      Inl e \<Rightarrow> st
    | Inr m \<Rightarrow> run now (when_do (truthy (jmem d ''message''))
                        (emit1 (OLog Info (MsgStatus (jsval_to_string (jmem d ''message''))))))
               (run now (updateMonitoringStatus m) (st\<lparr>isMonitoring := m\<rparr>)))"
  by (cases "jprop d ''monitoring_active''")
     (simp_all add: handleStatusUpdate_def with_val_def js_throw_def updateMonitoringStatus_def
      emit1_def when_do_def skip_def)

lemma status_shown_log [simp]: "status_shown (st\<lparr>tm_log := l\<rparr>) = status_shown st"
  by (simp add: status_shown_def)

lemma status_shown_step:
  assumes "status_shown st"
  shows "status_shown (tm_handle now ev st)"
proof (cases "ev = EvConnect \<or> ev = EvDisconnect \<or> (\<exists>d. ev = EvStatus d)")
  case True
  then consider "ev = EvConnect" | "ev = EvDisconnect" | d where "ev = EvStatus d" by blast
  then show ?thesis
  proof cases
    case 3
    then show ?thesis
      using assms
      by (auto simp: tm_handle_def tm_handler_def run_handleStatusUpdate updateMonitoringStatus_def
          status_shown_def when_do_def emit1_def skip_def split: sum.split)
  qed (use assms in \<open>auto simp: tm_handle_def tm_handler_def onConnect_def onDisconnect_def
        updateConnectionStatus_def status_shown_def emit1_def\<close>)
next
  case False
  obtain st' where h: "tm_handle now ev st = run now (tm_handler now ev st) st'"
    and s': "st' = st \<lparr>tm_pending := tm_pending st'\<rparr>"
    by (rule tm_handle_run)
  have "status_shown (run now (tm_handler now ev st) st') = status_shown st'"
    using False by (intro run_frame [OF _ tm_handler_may] status_apply_frame) auto
  moreover have "status_shown st' = status_shown st"
    by (subst s') (simp add: status_shown_def)
  ultimately show ?thesis using h assms by simp
qed

lemma log_bound_step: "length (tm_log st) \<le> log_cap \<Longrightarrow> length (tm_log (tm_handle now ev st)) \<le> log_cap"
  by (cases ev) (simp_all add: tm_handle_def tm_log_run)

lemma tm_init_state:
  "isConnected (tm_init now d0 f0) = False" "isMonitoring (tm_init now d0 f0) = Some (JBool False)"
  "lastSignals (tm_init now d0 f0) = []" "tm_pending (tm_init now d0 f0) = {#}"
  "tm_socket (tm_init now d0 f0) = []" "tm_modal (tm_init now d0 f0) = False"
  "length (tm_log (tm_init now d0 f0)) = 2" "status_shown (tm_init now d0 f0)"
  by (simp_all add: tm_init_def updateUI_def updateConnectionStatus_def updateMonitoringStatus_def
      emit1_def skip_def addLog_def log_append_def log_cap_def status_shown_def truthy_def)

text \<open>C6: In every reachable state the connection and monitoring status elements show the two flags \<open>isConnected\<close> and \<open>isMonitoring\<close> (text and class).\<close>

theorem tm_status_shown: "tm_reach st \<Longrightarrow> status_shown st"
  by (induction rule: tm_reach.induct) (simp_all add: tm_init_state status_shown_step)

text \<open>C1: In every reachable state of the socket client the log holds at most 100 entries: \<open>addLog\<close> evicts the oldest entry on overflow and \<open>clearLog\<close> leaves one.\<close>

theorem tm_log_bounded: "tm_reach st \<Longrightarrow> length (tm_log st) \<le> log_cap"
proof (induction rule: tm_reach.induct)
  case (init now d0 f0)
  then show ?case by (simp add: tm_init_state log_cap_def)
next
  case (step st ev now)
  from step.IH show ?case by (rule log_bound_step)
qed

lemma socket_frame:
  "ev \<noteq> ClickStart \<Longrightarrow> ev \<noteq> ClickStop \<Longrightarrow> tm_socket (tm_handle now ev st) = tm_socket st"
proof -
  assume ne: "ev \<noteq> ClickStart" "ev \<noteq> ClickStop"
  obtain st' where h: "tm_handle now ev st = run now (tm_handler now ev st) st'"
    and s': "st' = st \<lparr>tm_pending := tm_pending st'\<rparr>"
    by (rule tm_handle_run)
  have "tm_socket (run now (tm_handler now ev st) st') = tm_socket st'"
  proof (rule run_frame [OF _ tm_handler_may])
    fix x st
    show "ev_may ev x \<Longrightarrow> tm_socket (apply_out now x st) = tm_socket st"
      using ne by (cases x) (auto simp: ev_may_def)
  qed
  moreover have "tm_socket st' = tm_socket st" by (subst s') simp
  ultimately show ?thesis using h by simp
qed

text \<open>C5: The socket carries \<open>start_monitoring\<close> only after a click on start while connected and not monitoring, \<open>stop_monitoring\<close> only after a click on stop while connected and monitoring, and nothing on any other event.\<close>

theorem tm_socket_commands:
  "tm_socket (tm_handle now ev st) = tm_socket st @
     (if ev = ClickStart \<and> isConnected st \<and> \<not> truthy (isMonitoring st) then [CmdStartMonitoring]
      else if ev = ClickStop \<and> isConnected st \<and> truthy (isMonitoring st) then [CmdStopMonitoring] else [])"
proof (cases "ev = ClickStart \<or> ev = ClickStop")
  case True
  then show ?thesis
    by (auto simp: tm_handle_def tm_handler_def startMonitoring_def stopMonitoring_def when_do_def
        emit1_def skip_def)
next
  case False
  then show ?thesis by (simp add: socket_frame)
qed

lemma save_frame:
  assumes "ev \<noteq> ClickSave"
  shows "filter_mset is_save (tm_pending (run now (tm_handler now ev st) st')) = filter_mset is_save (tm_pending st')"
proof (rule run_frame [OF _ tm_handler_may])
  fix x st
  show "ev_may ev x \<Longrightarrow> filter_mset is_save (tm_pending (apply_out now x st)) = filter_mset is_save (tm_pending st)"
    using assms by (cases x) (auto simp: ev_may_def is_save_def split: request.split)
qed

text \<open>C18: No event but a click on save adds a settings post to the requests in flight: the draft reaches the server only through an explicit save.\<close>

theorem tm_save_only_on_click:
  "ev \<noteq> ClickSave \<Longrightarrow>
   filter_mset is_save (tm_pending (tm_handle now ev st)) \<subseteq># filter_mset is_save (tm_pending st)"
proof -
  assume ne: "ev \<noteq> ClickSave"
  obtain st' where h: "tm_handle now ev st = run now (tm_handler now ev st) st'"
    and p: "tm_pending st' \<subseteq># tm_pending st"
    by (rule tm_handle_run)
  have "filter_mset is_save (tm_pending st') \<subseteq># filter_mset is_save (tm_pending st)"
    using p by (rule multiset_filter_mono)
  then show ?thesis using h save_frame [OF ne] by simp
qed

text \<open>C17: From every state, restoring the defaults changes only the draft in the form and the log: no request, no command, no change to the page, the dialog or the flags. The draft receives the built-in values, with 300.00 and 100.00 in the volatility and growth inputs (the defaults object gives percentages where the server keeps fractions).\<close>

theorem tm_load_defaults:
  "tm_handle now ClickLoadDefault st =
   st\<lparr>tm_form := (tm_form st)(VolatilityThreshold := ''300.00'', GrowthThreshold := ''100.00'',
        KdjThreshold := ''50'', Oversold1 := ''10'', Oversold2 := ''15'', Oversold3 := ''20'',
        Oversold4 := ''20'', Overbought := ''90'', UpdateInterval := ''5''),
      tm_log := addLog now Info MsgDefaultsRestored (tm_log st)\<rparr>"
  by (simp add: tm_handle_def tm_handler_def loadDefaultSettings_fields)

subsection \<open>Refinement of the design's state machine\<close>

inductive_simps ms_step_simps: "ms_step a l b"

lemma flags_apply_frame:
  assumes "ev_may ev x" "ev \<noteq> EvConnect" "ev \<noteq> EvDisconnect" "\<forall>d. ev \<noteq> EvStatus d"
  shows "ms_abs (apply_out now x st) = ms_abs st"
  using assms by (cases x) (auto simp: ev_may_def ms_abs_def)

lemma ms_abs_pending [simp]: "ms_abs (st\<lparr>tm_pending := p\<rparr>) = ms_abs st"
  by (simp add: ms_abs_def)

lemma ms_abs_frame:
  assumes "ev \<noteq> EvConnect" "ev \<noteq> EvDisconnect" "\<forall>d. ev \<noteq> EvStatus d"
  shows "ms_abs (tm_handle now ev st) = ms_abs st"
proof -
  obtain st' where h: "tm_handle now ev st = run now (tm_handler now ev st) st'"
    and s': "st' = st \<lparr>tm_pending := tm_pending st'\<rparr>"
    by (rule tm_handle_run)
  have "ms_abs (run now (tm_handler now ev st) st') = ms_abs st'"
    using assms by (intro run_frame [OF _ tm_handler_may] flags_apply_frame) auto
  then show ?thesis using h s' by (metis ms_abs_pending)
qed

lemma ms_abs_init: "ms_abs (tm_init now d0 f0) = Disconnected"
  by (simp add: ms_abs_def tm_init_state)

text \<open>C4: Every enabled event moves the client's abstract state (disconnected, connected idle, connected monitoring) along the design's transition for the event it stands for: connect to connected-idle, disconnect to disconnected, a confirmed start to connected-monitoring, a confirmed stop to connected-idle, and every other event leaves it; the one exception is a reconnect while \<open>isMonitoring\<close> is still set.\<close>

theorem tm_refines_ms:
  "tm_enabled ev st \<Longrightarrow> \<not> (ev = EvConnect \<and> truthy (isMonitoring st)) \<Longrightarrow>
   ms_step (ms_abs st) (ms_label ev st) (ms_abs (tm_handle now ev st))"
proof (cases "ev = EvConnect \<or> ev = EvDisconnect \<or> (\<exists>d. ev = EvStatus d)")
  case True
  assume en: "tm_enabled ev st" and nc: "\<not> (ev = EvConnect \<and> truthy (isMonitoring st))"
  from True consider "ev = EvConnect" | "ev = EvDisconnect" | d where "ev = EvStatus d" by blast
  then show ?thesis
  proof cases
    case 3
    then show ?thesis
      using en by (cases "nullish d")
        (auto simp: tm_handle_def tm_handler_def tm_enabled_def run_handleStatusUpdate jprop_nullish
          jprop_not_nullish ms_label_def updateMonitoringStatus_def when_do_def emit1_def skip_def ms_abs_def
          ms_step_simps split: sum.split)
  qed (use en nc in \<open>auto simp: tm_handle_def tm_handler_def tm_enabled_def onConnect_def onDisconnect_def
        updateConnectionStatus_def emit1_def ms_abs_def ms_label_def ms_step_simps\<close>)
next
  case False
  then show ?thesis by (cases ev) (simp_all add: ms_abs_frame ms_label_def ms_none)
qed

subsection \<open>Deterministic drawing of a market update\<close>

lemma same_view_refl [simp]: "same_view a a"
  by (simp add: same_view_def)

lemma same_view_seq: "same_view a a' \<Longrightarrow> same_view b b' \<Longrightarrow> same_view (seq a b) (seq a' b')"
  by (auto simp: same_view_def seq_def split: completion.split)

lemma same_view_try_catch: "same_view a b \<Longrightarrow> same_view (try_catch a h) (try_catch b h)"
  by (auto simp: same_view_def try_catch_def split: completion.split)

lemma same_view_when_do: "same_view a b \<Longrightarrow> same_view (when_do c a) (when_do c b)"
  by (simp add: when_do_def)

lemma updateSignals_same_view: "same_view (updateSignals now sd ls) (updateSignals now sd ls')"
  by (auto simp: same_view_def updateSignals_def with_val_def when_do_def emit1_def skip_def sinks_def
      js_throw_def split: option.split json.split sum.split)

lemma handleMarketUpdate_same_view:
  "same_view (handleMarketUpdate now d ls) (handleMarketUpdate now d ls')"
  unfolding handleMarketUpdate_def seqs.simps
  by (intro same_view_try_catch same_view_seq same_view_when_do updateSignals_same_view same_view_refl)

text \<open>C11: A market update makes the same view calls whatever the client's state, and handling the same payload twice leaves the page as handling it once.\<close>

theorem tm_market_update_deterministic:
  "sinks (fst (tm_handler now (EvMarketUpdate d) st')) = sinks (fst (tm_handler now (EvMarketUpdate d) st))
   \<and> tm_dom (tm_handle now (EvMarketUpdate d) (tm_handle now (EvMarketUpdate d) st))
     = tm_dom (tm_handle now (EvMarketUpdate d) st)"
proof -
  have same: "sinks (fst (tm_handler now (EvMarketUpdate d) st')) = sinks (fst (tm_handler now (EvMarketUpdate d) st))"
    for st st'
    using handleMarketUpdate_same_view by (simp add: tm_handler_def same_view_def)
  moreover have "tm_dom (tm_handle now (EvMarketUpdate d) st') =
      dom_apply (sinks (fst (tm_handler now (EvMarketUpdate d) st))) (tm_dom st')" for st'
    using same [of st' st] by (simp add: tm_handle_def tm_dom_run)
  ultimately show ?thesis
    by (simp add: dom_apply_idem)
qed

text \<open>C15: After a disconnect the client is disconnected, keeps its monitoring flag, and a click on start only logs the not-connected error.\<close>

theorem tm_scenario_C:
  "\<not> isConnected (tm_handle now EvDisconnect st)
   \<and> isMonitoring (tm_handle now EvDisconnect st) = isMonitoring st
   \<and> tm_handle now' ClickStart (tm_handle now EvDisconnect st)
     = (tm_handle now EvDisconnect st)
         \<lparr>tm_log := addLog now' Error MsgNotConnected (tm_log (tm_handle now EvDisconnect st))\<rparr>"
  by (simp add: tm_handle_def tm_handler_def onDisconnect_def updateConnectionStatus_def startMonitoring_def
      emit1_def)

text \<open>C3: A disconnect does not clear \<open>isMonitoring\<close>: there is a reachable state that is disconnected and still monitoring, and the next \<open>connect\<close> takes it straight to connected-and-monitoring, a step the design's state machine does not have.\<close>

theorem tm_reconnect_resumes_monitoring:
  "\<exists>st. tm_reach st \<and> \<not> isConnected st \<and> truthy (isMonitoring st) \<and> tm_enabled EvConnect st
        \<and> \<not> ms_trans (ms_abs st) (ms_abs (tm_handle now EvConnect st))"
proof -
  define st0 where "st0 = tm_init [] \<lparr>dom_text = \<lambda>_. Plain [], dom_class = \<lambda>_. []\<rparr> (\<lambda>_. [])"
  define st1 where "st1 = tm_handle [] EvConnect st0"
  define st2 where "st2 = tm_handle [] (EvStatus (Some (JObj [(''monitoring_active'', JBool True)]))) st1"
  define st3 where "st3 = tm_handle [] EvDisconnect st2"
  have c0: "\<not> isConnected st0" by (simp add: st0_def tm_init_state)
  have c1: "isConnected st1"
    by (simp add: st1_def tm_handle_def tm_handler_def onConnect_def updateConnectionStatus_def emit1_def)
  have c2: "isConnected st2 \<and> truthy (isMonitoring st2)"
    using c1 by (simp add: st2_def tm_handle_def tm_handler_def run_handleStatusUpdate updateMonitoringStatus_def
        when_do_def emit1_def skip_def jprop_def jmem_def jget_def truthy_def)
  have c3: "\<not> isConnected st3 \<and> truthy (isMonitoring st3)"
    using c2 by (simp add: st3_def tm_handle_def tm_handler_def onDisconnect_def updateConnectionStatus_def emit1_def)
  have r0: "tm_reach st0" unfolding st0_def by (rule tm_reach.init)
  have r1: "tm_reach st1" unfolding st1_def using c0 by (intro tm_reach.step [OF r0]) (simp add: tm_enabled_def)
  have r2: "tm_reach st2" unfolding st2_def using c1 by (intro tm_reach.step [OF r1]) (simp add: tm_enabled_def)
  have "tm_reach st3" unfolding st3_def using c2 by (intro tm_reach.step [OF r2]) (simp add: tm_enabled_def)
  moreover have "ms_abs (tm_handle now EvConnect st3) = ConnectedMonitoring"
    using c3 by (simp add: tm_handle_def tm_handler_def onConnect_def updateConnectionStatus_def emit1_def ms_abs_def)
  ultimately show ?thesis
    using c3 by (intro exI [of _ st3]) (simp add: tm_enabled_def ms_abs_def ms_trans_def ms_step_simps)
qed

text \<open>C13: In every state in which a market update can arrive and whose stored signal list is empty (as after connecting), an update carrying a non-zero count and a non-empty list of non-null signals already logs a new-signal entry citing the count and stores the list: the first signal update is not taken as a silent baseline.\<close>

theorem tm_first_signals_logged:
  assumes en: "tm_enabled (EvMarketUpdate (Some (JObj [(''signals'', sd)]))) st" and ls: "lastSignals st = []"
    and cnt: "js_or (jmem (Some sd) ''count'') (Some (JNum 0)) = c" "c \<noteq> Some (JNum 0)"
    and lst: "jmem (Some sd) ''list'' = Some (JArr xs)" "xs \<noteq> []" "JNull \<notin> set xs"
  shows "OLog Success (MsgNewSignals (jsval_to_string c))
           \<in> set (fst (tm_handler now (EvMarketUpdate (Some (JObj [(''signals'', sd)]))) st))
         \<and> lastSignals (tm_handle now (EvMarketUpdate (Some (JObj [(''signals'', sd)]))) st) = xs"
proof -
  obtain items where it: "signal_items now 0 xs = Inr items"
    using signal_items_total [OF lst(3)] by blast
  have "fst (tm_handler now (EvMarketUpdate (Some (JObj [(''signals'', sd)]))) st)
        = [OSink (SetText SignalCount (Plain (jsval_to_string c))), OSink (SetText SignalList (SignalItems items)),
           OLog Success (MsgNewSignals (jsval_to_string c)), ONotify, OStoreSignals xs,
           OLog Info (MsgMarketSummary ''N/A'' ''N/A'')]"
    using ls lst(2) jmem_Some_truthy [OF lst(1)]
    by (simp add: tm_handler_def handleMarketUpdate_signals updateSignals_new_list [OF cnt lst(1) it])
  then show ?thesis by (simp add: tm_handle_def tm_handler_def run_def)
qed

lemma market_update_btc_price: "fst (handleMarketUpdate now (Some (JObj [(''btc'', JObj [(''price'', JNum (130001 / 2))])])) ls) =
  [OSink (SetText (Price BTC) (Plain ''65,000.50'')), OLog Info (MsgMarketSummary ''65,000.5'' ''N/A'')]"
  by (simp add: js_eval cong: when_do_weak_cong)

text \<open>C19: A refresh response that arrives after the connection dropped, with HTTP status 500, is still drawn: the handler checks neither the state nor the status.\<close>

theorem tm_late_refresh_applied:
  "\<exists>st. tm_reach st \<and> \<not> isConnected st \<and> \<not> truthy (isMonitoring st)
        \<and> tm_enabled (EvResponse ReqData (FetchResponse 500 (Inr (JObj [(''btc'', JObj [(''price'', JNum 65000.5)])])))) st
        \<and> dom_text (tm_dom (tm_handle now (EvResponse ReqData
             (FetchResponse 500 (Inr (JObj [(''btc'', JObj [(''price'', JNum 65000.5)])])))) st)) (Price BTC)
          = Plain ''65,000.50''"
proof -
  define st0 where "st0 = tm_init [] \<lparr>dom_text = \<lambda>_. Plain [], dom_class = \<lambda>_. []\<rparr> (\<lambda>_. [])"
  define st1 where "st1 = tm_handle [] EvConnect st0"
  define st2 where "st2 = tm_handle [] ClickRefresh st1"
  define st3 where "st3 = tm_handle [] EvDisconnect st2"
  have c0: "\<not> isConnected st0 \<and> \<not> truthy (isMonitoring st0) \<and> tm_pending st0 = {#}"
    by (simp add: st0_def tm_init_state truthy_def)
  have c1: "isConnected st1 \<and> \<not> truthy (isMonitoring st1) \<and> tm_pending st1 = {#}"
    using c0 by (simp add: st1_def tm_handle_def tm_handler_def onConnect_def updateConnectionStatus_def emit1_def)
  have c2: "isConnected st2 \<and> \<not> truthy (isMonitoring st2) \<and> tm_pending st2 = {#ReqData#}"
    using c1 by (simp add: st2_def tm_handle_def tm_handler_def refreshData_def emit1_def)
  have c3: "\<not> isConnected st3 \<and> \<not> truthy (isMonitoring st3) \<and> tm_pending st3 = {#ReqData#}"
    using c2 by (simp add: st3_def tm_handle_def tm_handler_def onDisconnect_def updateConnectionStatus_def emit1_def)
  have r0: "tm_reach st0" unfolding st0_def by (rule tm_reach.init)
  have r1: "tm_reach st1" unfolding st1_def using c0 by (intro tm_reach.step [OF r0]) (simp add: tm_enabled_def)
  have r2: "tm_reach st2" unfolding st2_def using c1 by (intro tm_reach.step [OF r1]) (simp add: tm_enabled_def)
  have r3: "tm_reach st3" unfolding st3_def using c2 by (intro tm_reach.step [OF r2]) (simp add: tm_enabled_def)
  have "dom_text (tm_dom (tm_handle now (EvResponse ReqData
             (FetchResponse 500 (Inr (JObj [(''btc'', JObj [(''price'', JNum 65000.5)])])))) st3)) (Price BTC)
          = Plain ''65,000.50''"
    by (simp add: tm_handle_def tm_handler_def dataResponse_def tm_dom_run market_update_btc_price dom_text_apply emit1_def
        sinks_def)
  then show ?thesis
    using r3 c3 by (intro exI [of _ st3]) (simp add: tm_enabled_def)
qed

subsection \<open>Instances\<close>

theorem tm_log_bounded_witness:
  "tm_reach (tm_init ''00:00:00'' \<lparr>dom_text = \<lambda>_. Plain [], dom_class = \<lambda>_. []\<rparr> (\<lambda>_. [])) \<and> length (tm_log (tm_init ''00:00:00'' \<lparr>dom_text = \<lambda>_. Plain [], dom_class = \<lambda>_. []\<rparr> (\<lambda>_. []))) \<le> log_cap"
proof
  show r: "tm_reach (tm_init ''00:00:00'' \<lparr>dom_text = \<lambda>_. Plain [], dom_class = \<lambda>_. []\<rparr> (\<lambda>_. []))" by (rule tm_reach.init)
  show "length (tm_log (tm_init ''00:00:00'' \<lparr>dom_text = \<lambda>_. Plain [], dom_class = \<lambda>_. []\<rparr> (\<lambda>_. []))) \<le> log_cap" by (rule tm_log_bounded [OF r])
qed

theorem tm_status_shown_witness:
  "tm_reach (tm_init ''00:00:00'' \<lparr>dom_text = \<lambda>_. Plain [], dom_class = \<lambda>_. []\<rparr> (\<lambda>_. [])) \<and> status_shown (tm_init ''00:00:00'' \<lparr>dom_text = \<lambda>_. Plain [], dom_class = \<lambda>_. []\<rparr> (\<lambda>_. []))"
proof
  show r: "tm_reach (tm_init ''00:00:00'' \<lparr>dom_text = \<lambda>_. Plain [], dom_class = \<lambda>_. []\<rparr> (\<lambda>_. []))" by (rule tm_reach.init)
  show "status_shown (tm_init ''00:00:00'' \<lparr>dom_text = \<lambda>_. Plain [], dom_class = \<lambda>_. []\<rparr> (\<lambda>_. []))" by (rule tm_status_shown [OF r])
qed

theorem tm_refines_ms_witness:
  "tm_enabled EvConnect (tm_init ''00:00:00'' \<lparr>dom_text = \<lambda>_. Plain [], dom_class = \<lambda>_. []\<rparr> (\<lambda>_. [])) \<and> \<not> (EvConnect = EvConnect \<and> truthy (isMonitoring (tm_init ''00:00:00'' \<lparr>dom_text = \<lambda>_. Plain [], dom_class = \<lambda>_. []\<rparr> (\<lambda>_. []))))
   \<and> ms_step (ms_abs (tm_init ''00:00:00'' \<lparr>dom_text = \<lambda>_. Plain [], dom_class = \<lambda>_. []\<rparr> (\<lambda>_. []))) (ms_label EvConnect (tm_init ''00:00:00'' \<lparr>dom_text = \<lambda>_. Plain [], dom_class = \<lambda>_. []\<rparr> (\<lambda>_. []))) (ms_abs (tm_handle ''00:00:01'' EvConnect (tm_init ''00:00:00'' \<lparr>dom_text = \<lambda>_. Plain [], dom_class = \<lambda>_. []\<rparr> (\<lambda>_. []))))"
proof (intro conjI)
  show e: "tm_enabled EvConnect (tm_init ''00:00:00'' \<lparr>dom_text = \<lambda>_. Plain [], dom_class = \<lambda>_. []\<rparr> (\<lambda>_. []))" by (simp add: tm_enabled_def tm_init_state)
  show n: "\<not> (EvConnect = EvConnect \<and> truthy (isMonitoring (tm_init ''00:00:00'' \<lparr>dom_text = \<lambda>_. Plain [], dom_class = \<lambda>_. []\<rparr> (\<lambda>_. []))))" by (simp add: tm_init_state truthy_def)
  show "ms_step (ms_abs (tm_init ''00:00:00'' \<lparr>dom_text = \<lambda>_. Plain [], dom_class = \<lambda>_. []\<rparr> (\<lambda>_. []))) (ms_label EvConnect (tm_init ''00:00:00'' \<lparr>dom_text = \<lambda>_. Plain [], dom_class = \<lambda>_. []\<rparr> (\<lambda>_. []))) (ms_abs (tm_handle ''00:00:01'' EvConnect (tm_init ''00:00:00'' \<lparr>dom_text = \<lambda>_. Plain [], dom_class = \<lambda>_. []\<rparr> (\<lambda>_. []))))"
    by (rule tm_refines_ms [OF e n])
qed

theorem tm_save_only_on_click_witness:
  "ClickRefresh \<noteq> ClickSave \<and>
   filter_mset is_save (tm_pending (tm_handle ''00:00:01'' ClickRefresh (tm_init ''00:00:00'' \<lparr>dom_text = \<lambda>_. Plain [], dom_class = \<lambda>_. []\<rparr> (\<lambda>_. [])))) \<subseteq># filter_mset is_save (tm_pending (tm_init ''00:00:00'' \<lparr>dom_text = \<lambda>_. Plain [], dom_class = \<lambda>_. []\<rparr> (\<lambda>_. [])))"
proof
  show n: "ClickRefresh \<noteq> ClickSave" by simp
  show "filter_mset is_save (tm_pending (tm_handle ''00:00:01'' ClickRefresh (tm_init ''00:00:00'' \<lparr>dom_text = \<lambda>_. Plain [], dom_class = \<lambda>_. []\<rparr> (\<lambda>_. [])))) \<subseteq># filter_mset is_save (tm_pending (tm_init ''00:00:00'' \<lparr>dom_text = \<lambda>_. Plain [], dom_class = \<lambda>_. []\<rparr> (\<lambda>_. [])))"
    by (rule tm_save_only_on_click [OF n])
qed

theorem tm_reconnect_resumes_monitoring_witness:
  "\<exists>st. tm_reach st \<and> \<not> isConnected st \<and> truthy (isMonitoring st) \<and> tm_enabled EvConnect st
        \<and> \<not> ms_trans (ms_abs st) (ms_abs (tm_handle ''00:00:01'' EvConnect st))"
  by (rule tm_reconnect_resumes_monitoring)

theorem tm_first_signals_logged_witness:
  "tm_enabled (EvMarketUpdate (Some (JObj [(''signals'', JObj [(''count'', JNum 2), (''list'', JArr [JObj [], JObj []])])])))
     (tm_handle ''00:00:00'' EvConnect (tm_init ''00:00:00'' \<lparr>dom_text = \<lambda>_. Plain [], dom_class = \<lambda>_. []\<rparr> (\<lambda>_. [])))
   \<and> lastSignals (tm_handle ''00:00:00'' EvConnect (tm_init ''00:00:00'' \<lparr>dom_text = \<lambda>_. Plain [], dom_class = \<lambda>_. []\<rparr> (\<lambda>_. []))) = []
   \<and> OLog Success (MsgNewSignals (jsval_to_string (Some (JNum 2))))
       \<in> set (fst (tm_handler ''00:00:01'' (EvMarketUpdate (Some (JObj [(''signals'', JObj [(''count'', JNum 2), (''list'', JArr [JObj [], JObj []])])])))
            (tm_handle ''00:00:00'' EvConnect (tm_init ''00:00:00'' \<lparr>dom_text = \<lambda>_. Plain [], dom_class = \<lambda>_. []\<rparr> (\<lambda>_. [])))))
   \<and> lastSignals (tm_handle ''00:00:01'' (EvMarketUpdate (Some (JObj [(''signals'', JObj [(''count'', JNum 2), (''list'', JArr [JObj [], JObj []])])])))
       (tm_handle ''00:00:00'' EvConnect (tm_init ''00:00:00'' \<lparr>dom_text = \<lambda>_. Plain [], dom_class = \<lambda>_. []\<rparr> (\<lambda>_. [])))) = [JObj [], JObj []]"
proof -
  have e: "tm_enabled (EvMarketUpdate (Some (JObj [(''signals'', JObj [(''count'', JNum 2), (''list'', JArr [JObj [], JObj []])])])))
     (tm_handle ''00:00:00'' EvConnect (tm_init ''00:00:00'' \<lparr>dom_text = \<lambda>_. Plain [], dom_class = \<lambda>_. []\<rparr> (\<lambda>_. [])))"
    by (simp add: tm_enabled_def tm_handle_def tm_handler_def onConnect_def updateConnectionStatus_def emit1_def)
  have l: "lastSignals (tm_handle ''00:00:00'' EvConnect (tm_init ''00:00:00'' \<lparr>dom_text = \<lambda>_. Plain [], dom_class = \<lambda>_. []\<rparr> (\<lambda>_. []))) = []"
    by (simp add: tm_handle_def tm_handler_def onConnect_def updateConnectionStatus_def emit1_def tm_init_state)
  have c: "js_or (jmem (Some (JObj [(''count'', JNum 2), (''list'', JArr [JObj [], JObj []])])) ''count'') (Some (JNum 0)) = Some (JNum 2)"
    by (simp add: js_or_def jmem_def jget_def truthy_def)
  have x: "jmem (Some (JObj [(''count'', JNum 2), (''list'', JArr [JObj [], JObj []])])) ''list'' = Some (JArr [JObj [], JObj []])"
    by (simp add: jmem_def jget_def)
  show ?thesis
    using tm_first_signals_logged [OF e l c _ x] e l by simp
qed

theorem tm_late_refresh_applied_witness:
  "\<exists>st. tm_reach st \<and> \<not> isConnected st \<and> \<not> truthy (isMonitoring st)
        \<and> tm_enabled (EvResponse ReqData (FetchResponse 500 (Inr (JObj [(''btc'', JObj [(''price'', JNum 65000.5)])])))) st
        \<and> dom_text (tm_dom (tm_handle ''00:00:01'' (EvResponse ReqData
             (FetchResponse 500 (Inr (JObj [(''btc'', JObj [(''price'', JNum 65000.5)])])))) st)) (Price BTC)
          = Plain ''65,000.50''"
  by (rule tm_late_refresh_applied)

end
