(* ===== verification/PollClient.thy ===== *)
theory PollClient
  imports Reconciler "HOL-Library.Multiset"
begin

text \<open>
  The polling client \<open>APITradingMonitor\<close> of \<open>src/web/static/js/api-client.js\<close>. It
  has no socket: a timer set up once by the constructor refreshes the page every three
  seconds while \<open>isMonitoring\<close> is set, and the refresh button refreshes at any time. A
  refresh writes the time, fetches \<open>/api/btc-data\<close> and \<open>/api/doge-data\<close> together and,
  once both have ended (\<open>Promise.all\<close>), draws each instrument whose fetch gave data and
  logs the outcome of each. Each fetch turns every failure into an object
  \<open>{error: message}\<close>, so the join never fails. The state is the fields of the object,
  the page, the log, the requests in flight and the timers.
\<close>

record pc_state =
  pc_monitoring :: bool
  pc_interval :: bool
  pc_timers :: nat
  pc_dom :: dom
  pc_log :: log
  pc_pending :: "request multiset"
  pc_modal :: bool

subsection \<open>Drawing\<close>

text \<open>\<open>updateElement(id, value)\<close>, lines 271--276: the value (\<open>None\<close> for
  \<open>undefined\<close>) is written unless it is \<open>undefined\<close> or the string \<open>'undefined'\<close>.\<close>

definition updateElement :: "elem \<Rightarrow> string option \<Rightarrow> emit" where
  "updateElement el v =
     (case v of None \<Rightarrow> skip
              | Some s \<Rightarrow> when_do (s \<noteq> ''undefined'') (emit1 (OSink (SetText el (Plain s)))))"

text \<open>\<open>v?.toFixed(d)\<close>: \<open>undefined\<close> on a nullish value, the method otherwise (which
  throws on anything but a number).\<close>

definition opt_toFixed :: "jsval \<Rightarrow> nat \<Rightarrow> js_error + string option" where
  "opt_toFixed v d = (if nullish v then Inr None else js_map Some (js_toFixed v d))"

text \<open>\<open>v?.toLocaleString()\<close>: never throws.\<close>

definition opt_toLocale :: "jsval \<Rightarrow> string option" where
  "opt_toLocale v = (if nullish v then None else Some (locale_json (intl_format 0 3) (the v)))"

text \<open>\<open>s + v\<close> where \<open>v\<close> may be \<open>undefined\<close>.\<close>

definition opt_str :: "string option \<Rightarrow> string" where
  "opt_str v = (case v of None \<Rightarrow> ''undefined'' | Some s \<Rightarrow> s)"

text \<open>The change block of both instruments (lines 159--164 and 189--194): the sign test is
  \<open>>= 0\<close> here, and the class is \<open>positive\<close> or \<open>negative\<close> alone.\<close>

definition api_change_stmts :: "elem \<Rightarrow> jsval \<Rightarrow> emit" where
  "api_change_stmts el cv =
     with_val (js_toFixed cv 2) (\<lambda>s.
       seq (emit1 (OSink (SetText el (Plain ((if num_cmp (\<lambda>r. 0 \<le> r) cv then ''+'' else []) @ s @ ''%'')))))
           (emit1 (OSink (SetClass el [if num_cmp (\<lambda>r. 0 \<le> r) cv then ''positive'' else ''negative'']))))"

text \<open>The 24-hour figures (lines 167--168 and 197--198):
  \<open>updateElement(id, data.amplitude_24h?.toFixed(3) + '%')\<close>.\<close>

definition api_stats_stmts :: "inst \<Rightarrow> jsval \<Rightarrow> emit" where
  "api_stats_stmts i d =
     seq (with_val (opt_toFixed (jmem d ''amplitude_24h'') 3) (\<lambda>v. updateElement (Volatility i) (Some (opt_str v @ ''%''))))
         (with_val (opt_toFixed (jmem d ''growth_24h'') 2) (\<lambda>v. updateElement (Growth i) (Some (opt_str v @ ''%''))))"

text \<open>A Bollinger block of BTC (lines 217--221): \<open>'$' + boll.UP?.toLocaleString()\<close>.\<close>

definition api_boll_btc :: "tf \<Rightarrow> jsval \<Rightarrow> emit" where
  "api_boll_btc t b =
     seqs [updateElement (BollEl BTC t Upper) (Some (''$'' @ opt_str (opt_toLocale (jmem b ''UP'')))),
           updateElement (BollEl BTC t Middle) (Some (''$'' @ opt_str (opt_toLocale (jmem b ''MB'')))),
           updateElement (BollEl BTC t Lower) (Some (''$'' @ opt_str (opt_toLocale (jmem b ''DN''))))]"

text \<open>A Bollinger block of DOGE (lines 256--260): \<open>'$' + boll.UP?.toFixed(6)\<close>.\<close>

definition api_boll_doge :: "tf \<Rightarrow> jsval \<Rightarrow> emit" where
  "api_boll_doge t b =
     seqs [with_val (opt_toFixed (jmem b ''UP'') 6) (\<lambda>v. updateElement (BollEl DOGE t Upper) (Some (''$'' @ opt_str v))),
           with_val (opt_toFixed (jmem b ''MB'') 6) (\<lambda>v. updateElement (BollEl DOGE t Middle) (Some (''$'' @ opt_str v))),
           with_val (opt_toFixed (jmem b ''DN'') 6) (\<lambda>v. updateElement (BollEl DOGE t Lower) (Some (''$'' @ opt_str v)))]"

text \<open>A KDJ block (lines 223--227, 262--266): \<open>kdj.K?.toFixed(1)\<close>.\<close>

definition api_kdj :: "inst \<Rightarrow> tf \<Rightarrow> jsval \<Rightarrow> emit" where
  "api_kdj i t k =
     seqs [with_val (opt_toFixed (jmem k ''K'') 1) (updateElement (KdjEl i t LineK)),
           with_val (opt_toFixed (jmem k ''D'') 1) (updateElement (KdjEl i t LineD)),
           with_val (opt_toFixed (jmem k ''J'') 1) (updateElement (KdjEl i t LineJ))]"

text \<open>One timeframe of the indicators: \<open>if (indicators[tf]) { boll; kdj }\<close>.\<close>

definition api_timeframe :: "(jsval \<Rightarrow> emit) \<Rightarrow> (jsval \<Rightarrow> emit) \<Rightarrow> jsval \<Rightarrow> string \<Rightarrow> emit" where
  "api_timeframe boll kdj ind key =
     when_do (truthy (jmem ind key))
       (seq (when_do (truthy (jmem (jmem ind key) ''boll'')) (boll (jmem (jmem ind key) ''boll'')))
            (when_do (truthy (jmem (jmem ind key) ''kdj'')) (kdj (jmem (jmem ind key) ''kdj''))))"

text \<open>\<open>updateBTCIndicators(indicators)\<close>, lines 210--246, and
  \<open>updateDOGEIndicators(indicators)\<close>, lines 248--269 (the \<open>forEach\<close> over
  \<open>['1h', '15m', '1m']\<close>). Neither catches: an exception ends the caller's \<open>try\<close>.\<close>

definition api_updateBTCIndicators :: "jsval \<Rightarrow> emit" where
  "api_updateBTCIndicators ind =
     seq (api_timeframe (api_boll_btc TF4h) (api_kdj BTC TF4h) ind ''4h'')
         (api_timeframe (api_boll_btc TF1h) (api_kdj BTC TF1h) ind ''1h'')"

definition api_updateDOGEIndicators :: "jsval \<Rightarrow> emit" where
  "api_updateDOGEIndicators ind =
     seqs (map (\<lambda>(t, key). api_timeframe (api_boll_doge t) (api_kdj DOGE t) ind key)
             [(TF1h, ''1h''), (TF15m, ''15m''), (TF1m, ''1m'')])"

text \<open>\<open>updateBTCData(data)\<close>, lines 147--178: the price only when truthy.\<close>

definition api_updateBTCData :: "jsval \<Rightarrow> emit" where
  "api_updateBTCData d =
     catch_silent (seqs [
       when_do (truthy (jmem d ''price''))
         (set_text (Price BTC) (js_toLocaleString (intl_format 2 2) (jmem d ''price''))),
       when_do (jmem d ''change'' \<noteq> None) (api_change_stmts (Change BTC) (jmem d ''change'')),
       api_stats_stmts BTC d,
       when_do (truthy (jmem d ''indicators'')) (api_updateBTCIndicators (jmem d ''indicators''))])"

text \<open>\<open>updateDOGEData(data)\<close>, lines 180--208.\<close>

definition api_updateDOGEData :: "jsval \<Rightarrow> emit" where
  "api_updateDOGEData d =
     catch_silent (seqs [
       when_do (truthy (jmem d ''price'')) (set_text (Price DOGE) (js_toFixed (jmem d ''price'') 6)),
       when_do (jmem d ''change'' \<noteq> None) (api_change_stmts (Change DOGE) (jmem d ''change'')),
       api_stats_stmts DOGE d,
       when_do (truthy (jmem d ''indicators'')) (api_updateDOGEIndicators (jmem d ''indicators''))])"

subsection \<open>Fetching and the poll cycle\<close>

text \<open>\<open>error.message\<close> of the failures a fetch meets: the \<open>Error\<close> thrown for a status
  outside 200--299 (\<open>HTTP 500: ...\<close>), a network \<open>TypeError\<close>, the \<open>SyntaxError\<close> of a
  body that is not JSON. The browser's texts are not fixed; all are non-empty.\<close>

definition err_message :: "js_error \<Rightarrow> string" where
  "err_message e = (case e of HttpError s \<Rightarrow> ''HTTP '' @ nat_to_dec s @ '':''
                            | TypeError \<Rightarrow> ''Failed to fetch'' | SyntaxError \<Rightarrow> ''Unexpected token'')"

text \<open>\<open>fetchBTCData()\<close> and \<open>fetchDOGEData()\<close>, lines 121--145: the body of a successful
  response, \<open>{error: message}\<close> otherwise.\<close>

definition fetch_value :: "fetch_result \<Rightarrow> json" where
  "fetch_value r =
     (case r of
        FetchFailed e \<Rightarrow> JObj [(''error'', JStr (err_message e))]
      | FetchResponse s b \<Rightarrow>
          if 200 \<le> s \<and> s \<le> 299
          then (case b of Inr j \<Rightarrow> j | Inl e \<Rightarrow> JObj [(''error'', JStr (err_message e))])
          else JObj [(''error'', JStr (err_message (HttpError s)))])"

text \<open>\<open>data && !data.error\<close>.\<close>

definition fetch_ok :: "json \<Rightarrow> bool" where
  "fetch_ok j = (truthy (Some j) \<and> \<not> truthy (jmem (Some j) ''error''))"

text \<open>The two blocks of \<open>refreshData()\<close> after the join, lines 100--105 and 107--112.\<close>

definition poll_btc :: "fetch_result \<Rightarrow> emit" where
  "poll_btc rb =
     (if fetch_ok (fetch_value rb)
      then seq (api_updateBTCData (Some (fetch_value rb))) (emit1 (OLog Success MsgBtcUpdated))
      else emit1 (OLog Error MsgBtcFailed))"

definition poll_doge :: "fetch_result \<Rightarrow> emit" where
  "poll_doge rd =
     (if fetch_ok (fetch_value rd)
      then seq (api_updateDOGEData (Some (fetch_value rd))) (emit1 (OLog Success MsgDogeUpdated))
      else emit1 (OLog Error MsgDogeFailed))"

text \<open>The part of \<open>refreshData()\<close> after the join, lines 100--119.\<close>

definition pollJoin :: "fetch_result \<Rightarrow> fetch_result \<Rightarrow> emit" where
  "pollJoin rb rd = try_catch (seq (poll_btc rb) (poll_doge rd)) (\<lambda>e. emit1 (OLog Error (MsgRefreshFailed e)))"

text \<open>The part of \<open>refreshData()\<close> before the join (lines 91--98): \<open>updateLastUpdate()\<close>
  (lines 306--321) writes the time, and both requests are sent.\<close>

definition api_refreshData :: "clock \<Rightarrow> emit" where
  "api_refreshData now =
     seqs [emit1 (OSink (SetText LastUpdate (Plain now))), emit1 (OFetch ReqBtcData), emit1 (OFetch ReqDogeData)]"

subsection \<open>Buttons and the timer\<close>

definition api_updateConnectionStatus :: "bool \<Rightarrow> emit" where
  "api_updateConnectionStatus c =
     seq (emit1 (OSink (SetText ConnectionStatus (Label (if c then LConnected else LDisconnected)))))
         (emit1 (OSink (SetClass ConnectionStatus [''status'', if c then ''connected'' else ''disconnected''])))"

definition api_updateMonitoringStatus :: "bool \<Rightarrow> emit" where
  "api_updateMonitoringStatus m =
     seq (emit1 (OSink (SetText MonitoringStatus (Label (if m then LMonitoring else LStopped)))))
         (emit1 (OSink (SetClass MonitoringStatus [''status'', if m then ''active'' else ''stopped''])))"

text \<open>\<open>startMonitoring()\<close> and \<open>stopMonitoring()\<close>, lines 278--288: the flag, the
  status, the log. No refresh is started.\<close>

definition api_startMonitoring :: emit where
  "api_startMonitoring = seqs [emit1 (OMonitoring (Some (JBool True))), api_updateMonitoringStatus True,
                               emit1 (OLog Success MsgMonitorStarted)]"

definition api_stopMonitoring :: emit where
  "api_stopMonitoring = seqs [emit1 (OMonitoring (Some (JBool False))), api_updateMonitoringStatus False,
                              emit1 (OLog Warning MsgMonitorStopped)]"

text \<open>\<open>startAutoRefresh()\<close>, lines 72--81: log, refresh at once, then set the timer;
  \<open>stopAutoRefresh()\<close>, lines 83--89, which nothing calls.\<close>

definition startAutoRefresh :: "clock \<Rightarrow> emit" where
  "startAutoRefresh now = seqs [emit1 (OLog Info MsgAutoRefreshStarted), api_refreshData now, emit1 (OInterval True)]"

definition stopAutoRefresh :: "pc_state \<Rightarrow> emit" where
  "stopAutoRefresh st = when_do (pc_interval st) (seq (emit1 (OInterval False)) (emit1 (OLog Info MsgAutoRefreshStopped)))"

text \<open>\<open>updateUI()\<close>, lines 67--70.\<close>

definition api_updateUI :: emit where
  "api_updateUI = seq (api_updateConnectionStatus True) (api_updateMonitoringStatus False)"

subsection \<open>The client as a state machine\<close>

fun pc_apply :: "clock \<Rightarrow> out \<Rightarrow> pc_state \<Rightarrow> pc_state" where
  "pc_apply now (OSink c) st = st\<lparr>pc_dom := apply_call c (pc_dom st)\<rparr>"
| "pc_apply now (OLog k m) st = st\<lparr>pc_log := addLog now k m (pc_log st)\<rparr>"
| "pc_apply now (OFetch r) st = st\<lparr>pc_pending := add_mset r (pc_pending st)\<rparr>"
| "pc_apply now (OModal b) st = st\<lparr>pc_modal := b\<rparr>"
| "pc_apply now (OMonitoring v) st = st\<lparr>pc_monitoring := truthy v\<rparr>"
| "pc_apply now OClearLog st = st\<lparr>pc_log := api_clearLog (pc_log st)\<rparr>"
| "pc_apply now (OInterval b) st =
     (if b then st\<lparr>pc_interval := True, pc_timers := Suc (pc_timers st)\<rparr>
      else st\<lparr>pc_interval := False, pc_timers := pc_timers st - 1\<rparr>)"
| "pc_apply now _ st = st"

definition pc_run :: "clock \<Rightarrow> emit \<Rightarrow> pc_state \<Rightarrow> pc_state" where
  "pc_run now a st = fold (pc_apply now) (fst a) st"

text \<open>The events: a tick of the timer, the clicks bound by \<open>bindEvents()\<close> (lines 19--65;
  \<open>PModalClick b\<close> is a click on the dialog, \<open>b\<close> telling whether on its backdrop), and
  the end of a poll cycle with the outcomes of its two fetches.\<close>

datatype pc_event =
    PTick | PClickStart | PClickStop | PClickRefresh | PClickSettings | PClickClearLog
  | PClickClose | PModalClick bool | PJoin fetch_result fetch_result

text \<open>The timer's callback (lines 76--80) refreshes only while monitoring.\<close>

definition pc_handler :: "clock \<Rightarrow> pc_event \<Rightarrow> pc_state \<Rightarrow> emit" where
  "pc_handler now ev st =
     (case ev of
        PTick \<Rightarrow> when_do (pc_monitoring st) (api_refreshData now)
      | PClickStart \<Rightarrow> api_startMonitoring
      | PClickStop \<Rightarrow> api_stopMonitoring
      | PClickRefresh \<Rightarrow> api_refreshData now
      | PClickSettings \<Rightarrow> emit1 (OModal True)
      | PClickClearLog \<Rightarrow> emit1 OClearLog
      | PClickClose \<Rightarrow> emit1 (OModal False)
      | PModalClick b \<Rightarrow> when_do b (emit1 (OModal False))
      | PJoin rb rd \<Rightarrow> pollJoin rb rd)"

definition pc_handle :: "clock \<Rightarrow> pc_event \<Rightarrow> pc_state \<Rightarrow> pc_state" where
  "pc_handle now ev st =
     pc_run now (pc_handler now ev st)
       (case ev of PJoin _ _ \<Rightarrow> st\<lparr>pc_pending := pc_pending st - {#ReqBtcData, ReqDogeData#}\<rparr> | _ \<Rightarrow> st)"

definition pc_enabled :: "pc_event \<Rightarrow> pc_state \<Rightarrow> bool" where
  "pc_enabled ev st =
     (case ev of
        PTick \<Rightarrow> 0 < pc_timers st
      | PModalClick b \<Rightarrow> pc_modal st
      | PJoin _ _ \<Rightarrow> ReqBtcData \<in># pc_pending st \<and> ReqDogeData \<in># pc_pending st
      | _ \<Rightarrow> True)"

text \<open>The constructor (lines 4--11) and \<open>init()\<close> (lines 13--17) on a page holding
  \<open>d0\<close>.\<close>

definition pc_init :: "clock \<Rightarrow> dom \<Rightarrow> pc_state" where
  "pc_init now d0 =
     pc_run now (seq api_updateUI (startAutoRefresh now))
       \<lparr>pc_monitoring = False, pc_interval = False, pc_timers = 0, pc_dom = d0, pc_log = [],
        pc_pending = {#}, pc_modal = False\<rparr>"

inductive pc_reach :: "pc_state \<Rightarrow> bool" where
  init: "pc_reach (pc_init now d0)"
| step: "pc_reach st \<Longrightarrow> pc_enabled ev st \<Longrightarrow> pc_reach (pc_handle now ev st)"

text \<open>A step of the client that no user causes: a tick of the timer or the end of a
  poll cycle.\<close>

inductive pc_auto :: "pc_state \<Rightarrow> pc_state \<Rightarrow> bool" where
  tick: "pc_enabled PTick st \<Longrightarrow> pc_auto st (pc_handle now PTick st)"
| join: "pc_enabled (PJoin rb rd) st \<Longrightarrow> pc_auto st (pc_handle now (PJoin rb rd) st)"

text \<open>The effects that touch neither the timer nor the log's bound.\<close>

definition pc_quiet :: "out \<Rightarrow> bool" where
  "pc_quiet x = (case x of OInterval _ \<Rightarrow> False | _ \<Rightarrow> True)"

declare updateElement_def [js_eval] opt_toFixed_def [js_eval] opt_toLocale_def [js_eval] opt_str_def [js_eval]
  api_change_stmts_def [js_eval] api_stats_stmts_def [js_eval] api_boll_btc_def [js_eval]
  api_boll_doge_def [js_eval] api_kdj_def [js_eval] api_timeframe_def [js_eval]
  api_updateBTCIndicators_def [js_eval] api_updateDOGEIndicators_def [js_eval] api_updateBTCData_def [js_eval]
  api_updateDOGEData_def [js_eval] err_message_def [js_eval] fetch_value_def [js_eval] fetch_ok_def [js_eval]
  poll_btc_def [js_eval] poll_doge_def [js_eval] pollJoin_def [js_eval] api_refreshData_def [js_eval] api_updateConnectionStatus_def [js_eval]
  api_updateMonitoringStatus_def [js_eval] api_startMonitoring_def [js_eval] api_stopMonitoring_def [js_eval]
  startAutoRefresh_def [js_eval] stopAutoRefresh_def [js_eval] api_updateUI_def [js_eval]
  pc_run_def [js_eval] pc_handler_def [js_eval] pc_handle_def [js_eval] pc_enabled_def [js_eval]
  pc_init_def [js_eval]

subsection \<open>Footprints\<close>

lemma outs_all_updateElement: "(\<And>s. P (OSink (SetText el (Plain s)))) \<Longrightarrow> outs_all P (updateElement el v)"
  by (cases v) (simp_all add: updateElement_def outs_all_skip outs_all_when_do outs_all_emit1)

lemma api_outs_on_blocks:
  "outs_all (out_on i) (api_change_stmts (Change i) cv)"
  "outs_all (out_on i) (api_stats_stmts i d)"
  "outs_all (out_on BTC) (api_boll_btc t b)"
  "outs_all (out_on DOGE) (api_boll_doge t b)"
  "outs_all (out_on i) (api_kdj i t k)"
  unfolding api_change_stmts_def api_stats_stmts_def api_boll_btc_def api_boll_doge_def api_kdj_def
  by (intro outs_all_rules outs_all_updateElement; simp)+

lemma outs_all_api_timeframe:
  "(\<And>b. outs_all P (boll b)) \<Longrightarrow> (\<And>k. outs_all P (kdj k)) \<Longrightarrow> outs_all P (api_timeframe boll kdj ind key)"
  unfolding api_timeframe_def by (intro outs_all_rules)

lemma api_updateBTCData_on: "outs_all (out_on BTC) (api_updateBTCData d)"
  unfolding api_updateBTCData_def api_updateBTCIndicators_def
  by (intro outs_all_rules outs_all_set_text outs_all_api_timeframe api_outs_on_blocks; simp)

lemma api_updateDOGEData_on: "outs_all (out_on DOGE) (api_updateDOGEData d)"
  unfolding api_updateDOGEData_def api_updateDOGEIndicators_def list.map prod.case
  by (intro outs_all_rules outs_all_set_text outs_all_api_timeframe api_outs_on_blocks; simp)

lemma api_updateData_Normal [simp]:
  "snd (api_updateBTCData d) = Normal" "snd (api_updateDOGEData d) = Normal"
  by (simp_all add: api_updateBTCData_def api_updateDOGEData_def)

subsection \<open>Invariants\<close>

lemma pc_run_pair [simp]: "pc_run now (xs, c) st = fold (pc_apply now) xs st"
  by (simp add: pc_run_def)

lemma pc_run_frame:
  assumes "\<And>x st. P x \<Longrightarrow> f (pc_apply now x st) = f st" and "outs_all P a"
  shows "f (pc_run now a st) = f st"
proof -
  have "\<forall>x \<in> set xs. P x \<Longrightarrow> f (fold (pc_apply now) xs st) = f st" for xs st
    by (induction xs arbitrary: st) (simp_all add: assms(1))
  with assms(2) show ?thesis by (simp add: pc_run_def outs_all_def)
qed

lemma pc_dom_run: "pc_dom (pc_run now a st) = dom_apply (sinks (fst a)) (pc_dom st)"
proof -
  have "pc_dom (fold (pc_apply now) xs st) = dom_apply (sinks xs) (pc_dom st)" for xs st
  proof (induction xs arbitrary: st)
    case (Cons x xs)
    then show ?case by (cases x) (simp_all add: sinks_def)
  qed (simp add: sinks_def)
  then show ?thesis by (simp add: pc_run_def)
qed

lemma pc_log_run: "length (pc_log st) \<le> log_cap \<Longrightarrow> length (pc_log (pc_run now a st)) \<le> log_cap"
proof -
  have "length (pc_log st) \<le> log_cap \<Longrightarrow> length (pc_log (fold (pc_apply now) xs st)) \<le> log_cap" for xs st
  proof (induction xs arbitrary: st)
    case (Cons x xs)
    then show ?case
      by (cases x) (simp_all add: addLog_def length_log_append length_api_clearLog_le)
  qed simp
  then show "length (pc_log st) \<le> log_cap \<Longrightarrow> ?thesis" by (simp add: pc_run_def)
qed

lemma pollJoin_quiet: "outs_all pc_quiet (pollJoin rb rd)"
  unfolding pollJoin_def poll_btc_def poll_doge_def
  by (intro outs_all_rules outs_all_mono [OF api_updateBTCData_on] outs_all_mono [OF api_updateDOGEData_on];
      simp add: pc_quiet_def out_on_def split: out.splits)

lemma pc_handler_quiet: "outs_all pc_quiet (pc_handler now ev st)"
  by (cases ev) (simp_all add: pc_handler_def api_refreshData_def api_startMonitoring_def api_stopMonitoring_def
      api_updateMonitoringStatus_def pollJoin_quiet pc_quiet_def outs_all_skip outs_all_rules)

lemma pc_timers_step: "pc_timers (pc_handle now ev st) = pc_timers st \<and> pc_interval (pc_handle now ev st) = pc_interval st"
proof -
  have "(pc_timers (pc_run now (pc_handler now ev st) st'), pc_interval (pc_run now (pc_handler now ev st) st'))
        = (pc_timers st', pc_interval st')" for st'
  proof (rule pc_run_frame [OF _ pc_handler_quiet])
    fix x st
    show "pc_quiet x \<Longrightarrow> (pc_timers (pc_apply now x st), pc_interval (pc_apply now x st)) = (pc_timers st, pc_interval st)"
      by (cases x) (simp_all add: pc_quiet_def)
  qed
  then show ?thesis by (cases ev) (simp_all add: pc_handle_def)
qed

lemma pc_init_state:
  "pc_timers (pc_init now d0) = 1" "pc_interval (pc_init now d0)" "\<not> pc_monitoring (pc_init now d0)"
  "pc_pending (pc_init now d0) = {#ReqBtcData, ReqDogeData#}" "length (pc_log (pc_init now d0)) = 1"
  by (simp_all add: pc_init_def api_updateUI_def api_updateConnectionStatus_def api_updateMonitoringStatus_def
      startAutoRefresh_def api_refreshData_def emit1_def skip_def addLog_def log_append_def log_cap_def truthy_def)

text \<open>C10: The polling client holds exactly one interval timer in every reachable state: start and stop toggle a flag and never create or clear timers.\<close>

theorem pc_single_timer: "pc_reach st \<Longrightarrow> pc_timers st = 1 \<and> pc_interval st"
  by (induction rule: pc_reach.induct) (simp_all add: pc_init_state pc_timers_step)

text \<open>C27: In every reachable state of the polling client the log holds at most 100 entries.\<close>

theorem pc_log_bounded: "pc_reach st \<Longrightarrow> length (pc_log st) \<le> log_cap"
proof (induction rule: pc_reach.induct)
  case (init now d0)
  then show ?case by (simp add: pc_init_state log_cap_def)
next
  case (step st ev now)
  then show ?case by (cases ev) (simp_all add: pc_handle_def pc_log_run)
qed

subsection \<open>The poll cycle\<close>

lemma not_in_outs: "outs_all P a \<Longrightarrow> \<not> P x \<Longrightarrow> x \<notin> set (fst a)"
  by (auto simp: outs_all_def)

lemma poll_parts_Normal [simp]: "snd (poll_btc rb) = Normal" "snd (poll_doge rd) = Normal"
  by (simp_all add: poll_btc_def poll_doge_def emit1_def)

lemma fst_pollJoin: "fst (pollJoin rb rd) = fst (poll_btc rb) @ fst (poll_doge rd)"
  by (simp add: pollJoin_def try_catch_def)

lemma poll_btc_outs:
  "outs_all (\<lambda>x. out_on BTC x \<or> x = OLog Success MsgBtcUpdated \<or> x = OLog Error MsgBtcFailed) (poll_btc rb)"
  unfolding poll_btc_def
  by (intro outs_all_rules outs_all_mono [OF api_updateBTCData_on]; simp)

lemma poll_doge_outs:
  "outs_all (\<lambda>x. out_on DOGE x \<or> x = OLog Success MsgDogeUpdated \<or> x = OLog Error MsgDogeFailed) (poll_doge rd)"
  unfolding poll_doge_def
  by (intro outs_all_rules outs_all_mono [OF api_updateDOGEData_on]; simp)

lemma poll_btc_view:
  "filter (\<lambda>c. elem_inst (call_elem c) = Some BTC) (sinks (fst (poll_btc rb)))
   = (if fetch_ok (fetch_value rb) then sinks (fst (api_updateBTCData (Some (fetch_value rb)))) else [])"
  using filter_sinks_all [OF api_updateBTCData_on [of "Some (fetch_value rb)"], of "\<lambda>c. elem_inst (call_elem c) = Some BTC"]
  by (simp add: poll_btc_def emit1_def sinks_def)

lemma poll_doge_view:
  "filter (\<lambda>c. elem_inst (call_elem c) = Some DOGE) (sinks (fst (poll_doge rd)))
   = (if fetch_ok (fetch_value rd) then sinks (fst (api_updateDOGEData (Some (fetch_value rd)))) else [])"
  using filter_sinks_all [OF api_updateDOGEData_on [of "Some (fetch_value rd)"], of "\<lambda>c. elem_inst (call_elem c) = Some DOGE"]
  by (simp add: poll_doge_def emit1_def sinks_def)

lemma poll_btc_no_doge: "filter (\<lambda>c. elem_inst (call_elem c) = Some DOGE) (sinks (fst (poll_btc rb))) = []"
  by (rule filter_sinks_none [OF poll_btc_outs]) (auto simp: out_on_def)

lemma poll_doge_no_btc: "filter (\<lambda>c. elem_inst (call_elem c) = Some BTC) (sinks (fst (poll_doge rd))) = []"
  by (rule filter_sinks_none [OF poll_doge_outs]) (auto simp: out_on_def)

lemma poll_btc_logged:
  "(OLog Success MsgBtcUpdated \<in> set (fst (poll_btc rb))) = fetch_ok (fetch_value rb)"
  using not_in_outs [OF api_updateBTCData_on, of "OLog Success MsgBtcUpdated"]
  by (auto simp: poll_btc_def emit1_def out_on_def)

lemma poll_doge_logged:
  "(OLog Success MsgDogeUpdated \<in> set (fst (poll_doge rd))) = fetch_ok (fetch_value rd)"
  using not_in_outs [OF api_updateDOGEData_on, of "OLog Success MsgDogeUpdated"]
  by (auto simp: poll_doge_def emit1_def out_on_def)

text \<open>C8: Fault isolation of a poll cycle: the BTC elements receive exactly the writes of \<open>updateBTCData\<close> when the BTC fetch gave data and nothing otherwise, whatever the DOGE fetch did, and symmetrically; each instrument's success is logged exactly when its own fetch succeeded.\<close>

theorem pollJoin_isolation:
  "filter (\<lambda>c. elem_inst (call_elem c) = Some BTC) (sinks (fst (pollJoin rb rd)))
     = (if fetch_ok (fetch_value rb) then sinks (fst (api_updateBTCData (Some (fetch_value rb)))) else [])
   \<and> filter (\<lambda>c. elem_inst (call_elem c) = Some DOGE) (sinks (fst (pollJoin rb rd)))
     = (if fetch_ok (fetch_value rd) then sinks (fst (api_updateDOGEData (Some (fetch_value rd)))) else [])
   \<and> (OLog Success MsgBtcUpdated \<in> set (fst (pollJoin rb rd))) = fetch_ok (fetch_value rb)
   \<and> (OLog Success MsgDogeUpdated \<in> set (fst (pollJoin rb rd))) = fetch_ok (fetch_value rd)"
proof -
  have "OLog Success MsgBtcUpdated \<notin> set (fst (poll_doge rd))"
    by (rule not_in_outs [OF poll_doge_outs]) (simp add: out_on_def)
  moreover have "OLog Success MsgDogeUpdated \<notin> set (fst (poll_btc rb))"
    by (rule not_in_outs [OF poll_btc_outs]) (simp add: out_on_def)
  ultimately show ?thesis
    by (simp add: fst_pollJoin poll_btc_view poll_doge_view poll_btc_no_doge poll_doge_no_btc
        poll_btc_logged poll_doge_logged)
qed

text \<open>C22: A BTC response with an HTTP status outside 200--299 leaves the BTC elements unwritten and logs the BTC failure.\<close>

theorem pollJoin_http_error:
  assumes "\<not> (200 \<le> s \<and> s \<le> 299)"
  shows "filter (\<lambda>c. elem_inst (call_elem c) = Some BTC) (sinks (fst (pollJoin (FetchResponse s b) rd))) = []
   \<and> OLog Error MsgBtcFailed \<in> set (fst (pollJoin (FetchResponse s b) rd))"
proof -
  have "fetch_value (FetchResponse s b) = JObj [(''error'', JStr (err_message (HttpError s)))]"
    using assms by (auto simp: fetch_value_def)
  then have "\<not> fetch_ok (fetch_value (FetchResponse s b))"
    by (simp add: fetch_ok_def jmem_def jget_def truthy_def err_message_def)
  then show ?thesis
    by (simp add: fst_pollJoin poll_btc_view poll_doge_no_btc) (simp add: poll_btc_def emit1_def)
qed

text \<open>C26: A timer tick is a refresh while monitoring and changes nothing otherwise.\<close>

theorem pc_tick_gated:
  "pc_handle now PTick st = (if pc_monitoring st then pc_handle now PClickRefresh st else st)"
  by (simp add: pc_handle_def pc_handler_def when_do_def skip_def)

text \<open>C20: Starting the polling client's monitoring issues no request (the next refresh waits for the timer), while the constructor refreshes at once with monitoring off.\<close>

theorem pc_start_no_refresh:
  "pc_pending (pc_handle now PClickStart st) = pc_pending st \<and> pc_monitoring (pc_handle now PClickStart st)
   \<and> \<not> pc_monitoring (pc_init now' d0) \<and> pc_pending (pc_init now' d0) = {#ReqBtcData, ReqDogeData#}"
  by (simp add: pc_handle_def pc_handler_def api_startMonitoring_def api_updateMonitoringStatus_def emit1_def
      truthy_def pc_init_state)

lemma text_writes_other: "\<forall>t. c \<noteq> SetText e t \<Longrightarrow> text_writes e (c # cs) = text_writes e cs"
  by (cases c) auto

lemma text_writes_none:
  "\<forall>x \<in> set xs. \<forall>c. x \<noteq> OSink (SetText e c) \<Longrightarrow> text_writes e (sinks xs) = []"
proof (induction xs)
  case (Cons x xs)
  then show ?case
    by (cases x) (simp_all add: sinks_def text_writes_other)
qed (simp add: sinks_def)

lemma updateElement_Normal [simp]: "snd (updateElement el v) = Normal"
  by (simp add: updateElement_def when_do_def emit1_def skip_def split: option.split)

lemma outs_all_when_do_false: "\<not> b \<Longrightarrow> outs_all P (when_do b a)"
  by (simp add: when_do_def outs_all_skip)

text \<open>C23: Every BTC payload that lacks the 24-hour figures, and whose change is absent or a number (so that the earlier statements do not throw), makes the polling client write the text \<open>undefined%\<close> into the volatility and growth elements: \<open>updateElement\<close> filters \<open>'undefined'\<close>, not \<open>'undefined%'\<close>.\<close>

theorem api_undefined_percent:
  assumes amp: "jmem d ''amplitude_24h'' = None" and gr: "jmem d ''growth_24h'' = None"
    and ch: "jmem d ''change'' = None \<or> (\<exists>r. jmem d ''change'' = Some (JNum r))"
  shows "OSink (SetText (Volatility BTC) (Plain ''undefined%'')) \<in> set (fst (api_updateBTCData d))
       \<and> OSink (SetText (Growth BTC) (Plain ''undefined%'')) \<in> set (fst (api_updateBTCData d))"
proof -
  have p: "snd (when_do (truthy (jmem d ''price''))
             (set_text (Price BTC) (js_toLocaleString (intl_format 2 2) (jmem d ''price'')))) = Normal"
    by (auto simp: when_do_def set_text_def js_toLocaleString_def with_val_def emit1_def skip_def
        dest: truthy_not_nullish)
  have c: "snd (when_do (jmem d ''change'' \<noteq> None) (api_change_stmts (Change BTC) (jmem d ''change''))) = Normal"
    using ch by (auto simp: when_do_def skip_def api_change_stmts_def with_val_def js_toFixed_def emit1_def seq_def)
  have "api_stats_stmts BTC d = ([OSink (SetText (Volatility BTC) (Plain ''undefined%'')),
                                          OSink (SetText (Growth BTC) (Plain ''undefined%''))], Normal)"
    using amp gr by (simp add: api_stats_stmts_def opt_toFixed_def nullish_def opt_str_def updateElement_def
        with_val_def when_do_def emit1_def seq_def)
  then show ?thesis
    using p c by (simp add: api_updateBTCData_def)
qed

text \<open>C24: Every BTC payload whose price is falsy (missing, \<open>null\<close>, \<open>0\<close>, \<open>false\<close> or the empty string) leaves the price element unwritten, whatever else it carries: the presence test is the truthiness of the value, so a price of 0 is never shown.\<close>

theorem api_price_falsy_kept:
  assumes "\<not> truthy (jmem d ''price'')"
  shows "text_writes (Price BTC) (sinks (fst (api_updateBTCData d))) = []"
proof -
  have "outs_all (\<lambda>x. \<forall>c. x \<noteq> OSink (SetText (Price BTC) c)) (api_updateBTCData d)"
    unfolding api_updateBTCData_def api_change_stmts_def api_stats_stmts_def api_updateBTCIndicators_def
      api_boll_btc_def api_kdj_def
    by (intro outs_all_rules outs_all_when_do_false [OF assms] outs_all_api_timeframe outs_all_updateElement; simp)
  then show ?thesis by (intro text_writes_none) (simp add: outs_all_def)
qed

text \<open>C25: Every indicator payload whose 4-hour Bollinger block lacks its upper band (missing or \<open>null\<close>) makes the polling client write the text \<open>$undefined\<close> into the upper-band element: \<open>updateElement\<close> filters only the exact string \<open>'undefined'\<close>.\<close>

theorem api_boll_dollar_undefined:
  assumes t: "truthy (jmem ind ''4h'')" and b: "truthy (jmem (jmem ind ''4h'') ''boll'')"
    and u: "nullish (jmem (jmem (jmem ind ''4h'') ''boll'') ''UP'')"
  shows "OSink (SetText (BollEl BTC TF4h Upper) (Plain ''$undefined'')) \<in> set (fst (api_updateBTCIndicators ind))"
proof -
  have "OSink (SetText (BollEl BTC TF4h Upper) (Plain ''$undefined''))
          \<in> set (fst (api_boll_btc TF4h (jmem (jmem ind ''4h'') ''boll'')))"
    using u by (simp add: api_boll_btc_def opt_toLocale_def opt_str_def updateElement_def when_do_def emit1_def)
  then show ?thesis
    using t b unfolding api_updateBTCIndicators_def api_timeframe_def
    by (simp add: when_do_def) (meson fst_seq_prefix set_mono_prefix subsetD)
qed

subsection \<open>Progress of the poll loop\<close>

lemma pc_reach_tick_enabled: "pc_reach st \<Longrightarrow> pc_enabled PTick st"
  using pc_single_timer by (simp add: pc_enabled_def)

lemma pc_tick_refresh:
  "pc_monitoring st \<Longrightarrow>
   pc_handle now PTick st = pc_run now (api_refreshData now) st"
  by (simp add: pc_handle_def pc_handler_def when_do_def)

lemma pc_refresh_state:
  "pc_pending (pc_run now (api_refreshData now) st) = pc_pending st + {#ReqBtcData, ReqDogeData#}"
  "pc_dom (pc_run now (api_refreshData now) st) = apply_call (SetText LastUpdate (Plain now)) (pc_dom st)"
  by (simp_all add: api_refreshData_def emit1_def)

text \<open>C9: While monitoring, and with no user action, the timer starts a refresh and the end of its two fetches draws them: from every reachable monitoring state and for every outcome of the fetches, ticks and joins reach a page carrying the new time and the cycle's writes.\<close>

theorem pc_poll_live:
  assumes "pc_reach st" "pc_monitoring st"
  shows "\<exists>st'. pc_auto\<^sup>*\<^sup>* st st'
           \<and> pc_dom st' = dom_apply (sinks (fst (pollJoin rb rd)))
                            (apply_call (SetText LastUpdate (Plain now)) (pc_dom st))"
proof -
  define st1 where "st1 = pc_handle now PTick st"
  have step1: "pc_auto st st1"
    unfolding st1_def by (rule pc_auto.tick, rule pc_reach_tick_enabled [OF assms(1)])
  have st1: "st1 = pc_run now (api_refreshData now) st"
    using assms(2) unfolding st1_def by (rule pc_tick_refresh)
  have en: "pc_enabled (PJoin rb rd) st1"
    by (simp add: st1 pc_refresh_state pc_enabled_def)
  have step2: "pc_auto st1 (pc_handle now (PJoin rb rd) st1)"
    by (rule pc_auto.join [OF en])
  have "pc_dom (pc_handle now (PJoin rb rd) st1) =
      dom_apply (sinks (fst (pollJoin rb rd))) (pc_dom st1)"
    by (simp add: pc_handle_def pc_handler_def pc_dom_run)
  also have "pc_dom st1 = apply_call (SetText LastUpdate (Plain now)) (pc_dom st)"
    by (simp only: st1 pc_refresh_state)
  finally show ?thesis
    using step1 step2 by (blast intro: rtranclp.rtrancl_into_rtrancl r_into_rtranclp)
qed

text \<open>C21: The refresh the constructor starts is drawn when it ends although monitoring was never started: the join checks no state.\<close>

theorem pc_init_refresh_drawn:
  "\<not> pc_monitoring (pc_init now d0) \<and> pc_enabled (PJoin rb rd) (pc_init now d0)
   \<and> pc_dom (pc_handle now' (PJoin rb rd) (pc_init now d0))
     = dom_apply (sinks (fst (pollJoin rb rd))) (pc_dom (pc_init now d0))"
  by (simp add: pc_init_state pc_enabled_def pc_handle_def pc_handler_def pc_dom_run)

subsection \<open>Instances\<close>

lemma pc_reach_init_start: "pc_reach (pc_init ''00:00:00'' \<lparr>dom_text = \<lambda>_. Plain [], dom_class = \<lambda>_. []\<rparr>)" "pc_reach (pc_handle ''00:00:01'' PClickStart (pc_init ''00:00:00'' \<lparr>dom_text = \<lambda>_. Plain [], dom_class = \<lambda>_. []\<rparr>))" "pc_monitoring (pc_handle ''00:00:01'' PClickStart (pc_init ''00:00:00'' \<lparr>dom_text = \<lambda>_. Plain [], dom_class = \<lambda>_. []\<rparr>))"
proof -
  show r: "pc_reach (pc_init ''00:00:00'' \<lparr>dom_text = \<lambda>_. Plain [], dom_class = \<lambda>_. []\<rparr>)" by (rule pc_reach.init)
  show "pc_reach (pc_handle ''00:00:01'' PClickStart (pc_init ''00:00:00'' \<lparr>dom_text = \<lambda>_. Plain [], dom_class = \<lambda>_. []\<rparr>))" by (rule pc_reach.step [OF r]) (simp add: pc_enabled_def)
  show "pc_monitoring (pc_handle ''00:00:01'' PClickStart (pc_init ''00:00:00'' \<lparr>dom_text = \<lambda>_. Plain [], dom_class = \<lambda>_. []\<rparr>))"
    by (simp add: pc_handle_def pc_handler_def api_startMonitoring_def api_updateMonitoringStatus_def
        emit1_def truthy_def)
qed

theorem pc_single_timer_witness:
  "pc_reach (pc_handle ''00:00:01'' PClickStart (pc_init ''00:00:00'' \<lparr>dom_text = \<lambda>_. Plain [], dom_class = \<lambda>_. []\<rparr>)) \<and> pc_timers (pc_handle ''00:00:01'' PClickStart (pc_init ''00:00:00'' \<lparr>dom_text = \<lambda>_. Plain [], dom_class = \<lambda>_. []\<rparr>)) = 1 \<and> pc_interval (pc_handle ''00:00:01'' PClickStart (pc_init ''00:00:00'' \<lparr>dom_text = \<lambda>_. Plain [], dom_class = \<lambda>_. []\<rparr>))"
  using pc_single_timer [OF pc_reach_init_start(2)] pc_reach_init_start(2) by simp

theorem pc_log_bounded_witness:
  "pc_reach (pc_handle ''00:00:01'' PClickStart (pc_init ''00:00:00'' \<lparr>dom_text = \<lambda>_. Plain [], dom_class = \<lambda>_. []\<rparr>)) \<and> length (pc_log (pc_handle ''00:00:01'' PClickStart (pc_init ''00:00:00'' \<lparr>dom_text = \<lambda>_. Plain [], dom_class = \<lambda>_. []\<rparr>))) \<le> log_cap"
  using pc_log_bounded [OF pc_reach_init_start(2)] pc_reach_init_start(2) by simp

theorem pollJoin_http_error_witness:
  "\<not> (200 \<le> (503::nat) \<and> (503::nat) \<le> 299)
   \<and> filter (\<lambda>c. elem_inst (call_elem c) = Some BTC)
       (sinks (fst (pollJoin (FetchResponse 503 (Inr JNull)) (FetchFailed TypeError)))) = []
   \<and> OLog Error MsgBtcFailed \<in> set (fst (pollJoin (FetchResponse 503 (Inr JNull)) (FetchFailed TypeError)))"
proof -
  have h: "\<not> (200 \<le> (503::nat) \<and> (503::nat) \<le> 299)" by simp
  from pollJoin_http_error [OF h] h show ?thesis by blast
qed

theorem pc_poll_live_witness:
  "pc_reach (pc_handle ''00:00:01'' PClickStart (pc_init ''00:00:00'' \<lparr>dom_text = \<lambda>_. Plain [], dom_class = \<lambda>_. []\<rparr>)) \<and> pc_monitoring (pc_handle ''00:00:01'' PClickStart (pc_init ''00:00:00'' \<lparr>dom_text = \<lambda>_. Plain [], dom_class = \<lambda>_. []\<rparr>))
   \<and> (\<exists>st'. pc_auto\<^sup>*\<^sup>* (pc_handle ''00:00:01'' PClickStart (pc_init ''00:00:00'' \<lparr>dom_text = \<lambda>_. Plain [], dom_class = \<lambda>_. []\<rparr>)) st'
        \<and> pc_dom st' = dom_apply (sinks (fst (pollJoin (FetchFailed TypeError) (FetchFailed TypeError))))
                         (apply_call (SetText LastUpdate (Plain ''00:00:02'')) (pc_dom (pc_handle ''00:00:01'' PClickStart (pc_init ''00:00:00'' \<lparr>dom_text = \<lambda>_. Plain [], dom_class = \<lambda>_. []\<rparr>)))))"
  using pc_poll_live [OF pc_reach_init_start(2,3)] pc_reach_init_start(2,3) by blast

theorem api_undefined_percent_witness:
  "jmem (Some (JObj [(''price'', JNum 65000)])) ''amplitude_24h'' = None
   \<and> jmem (Some (JObj [(''price'', JNum 65000)])) ''growth_24h'' = None
   \<and> OSink (SetText (Volatility BTC) (Plain ''undefined%'')) \<in> set (fst (api_updateBTCData (Some (JObj [(''price'', JNum 65000)]))))
   \<and> OSink (SetText (Growth BTC) (Plain ''undefined%'')) \<in> set (fst (api_updateBTCData (Some (JObj [(''price'', JNum 65000)]))))"
  using api_undefined_percent [of "Some (JObj [(''price'', JNum 65000)])"] by (simp add: jmem_def jget_def)

theorem api_price_falsy_kept_witness:
  "\<not> truthy (jmem (Some (JObj [(''price'', JNum 0), (''change'', JNum 1)])) ''price'')
   \<and> text_writes (Price BTC) (sinks (fst (api_updateBTCData (Some (JObj [(''price'', JNum 0), (''change'', JNum 1)]))))) = []"
  using api_price_falsy_kept [of "Some (JObj [(''price'', JNum 0), (''change'', JNum 1)])"]
  by (simp add: jmem_def jget_def truthy_def)

theorem api_boll_dollar_undefined_witness:
  "truthy (jmem (Some (JObj [(''4h'', JObj [(''boll'', JObj [(''MB'', JNum 1)])])])) ''4h'')
   \<and> OSink (SetText (BollEl BTC TF4h Upper) (Plain ''$undefined''))
       \<in> set (fst (api_updateBTCIndicators (Some (JObj [(''4h'', JObj [(''boll'', JObj [(''MB'', JNum 1)])])]))))"
  using api_boll_dollar_undefined [of "Some (JObj [(''4h'', JObj [(''boll'', JObj [(''MB'', JNum 1)])])])"]
  by (simp add: jmem_def jget_def truthy_def nullish_def)

end
