(* ===== verification/Spec2Isabelle.thy ===== *)
theory Spec2Isabelle
  imports Monitor PollClient
begin

text \<open>
  \<^bold>\<open>A verification library for the browser clients of the Binance quantitative monitor.\<close>

  The program is two JavaScript clients of one dashboard page:
  \<^item> \<open>src/web/static/js/app.js\<close>, class \<open>TradingMonitor\<close>: a socket client. It receives
    \<open>connect\<close>, \<open>disconnect\<close>, \<open>status\<close> and \<open>market_update\<close> events, sends
    \<open>start_monitoring\<close>/\<open>stop_monitoring\<close>, refreshes through \<open>GET /api/data\<close>, keeps
    an activity log and edits the strategy settings through \<open>/api/settings\<close>.
  \<^item> \<open>src/web/static/js/api-client.js\<close>, class \<open>APITradingMonitor\<close>: a polling client
    that fetches \<open>/api/btc-data\<close> and \<open>/api/doge-data\<close> every three seconds while
    monitoring.

  Both write the page through element ids (the view sink), the log through \<open>addLog\<close>,
  and react to one event at a time: every handler runs to completion before the next
  event, so a client is a state machine over events.

  \<^bold>\<open>Theories.\<close>
  \<^item> \<open>Prelude\<close>: the named collections (\<open>js_eval\<close>: the evaluation rules that compute
    the model on concrete inputs; \<open>emit_simps\<close>), \<open>keep_last\<close> and its lemmas,
    \<open>join_with\<close> (\<open>Array.join\<close>), floor lemmas for exact evaluation.
  \<^item> \<open>JsNumber\<close>: JavaScript numbers as exact rationals and the conversions the clients
    use: \<open>Number.prototype.toString\<close> (\<open>js_num_to_string\<close>; \<open>dec_places\<close> looks for
    the shortest exact decimal expansion with a fuel of 40 fractional digits, which covers
    every decimal the server can write with 17 significant digits down to \<open>1e-23\<close>; a
    rational without such an expansion is printed with 20 rounded digits),
    \<open>toFixed\<close> (\<open>to_fixed\<close>), \<open>toLocaleString\<close> in en-US (\<open>intl_format\<close>),
    \<open>parseFloat\<close> and \<open>parseInt\<close>. Lemmas: printing and reading decimals are inverse,
    \<open>toFixed\<close> is read back by \<open>parseFloat\<close> as the rounded value, the rounding error
    is at most half a unit of the last place.
  \<^item> \<open>JsValue\<close>: JSON payloads (\<open>json\<close>, \<open>None\<close> for \<open>undefined\<close>), property access
    and optional chaining, the \<open>TypeError\<close> of \<open>undefined.x\<close>, truthiness, \<open>||\<close>,
    \<open>String(v)\<close>, \<open>Number(v)\<close> and relational comparison with \<open>NaN\<close>.
  \<^item> \<open>Dom\<close>: the view sink. The elements of the page (\<open>elem\<close>, with their ids
    \<open>elem_id\<close>), the calls \<open>SetText\<close>, \<open>SetClass\<close> and \<open>KdjColor\<close> (the class-list
    update of \<open>setKDJColor\<close>, app.js 398--416), and the page as a record of texts and
    class lists. Lemmas: last write wins, applying a call sequence twice is applying it
    once, the oscillator bands, distinct ids.
  \<^item> \<open>LogBuffer\<close>: \<open>addLog\<close> (app.js 487--505) and both \<open>clearLog\<close>s; the log is a bounded
    FIFO (\<open>log_append_all_fifo\<close>: it refines \<open>keep_last 100\<close>).
  \<^item> \<open>Effects\<close>: a handler is modelled as the list of its effects (\<open>out\<close>: view calls, log
    entries, socket commands, requests, assignments of the client's fields) with its
    completion (\<open>Normal\<close> or \<open>Throw e\<close>); statements, \<open>try/catch\<close> and evaluation of a
    throwing expression are combinators (\<open>seq\<close>, \<open>try_catch\<close>, \<open>with_val\<close>, ...), and
    \<open>outs_all\<close> bounds the effects a statement can have.
  \<^item> \<open>Reconciler\<close>: \<open>handleMarketUpdate\<close> and everything it calls (app.js 148--463).
    Lemmas: Scenario A, a missing band abandons the rest of an indicator update, each
    instrument's update writes only its own elements and the DOGE view of an update is
    exactly that of its DOGE payload, the signal list (drawn, logged, notified, stored;
    count zero; \<open>null\<close> signals).
  \<^item> \<open>Settings\<close>: the settings dialog (app.js 527--656). Lemmas: save then load is the
    identity on canonical non-zero inputs; the effects of restoring the defaults.
  \<^item> \<open>Monitor\<close>: the socket client as a state machine. \<open>tm_state\<close> holds the fields of
    the object and what its handlers change outside it (page, log, socket, requests in
    flight as a multiset, sounds, dialog, form); \<open>tm_handler\<close> gives each event's
    handler, \<open>tm_handle\<close> applies its effects, \<open>tm_enabled\<close> says when an event can happen
    (server events on an open connection, responses to requests in flight, dialog buttons
    while shown), \<open>tm_reach\<close> is reachability from the constructor. Lemmas: the log bound
    and the status display are invariants; the socket commands are exactly those of the
    guarded clicks; only the save button posts settings; restoring the defaults changes
    only the draft and the log, and writes 300.00 and 100.00 for the thresholds. The
    refinement: \<open>ms_step\<close> is the design's machine (section 4.3 of the design) with
    labelled transitions, one successor per label; \<open>ms_abs\<close> reads the two flags as its
    state and \<open>ms_label\<close> names the design's event a client event stands for (a
    \<open>status\<close> that turns the flag on or off confirms a start or a stop, every other event
    is none); every enabled event takes the labelled transition, except a reconnect after a
    disconnect while monitoring, which is reachable and jumps to connected-and-monitoring.
    A market update draws deterministically and idempotently; the first signal update
    after connecting already logs (no silent baseline); Scenario C; a late refresh
    response is drawn.
  \<^item> \<open>PollClient\<close>: the polling client \<open>api-client.js\<close> as a state machine. \<open>pc_state\<close>
    holds the monitoring flag, the interval timer (\<open>intervalId\<close> and the number of live
    timers), page, log, requests in flight and dialog; events are timer ticks, clicks and
    the end of a poll cycle (\<open>PJoin\<close>: both fetches of \<open>Promise.all\<close> ended, with their
    outcomes; since the code looks at the results only after the join, the order in which
    the two fetches end does not matter). \<open>fetch_value\<close> is the value \<open>fetchBTCData\<close>
    returns, the body or \<open>{error: message}\<close>. Lemmas: exactly one timer and at most 100
    log entries in every reachable state; fault isolation of the two fetches; an HTTP
    error leaves the view and logs; liveness: from a monitoring state, timer ticks and
    fetch completions alone (\<open>pc_auto\<close>, no user action) reach the refreshed page; a tick
    refreshes exactly while monitoring; start issues no refresh while the constructor
    refreshes with monitoring off, and that refresh is drawn; \<open>undefined%\<close> is written
    for every payload without the 24-hour figures, \<open>$undefined\<close> for every missing
    upper band, and a falsy price (0 included) is never written.
  \<^item> Termination: the lemma \<open>dec_places_decimal\<close> shows that the fuel of 40 suffices for every
    decimal with fewer than 40 places, so \<open>Number::toString\<close> takes its exact branch
    on such values; the other recursions are \<open>fun\<close>s with automatic termination proofs.

  \<^bold>\<open>Modelling choices.\<close> Numbers are exact rationals: the results hold for decimal
  inputs as the server writes them, not for binary double rounding. \<open>NaN\<close> is \<open>None\<close>
  where a conversion can produce it. Hexadecimal, octal, binary and \<open>Infinity\<close> strings
  read as \<open>NaN\<close>. The clock is a parameter of each event (\<open>toLocaleTimeString\<close>).
  Every element the code looks up is assumed present (the markup is not in the sources).

  \<^bold>\<open>Not modelled.\<close> The audio of \<open>playNotificationSound\<close> (counted only), the console,
  the page lifecycle (\<open>DOMContentLoaded\<close>, \<open>beforeunload\<close>), a failure of \<open>io()\<close> at
  start-up, the CSS and markup. In \<open>api-client.js\<close>: the assignment \<open>this.lastUpdate =
  now\<close> (never read), the \<open>if (element)\<close> guards (every element is present), and the
  \<open>statusText\<close> of the HTTP error message (only its being non-empty matters).
\<close>

end
